theory Spec2Isabelle
  imports Main "HOL-Library.Signed_Division"
begin

section \<open>Elemental's AxpyInterface (include/elemental/axpy_interface.hpp)\<close>

text \<open>
  The class \<^verbatim>\<open>AxpyInterface<T>\<close> emulates one-sided updates and reads of a
  distributed matrix on top of non-blocking sends, probes and receives. The embedding
  below follows the header function by function.

  Conventions of the embedding.
  \<^item> A C++ \<^verbatim>\<open>int\<close> has 32 bits. Its values are kept as \<^typ>\<open>int\<close>, and every
    sum and product the header computes in \<^verbatim>\<open>int\<close> is reduced to 32 bits in two's
    complement (\<open>add32\<close>, \<open>mul32\<close>), which is what the compiled code does on signed
    overflow. A byte count computed in \<^verbatim>\<open>size_t\<close> and stored in an \<^verbatim>\<open>int\<close> keeps its low
    32 bits (\<open>int32\<close>). The operator \<^verbatim>\<open>%\<close> truncates towards zero (\<open>smod\<close>); a zero
    divisor is undefined behaviour.
  \<^item> A function takes the world (the interface object, the store holding the
    distributed matrices it points to, and the log of what it has done to the outside)
    and returns a result together with the world at the moment it returned,
    threw, or ran into undefined behaviour.
  \<^item> What the message-passing layer answers (a probe's answer, the outcome of a
    completion test) is an argument of the function that asks.
  \<^item> The call-stack bookkeeping of debug builds (\<^verbatim>\<open>PushCallStack\<close>,
    \<^verbatim>\<open>PopCallStack\<close>) touches nothing the interface reads and is left out.
\<close>

subsection \<open>Results\<close>

datatype error = logic_error string | length_error

text \<open>
  \<open>Threw\<close>: a C++ exception left the function. \<open>Undefined\<close>: the function ran into
  undefined behaviour (a null or dangling matrix pointer, an index outside a vector or
  outside a matrix's memory, a write past the end of a send buffer, a zero divisor). \<open>Blocked\<close>: a polling loop has consumed
  every scheduled answer of the message-passing layer without reaching its exit
  condition.
\<close>

datatype 'r result = Returned 'r | Threw error | Undefined | Blocked

fun reraise :: "'r result \<Rightarrow> 'q result" where
  \<comment> \<open>passes on the outcome of a callee that did not return, at the caller's result type;
      it is applied to no \<open>Returned\<close>\<close>
  "reraise (Threw e) = Threw e"
| "reraise Blocked = Blocked"
| "reraise Undefined = Undefined"
| "reraise (Returned x) = Undefined"

subsection \<open>Machine integers\<close>

definition int32 :: "int \<Rightarrow> int" where
  \<comment> \<open>the \<^verbatim>\<open>int\<close> with the same low 32 bits\<close>
  "int32 x = (x + 2147483648) mod 4294967296 - 2147483648"

definition add32 :: "int \<Rightarrow> int \<Rightarrow> int" where
  \<comment> \<open>\<^verbatim>\<open>a + b\<close> in \<^verbatim>\<open>int\<close>\<close>
  "add32 a b = int32 (a + b)"

definition mul32 :: "int \<Rightarrow> int \<Rightarrow> int" where
  \<comment> \<open>\<^verbatim>\<open>a * b\<close> in \<^verbatim>\<open>int\<close>\<close>
  "mul32 a b = int32 (a * b)"

subsection \<open>The data model\<close>

datatype AxpyType = LOCAL_TO_GLOBAL | GLOBAL_TO_LOCAL

definition DATA_TAG :: int where "DATA_TAG = 1"
definition EOM_TAG :: int where "EOM_TAG = 2"
definition DATA_REQUEST_TAG :: int where "DATA_REQUEST_TAG = 3"
definition DATA_REPLY_TAG :: int where "DATA_REPLY_TAG = 4"

text \<open>The three header structs; the fields keep their names behind a prefix.\<close>

record 'a LocalToGlobalHeader =
  ltg_i :: int
  ltg_j :: int
  ltg_height :: int
  ltg_width :: int
  ltg_alpha :: 'a

record GlobalToLocalRequestHeader =
  req_i :: int
  req_j :: int
  req_height :: int
  req_width :: int

record GlobalToLocalReplyHeader =
  processRow :: int
  processCol :: int

text \<open>
  What the code has written into a character buffer: a header copied to the front and
  the entries of type T stored behind it, in the order of their positions. Bytes the
  code did not write are not represented.
\<close>

datatype 'a bytes =
    Unwritten
  | DataBytes "'a LocalToGlobalHeader" "'a list"
  | RequestBytes GlobalToLocalRequestHeader
  | ReplyBytes GlobalToLocalReplyHeader "'a list"
  | DummyByte

text \<open>A \<^verbatim>\<open>std::vector<char>\<close>: its size and what was written into it.\<close>

record 'a charvec =
  cv_size :: nat
  cv_bytes :: "'a bytes"

definition empty_charvec :: "'a charvec" where
  "empty_charvec = \<lparr>cv_size = 0, cv_bytes = Unwritten\<rparr>"

text \<open>
  The process grid, the distributed matrix and the local matrix are classes of the
  library that are not among the sources; only the accessors the interface calls are
  modelled, as fields. A local buffer is column-major memory: entry \<open>(i, j)\<close> is at
  offset \<open>i + j * LDim\<close>.
\<close>

record Grid =
  Grid_Height :: int
  Grid_Width :: int
  Grid_MCRank :: int
  Grid_MRRank :: int

definition Grid_Size :: "Grid \<Rightarrow> int" where
  \<comment> \<open>Modelled from the spec: \<^verbatim>\<open>Grid::Size\<close> is not among the sources; the grid is an
      r x c arrangement of P = r * c processes.\<close>
  "Grid_Size g = Grid_Height g * Grid_Width g"

definition Grid_VCRank :: "Grid \<Rightarrow> int" where
  \<comment> \<open>Modelled from the spec: \<^verbatim>\<open>Grid::VCRank\<close> is not among the sources; the rank of
      slot (row, col) is row + r * col, as the destination of a data message is
      computed.\<close>
  "Grid_VCRank g = Grid_MCRank g + Grid_Height g * Grid_MRRank g"

record 'a DistMatrix =
  DistMatrix_Height :: int
  DistMatrix_Width :: int
  ColAlignment :: int
  RowAlignment :: int
  ColShift :: int
  RowShift :: int
  DistMatrix_Grid :: Grid
  LocalLDim :: int
  LocalMemory :: "'a list"

record 'a Matrix =
  Matrix_Height :: int
  Matrix_Width :: int
  Matrix_LDim :: int
  Matrix_Memory :: "'a list"

definition LocalBuffer :: "'a DistMatrix \<Rightarrow> int \<Rightarrow> int \<Rightarrow> int" where
  \<comment> \<open>Modelled from the spec: \<^verbatim>\<open>DistMatrix::LocalBuffer\<close> and \<^verbatim>\<open>LockedLocalBuffer\<close> are
      not among the sources; the pointer to local entry \<open>(i, j)\<close>, as an offset into the
      local memory.\<close>
  "LocalBuffer A i j = i + j * LocalLDim A"

definition Buffer :: "'a Matrix \<Rightarrow> int \<Rightarrow> int \<Rightarrow> int" where
  \<comment> \<open>Modelled from the spec: \<^verbatim>\<open>Matrix::Buffer\<close> is not among the sources; the pointer to
      entry \<open>(i, j)\<close>, as an offset into the memory.\<close>
  "Buffer A i j = i + j * Matrix_LDim A"

text \<open>
  What the build and the rest of the library fix: whether \<^verbatim>\<open>RELEASE\<close> is defined,
  the sizes \<^verbatim>\<open>sizeof\<close> yields, and the two coordinate functions
  \<^verbatim>\<open>utilities::Shift\<close> and \<^verbatim>\<open>utilities::LocalLength\<close>, which are not among the
  sources and are taken as parameters.
\<close>

record env =
  RELEASE :: bool
  sizeof_T :: nat
  sizeof_LocalToGlobalHeader :: nat
  sizeof_GlobalToLocalRequestHeader :: nat
  sizeof_GlobalToLocalReplyHeader :: nat
  Shift :: "int \<Rightarrow> int \<Rightarrow> int \<Rightarrow> int"
  LocalLength :: "int \<Rightarrow> int \<Rightarrow> int \<Rightarrow> int"

text \<open>
  The members of the class. A pointer to a distributed matrix is an address of the
  store, or \<open>None\<close> for the null pointer. A request handle is the position of its send
  in that log.
\<close>

record 'a AxpyInterface =
  attachedForLocalToGlobal :: bool
  attachedForGlobalToLocal :: bool
  localToGlobalMat :: "nat option"
  globalToLocalMat :: "nat option"
  sentEomTo :: "bool list"
  haveEomFrom :: "bool list"
  recvVector :: "'a charvec"
  eomSendRequests :: "nat list"
  dataVectors :: "'a charvec list list"
  requestVectors :: "'a charvec list list"
  replyVectors :: "'a charvec list list"
  sendingData :: "bool list list"
  sendingRequest :: "bool list list"
  sendingReply :: "bool list list"
  dataSendRequests :: "nat list list"
  requestSendRequests :: "nat list list"
  replySendRequests :: "nat list list"

text \<open>
  What the interface does to the outside, in order: the calls into the message-passing
  layer, \<open>ISSend bytes count dest tag\<close>, \<open>Recv count source tag\<close> and \<open>Barrier\<close>,
  and the diagnostic the destructor writes to \<^verbatim>\<open>std::cerr\<close>, with the rank it prints.
\<close>

datatype 'a effect =
    ISSend "'a bytes" int int int
  | Recv int int int
  | Barrier
  | Diagnostic int

record 'a world =
  iface :: "'a AxpyInterface"
  heap :: "nat \<Rightarrow> 'a DistMatrix option"
  trace :: "'a effect list"

subsection \<open>Vectors\<close>

definition in_range :: "'x list \<Rightarrow> int \<Rightarrow> bool" where
  "in_range xs k = (0 \<le> k \<and> k < int (length xs))"

definition resize_vec :: "'x list \<Rightarrow> nat \<Rightarrow> 'x \<Rightarrow> 'x list" where
  \<comment> \<open>\<^verbatim>\<open>std::vector::resize(n, v)\<close>\<close>
  "resize_vec xs n v = take n xs @ replicate (n - length xs) v"

definition resize_charvec :: "'a charvec \<Rightarrow> int \<Rightarrow> 'a charvec" where
  "resize_charvec v n = v\<lparr>cv_size := nat n\<rparr>"

text \<open>A counted loop \<^verbatim>\<open>for( int k=0; k<n; ++k ) body\<close>, left by an exception.\<close>

fun for_loop :: "int list \<Rightarrow> (int \<Rightarrow> 's \<Rightarrow> unit result \<times> 's) \<Rightarrow> 's \<Rightarrow> unit result \<times> 's" where
  "for_loop [] body s = (Returned (), s)"
| "for_loop (k # ks) body s =
     (case body k s of
        (Returned u, s') \<Rightarrow> for_loop ks body s'
      | (r, s') \<Rightarrow> (r, s'))"

subsection \<open>The message-passing layer\<close>

definition mpi_ISSend :: "'a bytes \<Rightarrow> int \<Rightarrow> int \<Rightarrow> int \<Rightarrow> 'a world \<Rightarrow> nat \<times> 'a world" where
  \<comment> \<open>the request handle written through the last argument, and the world\<close>
  "mpi_ISSend buf count dest tag w =
     (length (trace w), w\<lparr>trace := trace w @ [ISSend buf count dest tag]\<rparr>)"

definition mpi_Recv :: "int \<Rightarrow> int \<Rightarrow> int \<Rightarrow> 'a world \<Rightarrow> 'a world" where
  "mpi_Recv count source tag w = w\<lparr>trace := trace w @ [Recv count source tag]\<rparr>"

definition mpi_Barrier :: "'a world \<Rightarrow> 'a world" where
  "mpi_Barrier w = w\<lparr>trace := trace w @ [Barrier]\<rparr>"

subsection \<open>ReadyForSend\<close>

type_synonym 'a channel = "'a charvec list \<times> nat list \<times> bool list"

text \<open>
  The loop over the slots that exist, \<open>k\<close> slots from slot \<open>i\<close> on. It returns the slot
  it has claimed, or \<open>None\<close> when it ran to the end.
\<close>

fun ReadyForSend_scan ::
  "(nat \<Rightarrow> bool) \<Rightarrow> int \<Rightarrow> nat \<Rightarrow> nat \<Rightarrow> 'a channel \<Rightarrow> nat option result \<times> 'a channel" where
  "ReadyForSend_scan Test sendSize 0 i ch = (Returned None, ch)"
| "ReadyForSend_scan Test sendSize (Suc k) i (sendVectors, requests, requestStatuses) =
     (if \<not> i < length requestStatuses then (Undefined, (sendVectors, requests, requestStatuses))
      else if requestStatuses ! i \<and> \<not> i < length requests
        then (Undefined, (sendVectors, requests, requestStatuses))
      else
        let requestStatuses1 =
              (if requestStatuses ! i
               then requestStatuses[i := \<not> Test (requests ! i)]
               else requestStatuses)
        in if \<not> requestStatuses1 ! i
           then (if sendSize < 0
                 then (Threw length_error, (sendVectors, requests, requestStatuses1[i := True]))
                 else (Returned (Some i),
                       (sendVectors[i := resize_charvec (sendVectors ! i) sendSize],
                        requests, requestStatuses1[i := True])))
           else ReadyForSend_scan Test sendSize k (Suc i)
                  (sendVectors, requests, requestStatuses1))"

definition ReadyForSend ::
  "env \<Rightarrow> (nat \<Rightarrow> bool) \<Rightarrow> int \<Rightarrow> 'a channel \<Rightarrow> int result \<times> 'a channel" where
  "ReadyForSend E Test sendSize ch =
     (case ch of (sendVectors, requests, requestStatuses) \<Rightarrow>
        let numCreated = length sendVectors in
        if \<not> RELEASE E \<and>
           (numCreated \<noteq> length requests \<or> numCreated \<noteq> length requestStatuses)
        then (Threw (logic_error ''size mismatch''), ch)
        else
          (case ReadyForSend_scan Test sendSize numCreated 0 ch of
             (Returned (Some i), ch') \<Rightarrow> (Returned (int i), ch')
           | (Returned None, (sendVectors', requests', requestStatuses')) \<Rightarrow>
               let sendVectors1 = resize_vec sendVectors' (numCreated + 1) empty_charvec in
               if sendSize < 0
               then (Threw length_error, (sendVectors1, requests', requestStatuses'))
               else (Returned (int numCreated),
                     (sendVectors1[numCreated :=
                        resize_charvec (sendVectors1 ! numCreated) sendSize],
                      resize_vec requests' (numCreated + 1) 0,
                      requestStatuses' @ [True]))
           | (r, ch') \<Rightarrow> (reraise r, ch')))"

subsection \<open>Pointers to the attached matrix\<close>

definition deref :: "'a world \<Rightarrow> nat option \<Rightarrow> 'a DistMatrix option" where
  "deref w p = (case p of None \<Rightarrow> None | Some a \<Rightarrow> heap w a)"

definition attached_matrix :: "'a world \<Rightarrow> 'a DistMatrix option" where
  \<comment> \<open>the matrix whose grid \<^verbatim>\<open>Finished\<close>, \<^verbatim>\<open>HandleEoms\<close>,
      \<^verbatim>\<open>UpdateRequestStatuses\<close> and \<^verbatim>\<open>Detach\<close> read\<close>
  "attached_matrix w =
     (if attachedForLocalToGlobal (iface w)
      then deref w (localToGlobalMat (iface w))
      else deref w (globalToLocalMat (iface w)))"

subsection \<open>Constructors and Attach\<close>

definition resize_members :: "int \<Rightarrow> 'a AxpyInterface \<Rightarrow> 'a AxpyInterface" where
  \<comment> \<open>the block of \<^verbatim>\<open>resize( p )\<close> calls shared by the constructors and \<^verbatim>\<open>Attach\<close>\<close>
  "resize_members p s =
     s\<lparr>sentEomTo := resize_vec (sentEomTo s) (nat p) False,
       haveEomFrom := resize_vec (haveEomFrom s) (nat p) False,
       sendingData := resize_vec (sendingData s) (nat p) [],
       sendingRequest := resize_vec (sendingRequest s) (nat p) [],
       sendingReply := resize_vec (sendingReply s) (nat p) [],
       dataVectors := resize_vec (dataVectors s) (nat p) [],
       requestVectors := resize_vec (requestVectors s) (nat p) [],
       replyVectors := resize_vec (replyVectors s) (nat p) [],
       dataSendRequests := resize_vec (dataSendRequests s) (nat p) [],
       requestSendRequests := resize_vec (requestSendRequests s) (nat p) [],
       replySendRequests := resize_vec (replySendRequests s) (nat p) [],
       eomSendRequests := resize_vec (eomSendRequests s) (nat p) 0\<rparr>"

definition resize_for :: "nat \<Rightarrow> 'a world \<Rightarrow> unit result \<times> 'a world" where
  \<comment> \<open>\<^verbatim>\<open>const int p = Z.Grid().Size();\<close> and the resizes; a negative size makes the first
      \<^verbatim>\<open>resize\<close> throw\<close>
  "resize_for Z w =
     (case heap w Z of
        None \<Rightarrow> (Undefined, w)
      | Some Zm \<Rightarrow>
          let p = Grid_Size (DistMatrix_Grid Zm) in
          if p < 0 then (Threw length_error, w)
          else (Returned (), w\<lparr>iface := resize_members p (iface w)\<rparr>))"

definition AxpyInterface_default :: "'a AxpyInterface" where
  \<comment> \<open>\<^verbatim>\<open>AxpyInterface()\<close>\<close>
  "AxpyInterface_default =
     \<lparr>attachedForLocalToGlobal = False, attachedForGlobalToLocal = False,
      localToGlobalMat = None, globalToLocalMat = None,
      sentEomTo = [], haveEomFrom = [], recvVector = empty_charvec, eomSendRequests = [],
      dataVectors = [], requestVectors = [], replyVectors = [],
      sendingData = [], sendingRequest = [], sendingReply = [],
      dataSendRequests = [], requestSendRequests = [], replySendRequests = []\<rparr>"

definition AxpyInterface_ctor :: "AxpyType \<Rightarrow> nat \<Rightarrow> 'a world \<Rightarrow> unit result \<times> 'a world" where
  \<comment> \<open>\<^verbatim>\<open>AxpyInterface( AxpyType axpyType, DistMatrix<T,MC,MR>& Z )\<close>\<close>
  "AxpyInterface_ctor axpyType Z w =
     (let s = (if axpyType = LOCAL_TO_GLOBAL
               then AxpyInterface_default
                      \<lparr>attachedForLocalToGlobal := True, attachedForGlobalToLocal := False,
                       localToGlobalMat := Some Z, globalToLocalMat := None\<rparr>
               else AxpyInterface_default
                      \<lparr>attachedForLocalToGlobal := False, attachedForGlobalToLocal := True,
                       localToGlobalMat := None, globalToLocalMat := Some Z\<rparr>)
      in resize_for Z (w\<lparr>iface := s\<rparr>))"

definition AxpyInterface_ctor_const :: "AxpyType \<Rightarrow> nat \<Rightarrow> 'a world \<Rightarrow> unit result \<times> 'a world" where
  \<comment> \<open>\<^verbatim>\<open>AxpyInterface( AxpyType axpyType, const DistMatrix<T,MC,MR>& X )\<close>\<close>
  "AxpyInterface_ctor_const axpyType X w =
     (if axpyType = LOCAL_TO_GLOBAL
      then (Threw (logic_error ''Cannot update a constant matrix''), w)
      else resize_for X
             (w\<lparr>iface := AxpyInterface_default
                      \<lparr>attachedForLocalToGlobal := False, attachedForGlobalToLocal := True,
                       localToGlobalMat := None, globalToLocalMat := Some X\<rparr>\<rparr>))"

definition Attach :: "AxpyType \<Rightarrow> nat \<Rightarrow> 'a world \<Rightarrow> unit result \<times> 'a world" where
  \<comment> \<open>\<^verbatim>\<open>Attach( AxpyType axpyType, DistMatrix<T,MC,MR>& Z )\<close>\<close>
  "Attach axpyType Z w =
     (let s = iface w in
      if attachedForLocalToGlobal s \<or> attachedForGlobalToLocal s
      then (Threw (logic_error ''Must detach before reattaching.''), w)
      else
        resize_for Z
          (w\<lparr>iface := (if axpyType = LOCAL_TO_GLOBAL
                       then s\<lparr>attachedForLocalToGlobal := True, localToGlobalMat := Some Z\<rparr>
                       else s\<lparr>attachedForGlobalToLocal := True, globalToLocalMat := Some Z\<rparr>)\<rparr>))"

definition Attach_const :: "AxpyType \<Rightarrow> nat \<Rightarrow> 'a world \<Rightarrow> unit result \<times> 'a world" where
  \<comment> \<open>\<^verbatim>\<open>Attach( AxpyType axpyType, const DistMatrix<T,MC,MR>& X )\<close>\<close>
  "Attach_const axpyType X w =
     (let s = iface w in
      if attachedForLocalToGlobal s \<or> attachedForGlobalToLocal s
      then (Threw (logic_error ''Must detach before reattaching.''), w)
      else if axpyType = LOCAL_TO_GLOBAL
      then (Threw (logic_error ''Cannot update a constant matrix''), w)
      else
        resize_for X
          (w\<lparr>iface := s\<lparr>attachedForGlobalToLocal := True, globalToLocalMat := Some X\<rparr>\<rparr>))"

subsection \<open>Finished\<close>

fun Finished_scan :: "int list \<Rightarrow> bool list \<Rightarrow> bool list \<Rightarrow> bool option" where
  \<comment> \<open>the loop over the ranks; \<open>None\<close> is an index outside a vector\<close>
  "Finished_scan [] sent have = Some True"
| "Finished_scan (rank # ranks) sent have =
     (if \<not> in_range sent rank then None
      else if \<not> sent ! nat rank then Some False
      else if \<not> in_range have rank then None
      else if \<not> have ! nat rank then Some False
      else Finished_scan ranks sent have)"

definition Finished :: "env \<Rightarrow> 'a world \<Rightarrow> bool result \<times> 'a world" where
  "Finished E w =
     (if \<not> RELEASE E \<and> \<not> attachedForLocalToGlobal (iface w)
         \<and> \<not> attachedForGlobalToLocal (iface w)
      then (Threw (logic_error ''Not attached!''), w)
      else
        (case attached_matrix w of
           None \<Rightarrow> (Undefined, w)
         | Some Z \<Rightarrow>
             let p = Grid_Size (DistMatrix_Grid Z) in
             (case Finished_scan [0..p - 1] (sentEomTo (iface w)) (haveEomFrom (iface w)) of
                None \<Rightarrow> (Undefined, w)
              | Some finished \<Rightarrow> (Returned finished, w))))"

subsection \<open>UpdateRequestStatuses\<close>

fun UpdateStatuses :: "(nat \<Rightarrow> bool) \<Rightarrow> nat list \<Rightarrow> bool list \<Rightarrow> bool list option" where
  \<comment> \<open>one inner loop: \<open>j\<close> runs over the requests of a peer and indexes its flags\<close>
  "UpdateStatuses Test [] sending = Some sending"
| "UpdateStatuses Test (request # requests) [] = None"
| "UpdateStatuses Test (request # requests) (b # sending) =
     map_option ((#) (if b then \<not> Test request else b))
       (UpdateStatuses Test requests sending)"

definition UpdateChannel ::
  "(nat \<Rightarrow> bool) \<Rightarrow> nat list list \<Rightarrow> bool list list \<Rightarrow> int \<Rightarrow> bool list list option" where
  "UpdateChannel Test sendRequests sending i =
     (if \<not> in_range sendRequests i then None
      else if sendRequests ! nat i = [] then Some sending
      else if \<not> in_range sending i then None
      else map_option (\<lambda>flags. sending[nat i := flags])
             (UpdateStatuses Test (sendRequests ! nat i) (sending ! nat i)))"

definition UpdateRequestStatuses_body :: "(nat \<Rightarrow> bool) \<Rightarrow> int \<Rightarrow> 'a world \<Rightarrow> unit result \<times> 'a world" where
  "UpdateRequestStatuses_body Test i w =
     (case UpdateChannel Test (dataSendRequests (iface w)) (sendingData (iface w)) i of
        None \<Rightarrow> (Undefined, w)
      | Some d \<Rightarrow>
          let w1 = w\<lparr>iface := (iface w)\<lparr>sendingData := d\<rparr>\<rparr> in
          (case UpdateChannel Test (requestSendRequests (iface w1)) (sendingRequest (iface w1)) i of
             None \<Rightarrow> (Undefined, w1)
           | Some q \<Rightarrow>
               let w2 = w1\<lparr>iface := (iface w1)\<lparr>sendingRequest := q\<rparr>\<rparr> in
               (case UpdateChannel Test (replySendRequests (iface w2)) (sendingReply (iface w2)) i of
                  None \<Rightarrow> (Undefined, w2)
                | Some y \<Rightarrow> (Returned (), w2\<lparr>iface := (iface w2)\<lparr>sendingReply := y\<rparr>\<rparr>))))"

definition UpdateRequestStatuses :: "(nat \<Rightarrow> bool) \<Rightarrow> 'a world \<Rightarrow> unit result \<times> 'a world" where
  "UpdateRequestStatuses Test w =
     (case attached_matrix w of
        None \<Rightarrow> (Undefined, w)
      | Some Z \<Rightarrow>
          for_loop [0..Grid_Size (DistMatrix_Grid Z) - 1] (UpdateRequestStatuses_body Test) w)"

subsection \<open>HandleEoms\<close>

fun scanData :: "bool list \<Rightarrow> bool" where
  \<comment> \<open>the first inner loop: the value of \<^verbatim>\<open>shouldSendEom\<close> after it\<close>
  "scanData [] = True"
| "scanData (b # bs) = (if b then False else scanData bs)"

fun scanMore :: "bool \<Rightarrow> bool list \<Rightarrow> bool" where
  \<comment> \<open>the second and the third inner loop\<close>
  "scanMore shouldSendEom [] = shouldSendEom"
| "scanMore shouldSendEom (b # bs) =
     (if \<not> shouldSendEom \<or> b then False else scanMore shouldSendEom bs)"

definition HandleEoms_body :: "int \<Rightarrow> 'a world \<Rightarrow> unit result \<times> 'a world" where
  "HandleEoms_body i w =
     (let s = iface w in
      if \<not> in_range (sentEomTo s) i then (Undefined, w)
      else if sentEomTo s ! nat i then (Returned (), w)
      else if \<not> in_range (sendingData s) i \<or> \<not> in_range (sendingRequest s) i
              \<or> \<not> in_range (sendingReply s) i
        then (Undefined, w)
      else
        let shouldSendEom =
              scanMore (scanMore (scanData (sendingData s ! nat i)) (sendingRequest s ! nat i))
                (sendingReply s ! nat i)
        in if shouldSendEom
           then (if \<not> in_range (eomSendRequests s) i then (Undefined, w)
                 else
                   (case mpi_ISSend DummyByte 1 i EOM_TAG w of
                      (request, w1) \<Rightarrow>
                        (Returned (),
                         w1\<lparr>iface := (iface w1)
                              \<lparr>eomSendRequests := (eomSendRequests (iface w1))[nat i := request],
                               sentEomTo := (sentEomTo (iface w1))[nat i := True]\<rparr>\<rparr>)))
           else (Returned (), w))"

definition HandleEoms :: "(nat \<Rightarrow> bool) \<Rightarrow> int option \<Rightarrow> 'a world \<Rightarrow> unit result \<times> 'a world" where
  \<comment> \<open>\<open>probe\<close>: the source of a pending end-of-message token, if the probe finds one\<close>
  "HandleEoms Test probe w =
     (case attached_matrix w of
        None \<Rightarrow> (Undefined, w)
      | Some Z \<Rightarrow>
          let p = Grid_Size (DistMatrix_Grid Z) in
          (case UpdateRequestStatuses Test w of
             (Returned u, w1) \<Rightarrow>
               (case for_loop [0..p - 1] HandleEoms_body w1 of
                  (Returned u', w2) \<Rightarrow>
                    (case probe of
                       None \<Rightarrow> (Returned (), w2)
                     | Some source \<Rightarrow>
                         let w3 = mpi_Recv 1 source EOM_TAG w2 in
                         if \<not> in_range (haveEomFrom (iface w3)) source then (Undefined, w3)
                         else (Returned (),
                               w3\<lparr>iface := (iface w3)
                                    \<lparr>haveEomFrom := (haveEomFrom (iface w3))[nat source := True]\<rparr>\<rparr>))
                | (r, w2) \<Rightarrow> (r, w2))
           | (r, w1) \<Rightarrow> (r, w1)))"

subsection \<open>The three channels of a peer\<close>

definition data_channel :: "'a AxpyInterface \<Rightarrow> int \<Rightarrow> 'a channel option" where
  \<comment> \<open>\<^verbatim>\<open>_dataVectors[k], _dataSendRequests[k], _sendingData[k]\<close>, passed by reference\<close>
  "data_channel s k =
     (if in_range (dataVectors s) k \<and> in_range (dataSendRequests s) k \<and> in_range (sendingData s) k
      then Some (dataVectors s ! nat k, dataSendRequests s ! nat k, sendingData s ! nat k)
      else None)"

definition set_data_channel :: "int \<Rightarrow> 'a channel \<Rightarrow> 'a AxpyInterface \<Rightarrow> 'a AxpyInterface" where
  "set_data_channel k ch s =
     s\<lparr>dataVectors := (dataVectors s)[nat k := fst ch],
       dataSendRequests := (dataSendRequests s)[nat k := fst (snd ch)],
       sendingData := (sendingData s)[nat k := snd (snd ch)]\<rparr>"

definition request_channel :: "'a AxpyInterface \<Rightarrow> int \<Rightarrow> 'a channel option" where
  "request_channel s k =
     (if in_range (requestVectors s) k \<and> in_range (requestSendRequests s) k
         \<and> in_range (sendingRequest s) k
      then Some (requestVectors s ! nat k, requestSendRequests s ! nat k, sendingRequest s ! nat k)
      else None)"

definition set_request_channel :: "int \<Rightarrow> 'a channel \<Rightarrow> 'a AxpyInterface \<Rightarrow> 'a AxpyInterface" where
  "set_request_channel k ch s =
     s\<lparr>requestVectors := (requestVectors s)[nat k := fst ch],
       requestSendRequests := (requestSendRequests s)[nat k := fst (snd ch)],
       sendingRequest := (sendingRequest s)[nat k := snd (snd ch)]\<rparr>"

definition reply_channel :: "'a AxpyInterface \<Rightarrow> int \<Rightarrow> 'a channel option" where
  "reply_channel s k =
     (if in_range (replyVectors s) k \<and> in_range (replySendRequests s) k
         \<and> in_range (sendingReply s) k
      then Some (replyVectors s ! nat k, replySendRequests s ! nat k, sendingReply s ! nat k)
      else None)"

definition set_reply_channel :: "int \<Rightarrow> 'a channel \<Rightarrow> 'a AxpyInterface \<Rightarrow> 'a AxpyInterface" where
  "set_reply_channel k ch s =
     s\<lparr>replyVectors := (replyVectors s)[nat k := fst ch],
       replySendRequests := (replySendRequests s)[nat k := fst (snd ch)],
       sendingReply := (sendingReply s)[nat k := snd (snd ch)]\<rparr>"

definition pack :: "'a bytes \<Rightarrow> nat \<Rightarrow> int \<Rightarrow> 'a channel \<Rightarrow> 'a channel option" where
  \<comment> \<open>write the message into \<^verbatim>\<open>sendVectors[index]\<close> and the handle of its send into
      \<^verbatim>\<open>requests[index]\<close>\<close>
  "pack buf request index ch =
     (case ch of (sendVectors, requests, requestStatuses) \<Rightarrow>
        if in_range sendVectors index \<and> in_range requests index
        then Some (sendVectors[nat index := (sendVectors ! nat index)\<lparr>cv_bytes := buf\<rparr>],
                   requests[nat index := request], requestStatuses)
        else None)"

definition fits_buffer :: "nat \<Rightarrow> nat \<Rightarrow> nat \<Rightarrow> int \<Rightarrow> bool" where
  \<comment> \<open>a header of \<open>h\<close> bytes and \<open>n\<close> entries of \<open>t\<close> bytes behind it end inside a buffer
      of \<open>bufferSize\<close> bytes\<close>
  "fits_buffer h n t bufferSize = (int h + int n * int t \<le> bufferSize)"

subsection \<open>Reading and updating matrix memory\<close>

definition read_cells :: "'a list \<Rightarrow> int list \<Rightarrow> 'a list option" where
  \<comment> \<open>the entries at the given offsets, in that order; \<open>None\<close> when an offset is outside\<close>
  "read_cells mem ks =
     (if list_all (in_range mem) ks then Some (map (\<lambda>k. mem ! nat k) ks) else None)"

definition read_col :: "'a list \<Rightarrow> int \<Rightarrow> int \<Rightarrow> 'a list option" where
  \<comment> \<open>\<^verbatim>\<open>memcpy\<close> of \<open>n\<close> entries from offset \<open>k\<close>\<close>
  "read_col mem k n =
     (if n = 0 then Some []
      else if 0 < n \<and> 0 \<le> k \<and> k + n \<le> int (length mem)
      then Some (take (nat n) (drop (nat k) mem))
      else None)"

fun read_cols :: "'a list \<Rightarrow> int list \<Rightarrow> int \<Rightarrow> 'a list option" where
  "read_cols mem [] n = Some []"
| "read_cols mem (k # ks) n =
     (case read_col mem k n of
        None \<Rightarrow> None
      | Some col \<Rightarrow> map_option ((@) col) (read_cols mem ks n))"

fun accumulate :: "'a::{plus,times} \<Rightarrow> 'a list \<Rightarrow> (int \<times> int) list \<Rightarrow> 'a list \<Rightarrow> 'a list option" where
  \<comment> \<open>\<^verbatim>\<open>Y[y] += alpha*X[x]\<close> for the pairs \<open>(y, x)\<close> of offsets, in order\<close>
  "accumulate alpha X [] Y = Some Y"
| "accumulate alpha X ((y, x) # cells) Y =
     (if in_range Y y \<and> in_range X x
      then accumulate alpha X cells (Y[nat y := Y ! nat y + alpha * X ! nat x])
      else None)"

subsection \<open>HandleLocalToGlobalData\<close>

definition HandleLocalToGlobalData ::
  "env \<Rightarrow> (int \<times> nat \<times> 'a LocalToGlobalHeader \<times> 'a list) option \<Rightarrow> 'a::{plus,times} world
     \<Rightarrow> unit result \<times> 'a world" where
  \<comment> \<open>\<open>probe\<close>: the source, the length in characters, the header and the entries of a
      pending data message, if the probe finds one\<close>
  "HandleLocalToGlobalData E probe w =
     (case localToGlobalMat (iface w) of
        None \<Rightarrow> (Undefined, w)
      | Some a \<Rightarrow>
     (case heap w a of
        None \<Rightarrow> (Undefined, w)
      | Some Y \<Rightarrow>
          let g = DistMatrix_Grid Y;
              r = Grid_Height g;
              c = Grid_Width g;
              myRow = Grid_MCRank g;
              myCol = Grid_MRRank g
          in
          (case probe of
             None \<Rightarrow> (Returned (), w)
           | Some (source, count, header, XBuffer) \<Rightarrow>
               let w1 = mpi_Recv (int count) source DATA_TAG
                          (w\<lparr>iface := (iface w)
                               \<lparr>recvVector := \<lparr>cv_size = count, cv_bytes = DataBytes header XBuffer\<rparr>\<rparr>\<rparr>);
                   i = ltg_i header;
                   j = ltg_j header;
                   height = ltg_height header;
                   width = ltg_width header
               in
               if \<not> RELEASE E \<and> (height < 0 \<or> width < 0)
               then (Threw (logic_error ''Unpacked heights were negative''), w1)
               else if \<not> RELEASE E \<and> (i < 0 \<or> j < 0)
               then (Threw (logic_error ''Offsets must be non-negative''), w1)
               else if \<not> RELEASE E \<and>
                       (add32 i height > DistMatrix_Height Y \<or> add32 j width > DistMatrix_Width Y)
               then (Threw (logic_error ''Submatrix out of bounds of global matrix''), w1)
               else if r = 0 \<or> c = 0 then (Undefined, w1)
               else
                 let colAlignment = add32 (ColAlignment Y) i smod r;
                     rowAlignment = add32 (RowAlignment Y) j smod c;
                     colShift = Shift E myRow colAlignment r;
                     rowShift = Shift E myCol rowAlignment c;
                     localHeight = LocalLength E height colShift r;
                     localWidth = LocalLength E width rowShift c;
                     iLocalOffset = LocalLength E (ltg_i header) (ColShift Y) r;
                     jLocalOffset = LocalLength E (ltg_j header) (RowShift Y) c;
                     alpha = ltg_alpha header
                 in
                 (case accumulate alpha XBuffer
                         [(LocalBuffer Y iLocalOffset (add32 jLocalOffset t) + s,
                           mul32 t localHeight + s).
                            t \<leftarrow> [0..localWidth - 1], s \<leftarrow> [0..localHeight - 1]]
                         (LocalMemory Y) of
                    None \<Rightarrow> (Undefined, w1)
                  | Some mem \<Rightarrow>
                      (Returned (),
                       w1\<lparr>heap := (heap w1)(a \<mapsto> Y\<lparr>LocalMemory := mem\<rparr>),
                          iface := (iface w1)\<lparr>recvVector := empty_charvec\<rparr>\<rparr>)))))"

subsection \<open>HandleGlobalToLocalRequest\<close>

definition HandleGlobalToLocalRequest ::
  "env \<Rightarrow> (nat \<Rightarrow> bool) \<Rightarrow> (int \<times> GlobalToLocalRequestHeader) option \<Rightarrow> 'a world
     \<Rightarrow> unit result \<times> 'a world" where
  \<comment> \<open>\<open>probe\<close>: the source and the header of a pending request, if the probe finds one\<close>
  "HandleGlobalToLocalRequest E Test probe w =
     (case deref w (globalToLocalMat (iface w)) of
        None \<Rightarrow> (Undefined, w)
      | Some X \<Rightarrow>
          let g = DistMatrix_Grid X;
              r = Grid_Height g;
              c = Grid_Width g;
              myRow = Grid_MCRank g;
              myCol = Grid_MRRank g
          in
          (case probe of
             None \<Rightarrow> (Returned (), w)
           | Some (source, requestHeader) \<Rightarrow>
               let w1 = mpi_Recv (int (sizeof_GlobalToLocalRequestHeader E)) source DATA_REQUEST_TAG
                          (w\<lparr>iface := (iface w)
                               \<lparr>recvVector := \<lparr>cv_size = sizeof_GlobalToLocalRequestHeader E,
                                               cv_bytes = RequestBytes requestHeader\<rparr>\<rparr>\<rparr>);
                   i = req_i requestHeader;
                   j = req_j requestHeader;
                   height = req_height requestHeader;
                   width = req_width requestHeader
               in
               if r = 0 \<or> c = 0 then (Undefined, w1)
               else
                 let colAlignment = add32 (ColAlignment X) i smod r;
                     rowAlignment = add32 (RowAlignment X) j smod c;
                     colShift = Shift E myRow colAlignment r;
                     rowShift = Shift E myCol rowAlignment c;
                     iLocalOffset = LocalLength E i (ColShift X) r;
                     jLocalOffset = LocalLength E j (RowShift X) c;
                     localHeight = LocalLength E height colShift r;
                     localWidth = LocalLength E width rowShift c;
                     numEntries = mul32 localHeight localWidth;
                     replyHeader = \<lparr>processRow = myRow, processCol = myCol\<rparr>;
                     bufferSize = int32 (numEntries * int (sizeof_T E)
                                         + int (sizeof_GlobalToLocalReplyHeader E))
                 in
                 (case reply_channel (iface w1) source of
                    None \<Rightarrow> (Undefined, w1)
                  | Some ch \<Rightarrow>
                      (case ReadyForSend E Test bufferSize ch of
                         (Returned index, ch1) \<Rightarrow>
                           (case read_cols (LocalMemory X)
                                   (map (\<lambda>t. LocalBuffer X iLocalOffset (add32 jLocalOffset t))
                                      [0..localWidth - 1])
                                   localHeight of
                              None \<Rightarrow> (Undefined, w1\<lparr>iface := set_reply_channel source ch1 (iface w1)\<rparr>)
                            | Some sendData \<Rightarrow>
                                if \<not> fits_buffer (sizeof_GlobalToLocalReplyHeader E)
                                         (length sendData) (sizeof_T E) bufferSize
                                then (Undefined, w1\<lparr>iface := set_reply_channel source ch1 (iface w1)\<rparr>)
                                else
                                (case mpi_ISSend (ReplyBytes replyHeader sendData) bufferSize source
                                        DATA_REPLY_TAG w1 of
                                   (request, w2) \<Rightarrow>
                                     (case pack (ReplyBytes replyHeader sendData) request index ch1 of
                                        None \<Rightarrow> (Undefined, w1\<lparr>iface := set_reply_channel source ch1 (iface w1)\<rparr>)
                                      | Some ch2 \<Rightarrow>
                                          (Returned (),
                                           w2\<lparr>iface := set_reply_channel source ch2 (iface w2)\<rparr>))))
                       | (res, ch1) \<Rightarrow>
                           (reraise res, w1\<lparr>iface := set_reply_channel source ch1 (iface w1)\<rparr>)))))"

subsection \<open>AxpyLocalToGlobal\<close>

definition AxpyLocalToGlobal_send ::
  "env \<Rightarrow> (nat \<Rightarrow> bool) \<Rightarrow> 'a Matrix \<Rightarrow> 'a LocalToGlobalHeader \<Rightarrow> int \<Rightarrow> int
     \<Rightarrow> int \<Rightarrow> int \<Rightarrow> int \<Rightarrow> int \<Rightarrow> int \<Rightarrow> int \<Rightarrow> 'a world \<Rightarrow> unit result \<times> 'a world" where
  \<comment> \<open>the body of \<^verbatim>\<open>if( numEntries != 0 )\<close>\<close>
  "AxpyLocalToGlobal_send E Test X header r c receivingRow receivingCol
       colShift rowShift localHeight localWidth w =
     (let numEntries = mul32 localHeight localWidth;
          destination = add32 receivingRow (mul32 r receivingCol);
          bufferSize = int32 (int (sizeof_LocalToGlobalHeader E) + numEntries * int (sizeof_T E))
      in
      (case data_channel (iface w) destination of
         None \<Rightarrow> (Undefined, w)
       | Some ch \<Rightarrow>
           (case ReadyForSend E Test bufferSize ch of
              (Returned index, ch1) \<Rightarrow>
                (case read_cells (Matrix_Memory X)
                        [mul32 (add32 rowShift (mul32 t c)) (Matrix_LDim X)
                           + add32 colShift (mul32 s r).
                           t \<leftarrow> [0..localWidth - 1], s \<leftarrow> [0..localHeight - 1]] of
                   None \<Rightarrow> (Undefined, w\<lparr>iface := set_data_channel destination ch1 (iface w)\<rparr>)
                 | Some sendData \<Rightarrow>
                     if \<not> fits_buffer (sizeof_LocalToGlobalHeader E) (length sendData) (sizeof_T E)
                              bufferSize
                     then (Undefined, w\<lparr>iface := set_data_channel destination ch1 (iface w)\<rparr>)
                     else
                     (case mpi_ISSend (DataBytes header sendData) bufferSize destination DATA_TAG w of
                        (request, w2) \<Rightarrow>
                          (case pack (DataBytes header sendData) request index ch1 of
                             None \<Rightarrow> (Undefined, w\<lparr>iface := set_data_channel destination ch1 (iface w)\<rparr>)
                           | Some ch2 \<Rightarrow>
                               (Returned (),
                                w2\<lparr>iface := set_data_channel destination ch2 (iface w2)\<rparr>))))
            | (res, ch1) \<Rightarrow>
                (reraise res, w\<lparr>iface := set_data_channel destination ch1 (iface w)\<rparr>))))"

definition AxpyLocalToGlobal_body ::
  "env \<Rightarrow> (nat \<Rightarrow> bool) \<Rightarrow> 'a Matrix \<Rightarrow> 'a LocalToGlobalHeader \<Rightarrow> int \<Rightarrow> int \<Rightarrow> int \<Rightarrow> int
     \<Rightarrow> int \<Rightarrow> int \<times> int \<times> 'a world \<Rightarrow> unit result \<times> int \<times> int \<times> 'a world" where
  \<comment> \<open>one step of the loop; the state is \<^verbatim>\<open>receivingRow\<close>, \<^verbatim>\<open>receivingCol\<close> and the world\<close>
  "AxpyLocalToGlobal_body E Test X header r c colAlignment rowAlignment step st =
     (case st of (receivingRow, receivingCol, w) \<Rightarrow>
        let colShift = Shift E receivingRow colAlignment r;
            rowShift = Shift E receivingCol rowAlignment c;
            localHeight = LocalLength E (ltg_height header) colShift r;
            localWidth = LocalLength E (ltg_width header) rowShift c;
            numEntries = mul32 localHeight localWidth
        in
        (case (if numEntries \<noteq> 0
               then AxpyLocalToGlobal_send E Test X header r c receivingRow receivingCol
                      colShift rowShift localHeight localWidth w
               else (Returned (), w)) of
           (Returned u, w1) \<Rightarrow>
             let receivingRow1 = add32 receivingRow 1 smod r in
             (Returned (),
              (receivingRow1,
               if receivingRow1 = 0 then add32 receivingCol 1 smod c else receivingCol,
               w1))
         | (res, w1) \<Rightarrow> (res, (receivingRow, receivingCol, w1))))"

definition AxpyLocalToGlobal ::
  "env \<Rightarrow> (nat \<Rightarrow> bool) \<Rightarrow> 'a \<Rightarrow> 'a Matrix \<Rightarrow> int \<Rightarrow> int \<Rightarrow> 'a world \<Rightarrow> unit result \<times> 'a world" where
  "AxpyLocalToGlobal E Test alpha X i j w =
     (case deref w (localToGlobalMat (iface w)) of
        None \<Rightarrow> (Undefined, w)
      | Some Y \<Rightarrow>
          if i < 0 \<or> j < 0
          then (Threw (logic_error ''Submatrix offsets must be non-negative''), w)
          else if add32 i (Matrix_Height X) > DistMatrix_Height Y
                  \<or> add32 j (Matrix_Width X) > DistMatrix_Width Y
          then (Threw (logic_error ''Submatrix out of bounds of global matrix''), w)
          else
            let g = DistMatrix_Grid Y;
                r = Grid_Height g;
                c = Grid_Width g;
                p = Grid_Size g;
                myProcessRow = Grid_MCRank g;
                myProcessCol = Grid_MRRank g
            in
            if r = 0 \<or> c = 0 then (Undefined, w)
            else
              let colAlignment = add32 (ColAlignment Y) i smod r;
                  rowAlignment = add32 (RowAlignment Y) j smod c;
                  height = Matrix_Height X;
                  width = Matrix_Width X;
                  header = \<lparr>ltg_i = i, ltg_j = j, ltg_height = height, ltg_width = width,
                            ltg_alpha = alpha\<rparr>
              in
              (case for_loop [0..p - 1]
                      (AxpyLocalToGlobal_body E Test X header r c colAlignment rowAlignment)
                      (myProcessRow, myProcessCol, w) of
                 (res, (receivingRow, receivingCol, w1)) \<Rightarrow> (res, w1)))"

subsection \<open>AxpyGlobalToLocal\<close>

text \<open>
  One round of a polling loop: what the completion tests and the probes answer in it.
\<close>

record 'a event =
  ev_Test :: "nat \<Rightarrow> bool"
  ev_TestEoms :: "nat \<Rightarrow> bool"
  ev_data :: "(int \<times> nat \<times> 'a LocalToGlobalHeader \<times> 'a list) option"
  ev_request :: "(int \<times> GlobalToLocalRequestHeader) option"
  ev_reply :: "(int \<times> nat \<times> GlobalToLocalReplyHeader \<times> 'a list) option"
  ev_eom :: "int option"

definition AxpyGlobalToLocal_request ::
  "env \<Rightarrow> (nat \<Rightarrow> bool) \<Rightarrow> GlobalToLocalRequestHeader \<Rightarrow> int \<Rightarrow> 'a world \<Rightarrow> unit result \<times> 'a world" where
  \<comment> \<open>the body of the loop that sends the request to every rank\<close>
  "AxpyGlobalToLocal_request E Test requestHeader rank w =
     (let bufferSize = int (sizeof_GlobalToLocalRequestHeader E) in
      (case request_channel (iface w) rank of
         None \<Rightarrow> (Undefined, w)
       | Some ch \<Rightarrow>
           (case ReadyForSend E Test bufferSize ch of
              (Returned index, ch1) \<Rightarrow>
                (case mpi_ISSend (RequestBytes requestHeader) bufferSize rank DATA_REQUEST_TAG w of
                   (request, w2) \<Rightarrow>
                     (case pack (RequestBytes requestHeader) request index ch1 of
                        None \<Rightarrow> (Undefined, w\<lparr>iface := set_request_channel rank ch1 (iface w)\<rparr>)
                      | Some ch2 \<Rightarrow>
                          (Returned (), w2\<lparr>iface := set_request_channel rank ch2 (iface w2)\<rparr>)))
            | (res, ch1) \<Rightarrow>
                (reraise res, w\<lparr>iface := set_request_channel rank ch1 (iface w)\<rparr>))))"

definition AxpyGlobalToLocal_unpack ::
  "env \<Rightarrow> 'a::{plus,times} \<Rightarrow> int \<Rightarrow> int \<Rightarrow> 'a DistMatrix
     \<Rightarrow> int \<times> nat \<times> GlobalToLocalReplyHeader \<times> 'a list \<Rightarrow> 'a Matrix \<times> 'a world
     \<Rightarrow> unit result \<times> 'a Matrix \<times> 'a world" where
  \<comment> \<open>the body of \<^verbatim>\<open>if( haveReply )\<close>, but for the count of replies\<close>
  "AxpyGlobalToLocal_unpack E alpha i j X reply st =
     (case st of (Y, w) \<Rightarrow>
      (case reply of (source, count, replyHeader, recvData) \<Rightarrow>
        let height = Matrix_Height Y;
            width = Matrix_Width Y;
            r = Grid_Height (DistMatrix_Grid X);
            c = Grid_Width (DistMatrix_Grid X);
            w1 = mpi_Recv (int count) source DATA_REPLY_TAG
                   (w\<lparr>iface := (iface w)
                        \<lparr>recvVector := \<lparr>cv_size = count,
                                        cv_bytes = ReplyBytes replyHeader recvData\<rparr>\<rparr>\<rparr>);
            row = processRow replyHeader;
            col = processCol replyHeader
        in
        if r = 0 \<or> c = 0 then (Undefined, (Y, w1))
        else
          let colAlignment = add32 (ColAlignment X) i smod r;
              rowAlignment = add32 (RowAlignment X) j smod c;
              colShift = Shift E row colAlignment r;
              rowShift = Shift E col rowAlignment c;
              localHeight = LocalLength E height colShift r;
              localWidth = LocalLength E width rowShift c
          in
          (case accumulate alpha recvData
                  [(Buffer Y 0 (add32 rowShift (mul32 t c)) + add32 colShift (mul32 s r),
                    mul32 t localHeight + s).
                     t \<leftarrow> [0..localWidth - 1], s \<leftarrow> [0..localHeight - 1]]
                  (Matrix_Memory Y) of
             None \<Rightarrow> (Undefined, (Y, w1))
           | Some mem \<Rightarrow> (Returned (), (Y\<lparr>Matrix_Memory := mem\<rparr>, w1)))))"

fun AxpyGlobalToLocal_wait ::
  "env \<Rightarrow> 'a::{plus,times} \<Rightarrow> int \<Rightarrow> int \<Rightarrow> 'a DistMatrix \<Rightarrow> 'a event list \<Rightarrow> int
     \<Rightarrow> 'a Matrix \<times> 'a world \<Rightarrow> unit result \<times> 'a Matrix \<times> 'a world" where
  \<comment> \<open>\<^verbatim>\<open>while( numReplies < p )\<close>, one event a round\<close>
  "AxpyGlobalToLocal_wait E alpha i j X [] numReplies (Y, w) =
     (if numReplies < Grid_Size (DistMatrix_Grid X) then (Blocked, (Y, w))
      else (Returned (), (Y, w)))"
| "AxpyGlobalToLocal_wait E alpha i j X (ev # evs) numReplies (Y, w) =
     (if \<not> numReplies < Grid_Size (DistMatrix_Grid X) then (Returned (), (Y, w))
      else
        (case HandleGlobalToLocalRequest E (ev_Test ev) (ev_request ev) w of
           (Returned u, w1) \<Rightarrow>
             (case ev_reply ev of
                None \<Rightarrow> AxpyGlobalToLocal_wait E alpha i j X evs numReplies (Y, w1)
              | Some reply \<Rightarrow>
                  (case AxpyGlobalToLocal_unpack E alpha i j X reply (Y, w1) of
                     (Returned u', st) \<Rightarrow>
                       AxpyGlobalToLocal_wait E alpha i j X evs (add32 numReplies 1) st
                   | (res, st) \<Rightarrow> (res, st)))
         | (res, w1) \<Rightarrow> (res, (Y, w1))))"

definition AxpyGlobalToLocal ::
  "env \<Rightarrow> (nat \<Rightarrow> bool) \<Rightarrow> 'a event list \<Rightarrow> 'a::{plus,times} \<Rightarrow> 'a Matrix \<Rightarrow> int \<Rightarrow> int
     \<Rightarrow> 'a world \<Rightarrow> unit result \<times> 'a Matrix \<times> 'a world" where
  \<comment> \<open>the caller's matrix \<open>Y\<close> is passed by reference: it is returned with the world\<close>
  "AxpyGlobalToLocal E Test evs alpha Y i j w =
     (case deref w (globalToLocalMat (iface w)) of
        None \<Rightarrow> (Undefined, (Y, w))
      | Some X \<Rightarrow>
          let height = Matrix_Height Y;
              width = Matrix_Width Y
          in
          if add32 i height > DistMatrix_Height X \<or> add32 j width > DistMatrix_Width X
          then (Threw (logic_error ''Invalid AxpyGlobalToLocal submatrix''), (Y, w))
          else
            let p = Grid_Size (DistMatrix_Grid X);
                requestHeader = \<lparr>req_i = i, req_j = j, req_height = height, req_width = width\<rparr>
            in
            (case for_loop [0..p - 1] (AxpyGlobalToLocal_request E Test requestHeader) w of
               (Returned u, w1) \<Rightarrow> AxpyGlobalToLocal_wait E alpha i j X evs 0 (Y, w1)
             | (res, w1) \<Rightarrow> (res, (Y, w1))))"

subsection \<open>Axpy\<close>

definition Axpy ::
  "env \<Rightarrow> (nat \<Rightarrow> bool) \<Rightarrow> 'a event list \<Rightarrow> 'a::{plus,times} \<Rightarrow> 'a Matrix \<Rightarrow> int \<Rightarrow> int
     \<Rightarrow> 'a world \<Rightarrow> unit result \<times> 'a Matrix \<times> 'a world" where
  \<comment> \<open>\<^verbatim>\<open>Axpy( T alpha, Matrix<T>& Z, int i, int j )\<close>\<close>
  "Axpy E Test evs alpha Z i j w =
     (if attachedForLocalToGlobal (iface w)
      then (case AxpyLocalToGlobal E Test alpha Z i j w of (res, w1) \<Rightarrow> (res, (Z, w1)))
      else if attachedForGlobalToLocal (iface w)
      then AxpyGlobalToLocal E Test evs alpha Z i j w
      else (Threw (logic_error ''Cannot axpy before attaching.''), (Z, w)))"

definition Axpy_const ::
  "env \<Rightarrow> (nat \<Rightarrow> bool) \<Rightarrow> 'a \<Rightarrow> 'a Matrix \<Rightarrow> int \<Rightarrow> int \<Rightarrow> 'a world \<Rightarrow> unit result \<times> 'a world" where
  \<comment> \<open>\<^verbatim>\<open>Axpy( T alpha, const Matrix<T>& Z, int i, int j )\<close>\<close>
  "Axpy_const E Test alpha Z i j w =
     (if attachedForLocalToGlobal (iface w)
      then AxpyLocalToGlobal E Test alpha Z i j w
      else if attachedForGlobalToLocal (iface w)
      then (Threw (logic_error ''Cannot update a constant matrix.''), w)
      else (Threw (logic_error ''Cannot axpy before attaching.''), w))"

subsection \<open>Detach and the destructor\<close>

definition Detach_round :: "env \<Rightarrow> 'a event \<Rightarrow> 'a::{plus,times} world \<Rightarrow> unit result \<times> 'a world" where
  \<comment> \<open>the body of \<^verbatim>\<open>while( !Finished() )\<close>\<close>
  "Detach_round E ev w =
     (case (if attachedForLocalToGlobal (iface w)
            then HandleLocalToGlobalData E (ev_data ev) w
            else HandleGlobalToLocalRequest E (ev_Test ev) (ev_request ev) w) of
        (Returned u, w1) \<Rightarrow> HandleEoms (ev_TestEoms ev) (ev_eom ev) w1
      | (res, w1) \<Rightarrow> (res, w1))"

fun Detach_loop :: "env \<Rightarrow> 'a event list \<Rightarrow> 'a::{plus,times} world \<Rightarrow> unit result \<times> 'a world" where
  "Detach_loop E [] w =
     (case Finished E w of
        (Returned finished, w1) \<Rightarrow> (if finished then (Returned (), w1) else (Blocked, w1))
      | (res, w1) \<Rightarrow> (reraise res, w1))"
| "Detach_loop E (ev # evs) w =
     (case Finished E w of
        (Returned finished, w1) \<Rightarrow>
          if finished then (Returned (), w1)
          else
            (case Detach_round E ev w1 of
               (Returned u, w2) \<Rightarrow> Detach_loop E evs w2
             | (res, w2) \<Rightarrow> (res, w2))
      | (res, w1) \<Rightarrow> (reraise res, w1))"

definition clear_members :: "'a AxpyInterface \<Rightarrow> 'a AxpyInterface" where
  "clear_members s =
     s\<lparr>attachedForLocalToGlobal := False, attachedForGlobalToLocal := False,
       recvVector := empty_charvec, sentEomTo := [], haveEomFrom := [],
       sendingData := [], sendingRequest := [], sendingReply := [],
       dataVectors := [], requestVectors := [], replyVectors := [],
       dataSendRequests := [], requestSendRequests := [], replySendRequests := [],
       eomSendRequests := []\<rparr>"

definition Detach :: "env \<Rightarrow> 'a event list \<Rightarrow> 'a::{plus,times} world \<Rightarrow> unit result \<times> 'a world" where
  "Detach E evs w =
     (if \<not> attachedForLocalToGlobal (iface w) \<and> \<not> attachedForGlobalToLocal (iface w)
      then (Threw (logic_error ''Must attach before detaching.''), w)
      else
        (case attached_matrix w of
           None \<Rightarrow> (Undefined, w)
         | Some Z \<Rightarrow>
             (case Detach_loop E evs w of
                (Returned u, w1) \<Rightarrow>
                  let w2 = mpi_Barrier w1 in
                  (Returned (), w2\<lparr>iface := clear_members (iface w2)\<rparr>)
              | (res, w1) \<Rightarrow> (res, w1))))"

definition AxpyInterface_dtor ::
  "env \<Rightarrow> bool \<Rightarrow> 'a event list \<Rightarrow> 'a::{plus,times} world \<Rightarrow> unit result \<times> 'a world" where
  \<comment> \<open>\<^verbatim>\<open>~AxpyInterface()\<close>; \<open>uncaught\<close> is what \<^verbatim>\<open>std::uncaught_exception()\<close> answers\<close>
  "AxpyInterface_dtor E uncaught evs w =
     (if attachedForLocalToGlobal (iface w) \<or> attachedForGlobalToLocal (iface w)
      then
        (if uncaught
         then (case attached_matrix w of
                 None \<Rightarrow> (Undefined, w)
               | Some Z \<Rightarrow>
                   (Returned (),
                    w\<lparr>trace := trace w @ [Diagnostic (Grid_VCRank (DistMatrix_Grid Z))]\<rparr>))
         else Detach E evs w)
      else (Returned (), w))"

section \<open>Notions used in the statements\<close>

definition no_send_in_flight :: "'a AxpyInterface \<Rightarrow> int \<Rightarrow> bool" where
  \<comment> \<open>every flag the interface keeps for a send to peer \<open>X\<close> is false, in the three
      channels\<close>
  "no_send_in_flight s X =
     (in_range (sendingData s) X \<and> in_range (sendingRequest s) X \<and> in_range (sendingReply s) X
      \<and> list_all Not (sendingData s ! nat X)
      \<and> list_all Not (sendingRequest s ! nat X)
      \<and> list_all Not (sendingReply s ! nat X))"

definition eoms_rel :: "'a world \<Rightarrow> 'a world \<Rightarrow> bool" where
  \<comment> \<open>what a run of the loop of \<^verbatim>\<open>HandleEoms\<close> keeps and adds: the flags stay, and every
      call it adds to the log is the send of an end-of-message token to a peer with no
      send in flight\<close>
  "eoms_rel w w' \<longleftrightarrow>
     sendingData (iface w') = sendingData (iface w) \<and>
     sendingRequest (iface w') = sendingRequest (iface w) \<and>
     sendingReply (iface w') = sendingReply (iface w) \<and>
     (\<exists>extra. trace w' = trace w @ extra \<and>
        list_all (\<lambda>m. case m of
                        ISSend buf count X tag \<Rightarrow>
                          buf = DummyByte \<and> tag = EOM_TAG \<and> no_send_in_flight (iface w) X
                      | _ \<Rightarrow> False) extra)"

fun slots_from :: "nat \<Rightarrow> int \<Rightarrow> int \<Rightarrow> int \<Rightarrow> int \<Rightarrow> (int \<times> int) list" where
  \<comment> \<open>the values of \<^verbatim>\<open>(receivingRow, receivingCol)\<close> at the start of each of \<open>n\<close> steps of the
      loop of \<^verbatim>\<open>AxpyLocalToGlobal\<close>, by the update at the end of its body\<close>
  "slots_from 0 r c receivingRow receivingCol = []"
| "slots_from (Suc n) r c receivingRow receivingCol =
     (receivingRow, receivingCol) #
     (let receivingRow1 = add32 receivingRow 1 smod r
      in slots_from n r c receivingRow1
           (if receivingRow1 = 0 then add32 receivingCol 1 smod c else receivingCol))"

definition row_major_slots :: "int \<Rightarrow> int \<Rightarrow> (int \<times> int) list" where
  \<comment> \<open>the slots of an r x c grid in row-major order by (row, col)\<close>
  "row_major_slots r c = [(row, col). row \<leftarrow> [0..r - 1], col \<leftarrow> [0..c - 1]]"

definition numEntries_of ::
  "env \<Rightarrow> 'a LocalToGlobalHeader \<Rightarrow> int \<Rightarrow> int \<Rightarrow> int \<Rightarrow> int \<Rightarrow> int \<times> int \<Rightarrow> int" where
  \<comment> \<open>the number of entries of the block that a slot owns: its local height times its
      local width\<close>
  "numEntries_of E header r c colAlignment rowAlignment slot =
     (case slot of (row, col) \<Rightarrow>
        LocalLength E (ltg_height header) (Shift E row colAlignment r) r
        * LocalLength E (ltg_width header) (Shift E col rowAlignment c) c)"

definition data_message ::
  "env \<Rightarrow> 'a Matrix \<Rightarrow> 'a LocalToGlobalHeader \<Rightarrow> int \<Rightarrow> int \<Rightarrow> int \<Rightarrow> int \<Rightarrow> int \<times> int \<Rightarrow> 'a effect" where
  \<comment> \<open>the send that carries to a slot the entries of \<open>X\<close> it owns: the header, then for
      each owned column the owned rows\<close>
  "data_message E X header r c colAlignment rowAlignment slot =
     (case slot of (row, col) \<Rightarrow>
        let colShift = Shift E row colAlignment r;
            rowShift = Shift E col rowAlignment c;
            localHeight = LocalLength E (ltg_height header) colShift r;
            localWidth = LocalLength E (ltg_width header) rowShift c
        in ISSend
             (DataBytes header
                (map (\<lambda>k. Matrix_Memory X ! nat k)
                   [(rowShift + t * c) * Matrix_LDim X + (colShift + s * r).
                      t \<leftarrow> [0..localWidth - 1], s \<leftarrow> [0..localHeight - 1]]))
             (int (sizeof_LocalToGlobalHeader E) + localHeight * localWidth * int (sizeof_T E))
             (row + r * col) DATA_TAG)"

definition destinations :: "'a effect list \<Rightarrow> int list" where
  \<comment> \<open>the destinations of the sends in a log, in order\<close>
  "destinations log = concat (map (\<lambda>m. case m of ISSend buf count dest tag \<Rightarrow> [dest] | _ \<Rightarrow> []) log)"

definition coordinates_ok :: "env \<Rightarrow> bool" where
  \<comment> \<open>what the statements need of \<^verbatim>\<open>Shift\<close> and \<^verbatim>\<open>LocalLength\<close>: a shift is an index, a
      local length is a count, and the last index it counts is below \<open>n\<close>\<close>
  "coordinates_ok E \<longleftrightarrow>
     (\<forall>k a m. 0 \<le> k \<and> k < m \<and> 0 \<le> a \<and> a < m \<longrightarrow> 0 \<le> Shift E k a m) \<and>
     (\<forall>n s m. 0 < m \<longrightarrow> 0 \<le> LocalLength E n s m) \<and>
     (\<forall>n s m. 0 < m \<and> 0 < LocalLength E n s m \<longrightarrow> s + (LocalLength E n s m - 1) * m < n)"

definition data_channels_ok :: "'a AxpyInterface \<Rightarrow> int \<Rightarrow> bool" where
  \<comment> \<open>the data channel of each of the \<open>p\<close> ranks exists and its three vectors have equal
      length\<close>
  "data_channels_ok s p \<longleftrightarrow>
     (\<forall>d. 0 \<le> d \<and> d < p \<longrightarrow>
        (\<exists>sv rq st. data_channel s d = Some (sv, rq, st)
           \<and> length sv = length rq \<and> length sv = length st))"

definition matrix_ok :: "'a Matrix \<Rightarrow> bool" where
  \<comment> \<open>the memory of a local matrix holds its \<open>Height\<close> x \<open>Width\<close> entries\<close>
  "matrix_ok X \<longleftrightarrow>
     0 \<le> Matrix_Height X \<and> 0 \<le> Matrix_Width X \<and> Matrix_Height X \<le> Matrix_LDim X
     \<and> Matrix_LDim X * Matrix_Width X \<le> int (length (Matrix_Memory X))"

definition put_fits :: "env \<Rightarrow> 'a DistMatrix \<Rightarrow> 'a Matrix \<Rightarrow> int \<Rightarrow> int \<Rightarrow> bool" where
  \<comment> \<open>no \<^verbatim>\<open>int\<close> of a put overflows: the shape of the target, the number of processes and
      the alignments moved by the offsets are below \<open>2^31\<close>, and so are the largest offset
      into the memory of \<open>X\<close> and, for each slot of the grid, the byte size of the message
      that carries the entries the slot owns\<close>
  "put_fits E Y X i j \<longleftrightarrow>
     (let r = Grid_Height (DistMatrix_Grid Y);
          c = Grid_Width (DistMatrix_Grid Y);
          colAlignment = (ColAlignment Y + i) smod r;
          rowAlignment = (RowAlignment Y + j) smod c
      in DistMatrix_Height Y < 2147483648 \<and> DistMatrix_Width Y < 2147483648
         \<and> Grid_Size (DistMatrix_Grid Y) < 2147483648
         \<and> ColAlignment Y + i < 2147483648 \<and> RowAlignment Y + j < 2147483648
         \<and> Matrix_LDim X * Matrix_Width X < 2147483648
         \<and> list_all
               (\<lambda>slot. int (sizeof_LocalToGlobalHeader E)
                        + LocalLength E (Matrix_Height X) (Shift E (fst slot) colAlignment r) r
                          * LocalLength E (Matrix_Width X) (Shift E (snd slot) rowAlignment c) c
                          * int (sizeof_T E)
                        < 2147483648)
               (row_major_slots r c))"

inductive put_serviced ::
  "env \<Rightarrow> (nat \<Rightarrow> 'a::{plus,times} DistMatrix option) \<Rightarrow> (nat \<Rightarrow> 'a DistMatrix option) \<Rightarrow> bool"
  for E :: env where
  \<comment> \<open>the second store of matrices comes from the first by calls of
      \<^verbatim>\<open>HandleLocalToGlobalData\<close> and by nothing else\<close>
  put_serviced_same: "put_serviced E h h"
| put_serviced_step:
    "put_serviced E h (heap w) \<Longrightarrow> put_serviced E h (heap (snd (HandleLocalToGlobalData E probe w)))"

section \<open>Concrete data\<close>

text \<open>
  A cyclic distribution for the concrete runs below: the alignment of a dimension is the
  grid coordinate that owns index 0, and ownership cycles through the grid.
\<close>

definition cyclic_Shift :: "int \<Rightarrow> int \<Rightarrow> int \<Rightarrow> int" where
  \<comment> \<open>Modelled from the spec: \<^verbatim>\<open>utilities::Shift\<close> is not among the sources; the first
      index owned by the slot at coordinate \<open>index\<close> of a dimension with \<open>modulus\<close> slots,
      when the slot at coordinate \<open>align\<close> owns index 0.\<close>
  "cyclic_Shift index align modulus = (index + modulus - align) smod modulus"

definition cyclic_LocalLength :: "int \<Rightarrow> int \<Rightarrow> int \<Rightarrow> int" where
  \<comment> \<open>Modelled from the spec: \<^verbatim>\<open>utilities::LocalLength\<close> is not among the sources; the
      number of indices below \<open>n\<close> that a slot owns when its first index is \<open>shift\<close> and
      ownership cycles with period \<open>modulus\<close>.\<close>
  "cyclic_LocalLength n shift modulus =
     (if n > shift then (n - shift - 1) sdiv modulus + 1 else 0)"

definition debug_env :: env where
  "debug_env =
     \<lparr>RELEASE = False, sizeof_T = 8, sizeof_LocalToGlobalHeader = 24,
      sizeof_GlobalToLocalRequestHeader = 16, sizeof_GlobalToLocalReplyHeader = 8,
      Shift = cyclic_Shift, LocalLength = cyclic_LocalLength\<rparr>"

definition release_env :: env where
  "release_env = debug_env\<lparr>RELEASE := True\<rparr>"

definition grid22 :: Grid where
  \<comment> \<open>the process at slot (0, 0) of a 2 x 2 grid\<close>
  "grid22 = \<lparr>Grid_Height = 2, Grid_Width = 2, Grid_MCRank = 0, Grid_MRRank = 0\<rparr>"

definition dist44 :: "int DistMatrix" where
  \<comment> \<open>a 4 x 4 matrix of zeros on that grid: the local part is 2 x 2\<close>
  "dist44 =
     \<lparr>DistMatrix_Height = 4, DistMatrix_Width = 4, ColAlignment = 0, RowAlignment = 0,
      ColShift = 0, RowShift = 0, DistMatrix_Grid = grid22, LocalLDim = 2,
      LocalMemory = [0, 0, 0, 0]\<rparr>"

definition fresh_world :: "int world" where
  "fresh_world = \<lparr>iface = AxpyInterface_default, heap = [0 \<mapsto> dist44], trace = []\<rparr>"

definition put_world :: "int world" where
  "put_world = snd (Attach LOCAL_TO_GLOBAL 0 fresh_world)"

definition ones22 :: "int Matrix" where
  "ones22 = \<lparr>Matrix_Height = 2, Matrix_Width = 2, Matrix_LDim = 2, Matrix_Memory = [1, 1, 1, 1]\<rparr>"

definition busy_world :: "int world" where
  \<comment> \<open>after one put of a 2 x 2 block of ones at (0, 0): a data send to each of the four
      peers is in flight\<close>
  "busy_world = snd (AxpyLocalToGlobal debug_env (\<lambda>request. False) 1 ones22 0 0 put_world)"

definition first_done :: "nat \<Rightarrow> bool" where
  \<comment> \<open>a completion test: only the send with handle 0 has completed\<close>
  "first_done request = (request = 0)"

definition grid11 :: Grid where
  \<comment> \<open>a grid of one process\<close>
  "grid11 = \<lparr>Grid_Height = 1, Grid_Width = 1, Grid_MCRank = 0, Grid_MRRank = 0\<rparr>"

definition padded11 :: "int DistMatrix" where
  \<comment> \<open>a 1 x 1 matrix of that grid whose local buffer has leading dimension 2\<close>
  "padded11 =
     \<lparr>DistMatrix_Height = 1, DistMatrix_Width = 1, ColAlignment = 0, RowAlignment = 0,
      ColShift = 0, RowShift = 0, DistMatrix_Grid = grid11, LocalLDim = 2,
      LocalMemory = [0, 0]\<rparr>"

definition padded_put_world :: "int world" where
  "padded_put_world =
     snd (Attach LOCAL_TO_GLOBAL 0
            \<lparr>iface = AxpyInterface_default, heap = [0 \<mapsto> padded11], trace = []\<rparr>)"

definition tall_header :: "int LocalToGlobalHeader" where
  \<comment> \<open>an update of a 2 x 1 region at (0, 0)\<close>
  "tall_header = \<lparr>ltg_i = 0, ltg_j = 0, ltg_height = 2, ltg_width = 1, ltg_alpha = 1\<rparr>"

definition busy_channel :: "int channel" where
  \<comment> \<open>one slot, whose send has handle 0 and is marked in flight\<close>
  "busy_channel = ([\<lparr>cv_size = 32, cv_bytes = Unwritten\<rparr>], [0], [True])"

definition single22 :: "int DistMatrix" where
  \<comment> \<open>a 2 x 2 matrix on the grid of one process, with the entries 1, 2, 3, 4 in
      column-major order\<close>
  "single22 =
     \<lparr>DistMatrix_Height = 2, DistMatrix_Width = 2, ColAlignment = 0, RowAlignment = 0,
      ColShift = 0, RowShift = 0, DistMatrix_Grid = grid11, LocalLDim = 2,
      LocalMemory = [1, 2, 3, 4]\<rparr>"

definition get_world :: "int world" where
  "get_world =
     snd (Attach_const GLOBAL_TO_LOCAL 0
            \<lparr>iface = AxpyInterface_default, heap = [0 \<mapsto> single22], trace = []\<rparr>)"

definition zero11 :: "int Matrix" where
  "zero11 = \<lparr>Matrix_Height = 1, Matrix_Width = 1, Matrix_LDim = 1, Matrix_Memory = [0]\<rparr>"

definition negative_request :: GlobalToLocalRequestHeader where
  \<comment> \<open>the request for the 1 x 1 region at (-1, 0)\<close>
  "negative_request = \<lparr>req_i = - 1, req_j = 0, req_height = 1, req_width = 1\<rparr>"

definition oversized_request :: GlobalToLocalRequestHeader where
  \<comment> \<open>the request for the 16384 x 16384 region at (0, 0)\<close>
  "oversized_request = \<lparr>req_i = 0, req_j = 0, req_height = 16384, req_width = 16384\<rparr>"

definition outside_request :: GlobalToLocalRequestHeader where
  \<comment> \<open>the request for the 3 x 3 region at (0, 0)\<close>
  "outside_request = \<lparr>req_i = 0, req_j = 0, req_height = 3, req_width = 3\<rparr>"

definition quiet_event :: "int event" where
  \<comment> \<open>a round in which no message is pending and no send has completed\<close>
  "quiet_event =
     \<lparr>ev_Test = (\<lambda>request. False), ev_TestEoms = (\<lambda>request. False), ev_data = None,
      ev_request = None, ev_reply = None, ev_eom = None\<rparr>"

definition negative_rounds :: "int event list" where
  \<comment> \<open>the process finds its own request, answers it, and finds its own reply\<close>
  "negative_rounds =
     [quiet_event\<lparr>ev_request := Some (0, negative_request)\<rparr>,
      quiet_event\<lparr>ev_reply := Some (0, 16, \<lparr>processRow = 0, processCol = 0\<rparr>, [1])\<rparr>]"

definition grid22_at10 :: Grid where
  \<comment> \<open>the process at slot (1, 0) of a 2 x 2 grid\<close>
  "grid22_at10 = grid22\<lparr>Grid_MCRank := 1\<rparr>"

definition put_world_at10 :: "int world" where
  "put_world_at10 =
     snd (Attach LOCAL_TO_GLOBAL 0
            \<lparr>iface = AxpyInterface_default,
             heap = [0 \<mapsto> dist44\<lparr>DistMatrix_Grid := grid22_at10\<rparr>], trace = []\<rparr>)"

section \<open>Properties\<close>

subsection \<open>Facts about the concrete data\<close>

lemma put_world_eq:
  "put_world =
     \<lparr>iface = resize_members 4
                (AxpyInterface_default\<lparr>attachedForLocalToGlobal := True, localToGlobalMat := Some 0\<rparr>),
      heap = [0 \<mapsto> dist44], trace = []\<rparr>"
  by (simp add: put_world_def Attach_def fresh_world_def AxpyInterface_default_def
      resize_for_def Let_def dist44_def grid22_def Grid_Size_def)

lemma put_world_attached: "attachedForLocalToGlobal (iface put_world)"
  by (simp add: put_world_eq resize_members_def)

lemma deref_put_world: "deref put_world (localToGlobalMat (iface put_world)) = Some dist44"
  by (simp add: put_world_eq deref_def resize_members_def AxpyInterface_default_def)

subsection \<open>Attach\<close>

text \<open>
  C9. \<^verbatim>\<open>Attach\<close>, in either overload, throws the usage error "Must detach before
  reattaching." when the instance is attached in either mode, and the overload for a
  constant matrix throws a usage error for \<open>LOCAL_TO_GLOBAL\<close> whatever the state. In
  each case the world at the throw is the world of the call: the attachment state, the
  channels and the log of sends and receives are as they were.
\<close>

theorem Attach_usage_errors:
  "(attachedForLocalToGlobal (iface w) \<or> attachedForGlobalToLocal (iface w) \<longrightarrow>
      Attach axpyType Z w = (Threw (logic_error ''Must detach before reattaching.''), w) \<and>
      Attach_const axpyType Z w = (Threw (logic_error ''Must detach before reattaching.''), w)) \<and>
   (\<exists>msg. Attach_const LOCAL_TO_GLOBAL Z w = (Threw (logic_error msg), w))"
  by (simp add: Attach_def Attach_const_def Let_def)

theorem Attach_usage_errors_witness:
  "attachedForLocalToGlobal (iface put_world) \<and>
   Attach GLOBAL_TO_LOCAL 0 put_world
     = (Threw (logic_error ''Must detach before reattaching.''), put_world) \<and>
   Attach_const GLOBAL_TO_LOCAL 0 put_world
     = (Threw (logic_error ''Must detach before reattaching.''), put_world) \<and>
   (\<exists>msg. Attach_const LOCAL_TO_GLOBAL 0 fresh_world = (Threw (logic_error msg), fresh_world))"
  using Attach_usage_errors [of put_world GLOBAL_TO_LOCAL 0]
    Attach_usage_errors [of fresh_world GLOBAL_TO_LOCAL 0] put_world_attached
  by simp

subsection \<open>Machine integers\<close>

lemma int32_id: "- 2147483648 \<le> x \<Longrightarrow> x < 2147483648 \<Longrightarrow> int32 x = x"
  by (simp add: int32_def)

lemma add32_id: "0 \<le> a + b \<Longrightarrow> a + b < 2147483648 \<Longrightarrow> add32 a b = a + b"
  by (simp add: add32_def int32_id)

lemma mul32_id: "0 \<le> a * b \<Longrightarrow> a * b < 2147483648 \<Longrightarrow> mul32 a b = a * b"
  by (simp add: mul32_def int32_id)

subsection \<open>AxpyLocalToGlobal: the bounds check\<close>

text \<open>
  The check of \<^verbatim>\<open>AxpyLocalToGlobal\<close> rejects a put whose offsets are negative, and a put
  whose region reaches past the height or the width of the attached matrix when the sum
  of offset and extent is within the range of an \<^verbatim>\<open>int\<close>. The world at the throw is the
  world of the call.
\<close>

lemma AxpyLocalToGlobal_bounds_without_overflow:
  assumes "deref w (localToGlobalMat (iface w)) = Some Y"
    and "0 \<le> Matrix_Height X" "0 \<le> Matrix_Width X"
    and "i < 0 \<or> j < 0
         \<or> (DistMatrix_Height Y < i + Matrix_Height X \<and> i + Matrix_Height X < 2147483648)
         \<or> (DistMatrix_Width Y < j + Matrix_Width X \<and> j + Matrix_Width X < 2147483648)"
  shows "\<exists>msg. AxpyLocalToGlobal E Test alpha X i j w = (Threw (logic_error msg), w)"
proof (cases "i < 0 \<or> j < 0")
  case True
  then show ?thesis using assms(1) by (auto simp: AxpyLocalToGlobal_def)
next
  case False
  then have "DistMatrix_Height Y < add32 i (Matrix_Height X)
             \<or> DistMatrix_Width Y < add32 j (Matrix_Width X)"
    using assms(2-4) by (auto simp: add32_id)
  then show ?thesis using assms(1) False by (auto simp: AxpyLocalToGlobal_def)
qed

text \<open>
  C2, at a failing input. Attached for updating to a 4 x 4 matrix on a 2 x 2 grid,
  \<^verbatim>\<open>AxpyLocalToGlobal\<close> is called with a 2 x 2 block and the offsets (2147483647, 0). The
  region lies far past the last row of the target: \<open>i + X.Height()\<close> is 2147483649 and
  the height of the target is 4. In the check \<^verbatim>\<open>i+X.Height() > Y.Height()\<close> the sum
  overflows the \<^verbatim>\<open>int\<close> and comes out as -2147483647, the check passes, and the call
  returns after it has issued a data send to each of the four processes; no bounds error
  is thrown.
\<close>

theorem AxpyLocalToGlobal_overflowing_offset:
  "DistMatrix_Height dist44 < 2147483647 + Matrix_Height ones22
   \<and> fst (AxpyLocalToGlobal debug_env (\<lambda>request. False) 1 ones22 2147483647 0 put_world)
       = Returned ()
   \<and> trace (snd (AxpyLocalToGlobal debug_env (\<lambda>request. False) 1 ones22 2147483647 0 put_world))
       = map (\<lambda>dest. ISSend (DataBytes \<lparr>ltg_i = 2147483647, ltg_j = 0, ltg_height = 2,
                                         ltg_width = 2, ltg_alpha = 1\<rparr> [1]) 32 dest DATA_TAG)
           [0, 1, 2, 3]"
  by code_simp

subsection \<open>Counted loops\<close>

lemma for_loop_rel:
  assumes refl: "\<And>s. R s s"
    and trans: "\<And>s t u. R s t \<Longrightarrow> R t u \<Longrightarrow> R s u"
    and step: "\<And>k s r s'. body k s = (r, s') \<Longrightarrow> R s s'"
  shows "for_loop ks body s = (r, s') \<Longrightarrow> R s s'"
proof (induction ks arbitrary: s)
  case Nil
  then show ?case using refl by simp
next
  case (Cons k ks)
  obtain r1 s1 where b: "body k s = (r1, s1)" by (cases "body k s")
  have R1: "R s s1" using step [OF b] .
  show ?case
  proof (cases r1)
    case (Returned u)
    then have "for_loop ks body s1 = (r, s')" using Cons.prems b by simp
    from Cons.IH [OF this] R1 show ?thesis using trans by blast
  next
    case (Threw e)
    then show ?thesis using Cons.prems b R1 by simp
  next
    case Undefined
    then show ?thesis using Cons.prems b R1 by simp
  next
    case Blocked
    then show ?thesis using Cons.prems b R1 by simp
  qed
qed

subsection \<open>ReadyForSend\<close>

lemma ReadyForSend_scan_spec:
  assumes "i + k = length sv" "length rq = length sv" "length st = length sv" "0 \<le> sendSize"
  shows "(\<exists>idx sv' st'.
            ReadyForSend_scan Test sendSize k i (sv, rq, st) = (Returned (Some idx), (sv', rq, st'))
            \<and> i \<le> idx \<and> idx < length sv \<and> length sv' = length sv \<and> length st' = length sv
            \<and> cv_size (sv' ! idx) = nat sendSize \<and> st' ! idx
            \<and> (\<not> st ! idx \<or> Test (rq ! idx)))
       \<or> (ReadyForSend_scan Test sendSize k i (sv, rq, st) = (Returned None, (sv, rq, st))
            \<and> (\<forall>n. i \<le> n \<and> n < length sv \<longrightarrow> st ! n \<and> \<not> Test (rq ! n)))"
  using assms
proof (induction k arbitrary: i)
  case 0
  then show ?case by auto
next
  case (Suc k)
  have i: "i < length sv" "i < length st" "i < length rq" using Suc.prems by simp_all
  show ?case
  proof (cases "st ! i \<and> \<not> Test (rq ! i)")
    case True
    then have "st[i := \<not> Test (rq ! i)] = st[i := st ! i]" by simp
    then have same: "st[i := \<not> Test (rq ! i)] = st"
      by (simp only: list_update_id)
    have step: "ReadyForSend_scan Test sendSize (Suc k) i (sv, rq, st)
        = ReadyForSend_scan Test sendSize k (Suc i) (sv, rq, st)"
      using True i same by (simp add: Let_def)
    have "Suc i + k = length sv" using Suc.prems by simp
    from Suc.IH [OF this Suc.prems(2) Suc.prems(3) Suc.prems(4)]
    show ?thesis
    proof
      assume "\<exists>idx sv' st'.
            ReadyForSend_scan Test sendSize k (Suc i) (sv, rq, st) = (Returned (Some idx), (sv', rq, st'))
            \<and> Suc i \<le> idx \<and> idx < length sv \<and> length sv' = length sv \<and> length st' = length sv
            \<and> cv_size (sv' ! idx) = nat sendSize \<and> st' ! idx
            \<and> (\<not> st ! idx \<or> Test (rq ! idx))"
      then show ?thesis unfolding step by (meson Suc_leD)
    next
      assume a: "ReadyForSend_scan Test sendSize k (Suc i) (sv, rq, st) = (Returned None, (sv, rq, st))
            \<and> (\<forall>n. Suc i \<le> n \<and> n < length sv \<longrightarrow> st ! n \<and> \<not> Test (rq ! n))"
      have "\<forall>n. i \<le> n \<and> n < length sv \<longrightarrow> st ! n \<and> \<not> Test (rq ! n)"
      proof (intro allI impI)
        fix n assume n: "i \<le> n \<and> n < length sv"
        show "st ! n \<and> \<not> Test (rq ! n)"
        proof (cases "n = i")
          case True
          then show ?thesis using \<open>st ! i \<and> \<not> Test (rq ! i)\<close> by simp
        next
          case False
          then have "Suc i \<le> n" using n by simp
          then show ?thesis using a n by blast
        qed
      qed
      then show ?thesis unfolding step using a by simp
    qed
  next
    case False
    then have free: "\<not> st ! i \<or> Test (rq ! i)" by simp
    have "ReadyForSend_scan Test sendSize (Suc k) i (sv, rq, st)
        = (Returned (Some i), (sv[i := resize_charvec (sv ! i) sendSize], rq,
             (if st ! i then st[i := \<not> Test (rq ! i)] else st)[i := True]))"
      using free i Suc.prems(4) by (auto simp: Let_def)
    moreover have "cv_size ((sv[i := resize_charvec (sv ! i) sendSize]) ! i) = nat sendSize"
      using i by (simp add: resize_charvec_def)
    moreover have "((if st ! i then st[i := \<not> Test (rq ! i)] else st)[i := True]) ! i"
      using i by simp
    ultimately show ?thesis using i free Suc.prems by auto
  qed
qed

lemma new_slot_resized:
  "length xs = n \<Longrightarrow>
     (xs @ [e])[n := resize_charvec ((xs @ [e]) ! n) k] = xs @ [resize_charvec e k]"
  by (simp add: list_update_append nth_append)

lemma ReadyForSend_returns:
  assumes "length sendVectors = length requests"
    and "length sendVectors = length requestStatuses"
    and "0 \<le> sendSize"
  shows "\<exists>idx sv rq st.
      ReadyForSend E Test sendSize (sendVectors, requests, requestStatuses)
        = (Returned idx, (sv, rq, st))
    \<and> 0 \<le> idx \<and> idx < int (length sv)
    \<and> cv_size (sv ! nat idx) = nat sendSize
    \<and> st ! nat idx
    \<and> (idx < int (length sendVectors) \<longrightarrow>
          (\<not> requestStatuses ! nat idx \<or> Test (requests ! nat idx))
          \<and> length sv = length sendVectors \<and> length rq = length requests
          \<and> length st = length requestStatuses)
    \<and> (\<not> idx < int (length sendVectors) \<longrightarrow>
          idx = int (length sendVectors)
          \<and> (\<forall>n < length sendVectors. requestStatuses ! n \<and> \<not> Test (requests ! n))
          \<and> length sv = length sendVectors + 1 \<and> length rq = length requests + 1
          \<and> length st = length requestStatuses + 1)
    \<and> length sv = length rq \<and> length sv = length st"
proof -
  have len: "0 + length sendVectors = length sendVectors" by simp
  from ReadyForSend_scan_spec [OF len assms(1) [symmetric] assms(2) [symmetric] assms(3), of Test]
  show ?thesis
  proof
    assume "\<exists>idx sv' st'.
              ReadyForSend_scan Test sendSize (length sendVectors) 0
                (sendVectors, requests, requestStatuses)
              = (Returned (Some idx), (sv', requests, st'))
            \<and> 0 \<le> idx \<and> idx < length sendVectors \<and> length sv' = length sendVectors
            \<and> length st' = length sendVectors
            \<and> cv_size (sv' ! idx) = nat sendSize \<and> st' ! idx
            \<and> (\<not> requestStatuses ! idx \<or> Test (requests ! idx))"
    then obtain idx sv' st' where
      s: "ReadyForSend_scan Test sendSize (length sendVectors) 0
            (sendVectors, requests, requestStatuses)
              = (Returned (Some idx), (sv', requests, st'))"
      and p: "idx < length sendVectors" "length sv' = length sendVectors"
        "length st' = length sendVectors" "cv_size (sv' ! idx) = nat sendSize" "st' ! idx"
        "\<not> requestStatuses ! idx \<or> Test (requests ! idx)"
      by blast
    have "ReadyForSend E Test sendSize (sendVectors, requests, requestStatuses)
            = (Returned (int idx), (sv', requests, st'))"
      using assms s by (simp add: ReadyForSend_def)
    then show ?thesis using p assms by simp
  next
    assume a: "ReadyForSend_scan Test sendSize (length sendVectors) 0
                 (sendVectors, requests, requestStatuses)
          = (Returned None, (sendVectors, requests, requestStatuses))
         \<and> (\<forall>n. 0 \<le> n \<and> n < length sendVectors
                \<longrightarrow> requestStatuses ! n \<and> \<not> Test (requests ! n))"
    have "ReadyForSend E Test sendSize (sendVectors, requests, requestStatuses)
        = (Returned (int (length sendVectors)),
            (sendVectors @ [resize_charvec empty_charvec sendSize], requests @ [0],
             requestStatuses @ [True]))"
      using assms a by (simp add: ReadyForSend_def resize_vec_def Let_def new_slot_resized)
    then show ?thesis using a assms
      by (simp add: resize_charvec_def nth_append)
  qed
qed

text \<open>
  C7. Called on three vectors of equal length with a size (a non-negative
  \<open>sendSize\<close>), \<^verbatim>\<open>ReadyForSend\<close> returns an index \<open>idx\<close> of a slot; on return the buffer
  of that slot has size \<open>sendSize\<close> and its status is true. If \<open>idx\<close> is a slot that
  existed, its status was false or the completion test of its request succeeded, and no
  vector has grown; otherwise \<open>idx\<close> is the one new slot, each vector has grown by
  exactly one, and every slot that existed was marked in flight with a completion test
  that failed. The three vectors have equal length on return.
\<close>

theorem ReadyForSend_slot:
  assumes "length sendVectors = length requests"
    and "length sendVectors = length requestStatuses"
    and "0 \<le> sendSize"
  shows "\<exists>idx sv rq st.
      ReadyForSend E Test sendSize (sendVectors, requests, requestStatuses)
        = (Returned idx, (sv, rq, st))
    \<and> 0 \<le> idx \<and> idx < int (length sv)
    \<and> cv_size (sv ! nat idx) = nat sendSize
    \<and> st ! nat idx
    \<and> (idx < int (length sendVectors) \<longrightarrow>
          (\<not> requestStatuses ! nat idx \<or> Test (requests ! nat idx))
          \<and> length sv = length sendVectors \<and> length rq = length requests
          \<and> length st = length requestStatuses)
    \<and> (\<not> idx < int (length sendVectors) \<longrightarrow>
          idx = int (length sendVectors)
          \<and> (\<forall>n < length sendVectors. requestStatuses ! n \<and> \<not> Test (requests ! n))
          \<and> length sv = length sendVectors + 1 \<and> length rq = length requests + 1
          \<and> length st = length requestStatuses + 1)
    \<and> length sv = length rq \<and> length sv = length st"
  using assms by (rule ReadyForSend_returns)

theorem ReadyForSend_slot_witness:
  "ReadyForSend debug_env first_done 40 busy_channel
     = (Returned 0, ([\<lparr>cv_size = 40, cv_bytes = Unwritten\<rparr>], [0], [True]))
   \<and> ReadyForSend debug_env (\<lambda>request. False) 40 busy_channel
     = (Returned 1, ([\<lparr>cv_size = 32, cv_bytes = Unwritten\<rparr>, \<lparr>cv_size = 40, cv_bytes = Unwritten\<rparr>],
                     [0, 0], [True, True]))
   \<and> (\<exists>idx sv rq st.
        ReadyForSend debug_env first_done 40 busy_channel = (Returned idx, (sv, rq, st))
        \<and> 0 \<le> idx \<and> idx < int (length sv) \<and> cv_size (sv ! nat idx) = 40 \<and> st ! nat idx
        \<and> length sv = length rq \<and> length sv = length st)"
proof -
  have a: "ReadyForSend debug_env first_done 40 busy_channel
     = (Returned 0, ([\<lparr>cv_size = 40, cv_bytes = Unwritten\<rparr>], [0], [True]))"
    by (simp add: ReadyForSend_def busy_channel_def debug_env_def first_done_def
        resize_charvec_def Let_def)
  have b: "ReadyForSend debug_env (\<lambda>request. False) 40 busy_channel
     = (Returned 1, ([\<lparr>cv_size = 32, cv_bytes = Unwritten\<rparr>, \<lparr>cv_size = 40, cv_bytes = Unwritten\<rparr>],
                     [0, 0], [True, True]))"
    by (simp add: ReadyForSend_def busy_channel_def debug_env_def
        resize_charvec_def resize_vec_def empty_charvec_def Let_def)
  have "\<exists>idx sv rq st.
        ReadyForSend debug_env first_done 40 busy_channel = (Returned idx, (sv, rq, st))
        \<and> 0 \<le> idx \<and> idx < int (length sv) \<and> cv_size (sv ! nat idx) = 40 \<and> st ! nat idx
        \<and> length sv = length rq \<and> length sv = length st"
    using ReadyForSend_slot [of "[\<lparr>cv_size = 32, cv_bytes = Unwritten\<rparr>]" "[0]" "[True]" 40
        debug_env first_done]
    unfolding busy_channel_def by simp blast
  with a b show ?thesis by simp
qed

subsection \<open>HandleEoms\<close>

lemma scanData_iff: "scanData bs \<longleftrightarrow> list_all Not bs"
  by (induction bs) auto

lemma scanMore_iff: "scanMore should bs \<longleftrightarrow> should \<and> list_all Not bs"
  by (induction bs) auto

lemma eoms_rel_refl: "eoms_rel w w"
  by (simp add: eoms_rel_def)

lemma eoms_rel_trans:
  assumes "eoms_rel s t" and "eoms_rel t u"
  shows "eoms_rel s u"
proof -
  from assms(1) obtain e1 where
    f1: "sendingData (iface t) = sendingData (iface s)"
        "sendingRequest (iface t) = sendingRequest (iface s)"
        "sendingReply (iface t) = sendingReply (iface s)"
    and t1: "trace t = trace s @ e1"
    and a1: "list_all (\<lambda>m. case m of
                        ISSend buf count X tag \<Rightarrow>
                          buf = DummyByte \<and> tag = EOM_TAG \<and> no_send_in_flight (iface s) X
                      | _ \<Rightarrow> False) e1"
    unfolding eoms_rel_def by blast
  from assms(2) obtain e2 where
    f2: "sendingData (iface u) = sendingData (iface t)"
        "sendingRequest (iface u) = sendingRequest (iface t)"
        "sendingReply (iface u) = sendingReply (iface t)"
    and t2: "trace u = trace t @ e2"
    and a2: "list_all (\<lambda>m. case m of
                        ISSend buf count X tag \<Rightarrow>
                          buf = DummyByte \<and> tag = EOM_TAG \<and> no_send_in_flight (iface t) X
                      | _ \<Rightarrow> False) e2"
    unfolding eoms_rel_def by blast
  have q: "no_send_in_flight (iface t) X = no_send_in_flight (iface s) X" for X
    using f1 by (simp add: no_send_in_flight_def)
  have "trace u = trace s @ (e1 @ e2)" using t1 t2 by simp
  moreover have "list_all (\<lambda>m. case m of
                        ISSend buf count X tag \<Rightarrow>
                          buf = DummyByte \<and> tag = EOM_TAG \<and> no_send_in_flight (iface s) X
                      | _ \<Rightarrow> False) (e1 @ e2)"
    using a1 a2 by (auto simp: list_all_iff q split: effect.splits)
  ultimately show ?thesis using f1 f2 unfolding eoms_rel_def by simp
qed

lemma HandleEoms_body_rel: "HandleEoms_body i w = (r, w') \<Longrightarrow> eoms_rel w w'"
  by (auto simp: HandleEoms_body_def Let_def eoms_rel_def mpi_ISSend_def no_send_in_flight_def
      scanMore_iff scanData_iff split: if_splits)

lemma HandleEoms_loop_rel: "for_loop ks HandleEoms_body w = (r, w') \<Longrightarrow> eoms_rel w w'"
  by (rule for_loop_rel [where R = eoms_rel and body = HandleEoms_body,
        OF eoms_rel_refl eoms_rel_trans HandleEoms_body_rel])

lemma UpdateRequestStatuses_body_frame:
  "UpdateRequestStatuses_body Test i w = (r, w') \<Longrightarrow> trace w' = trace w \<and> heap w' = heap w"
  by (auto simp: UpdateRequestStatuses_body_def Let_def split: option.splits)

lemma UpdateRequestStatuses_frame:
  assumes "UpdateRequestStatuses Test w = (r, w')"
  shows "trace w' = trace w \<and> heap w' = heap w"
proof (cases "attached_matrix w")
  case None
  then show ?thesis using assms by (simp add: UpdateRequestStatuses_def)
next
  case (Some Z)
  then have "for_loop [0..Grid_Size (DistMatrix_Grid Z) - 1] (UpdateRequestStatuses_body Test) w
               = (r, w')"
    using assms by (simp add: UpdateRequestStatuses_def)
  then show ?thesis
    by (rule for_loop_rel [where R = "\<lambda>w w'. trace w' = trace w \<and> heap w' = heap w", rotated -1])
      (auto dest: UpdateRequestStatuses_body_frame)
qed

text \<open>
  C1. Whatever \<^verbatim>\<open>HandleEoms\<close> sends during a call is sent to a peer \<open>X\<close> for which, at
  the moment of the send, every flag of a send in flight to \<open>X\<close> is false in the three
  channels \<^verbatim>\<open>_sendingData[X]\<close>, \<^verbatim>\<open>_sendingRequest[X]\<close> and \<^verbatim>\<open>_sendingReply[X]\<close>. The flags
  at that moment are those that \<^verbatim>\<open>UpdateRequestStatuses\<close> left at the start of the call,
  and they are still the flags when the call ends. The only sends of \<^verbatim>\<open>HandleEoms\<close> are
  the end-of-message tokens.
\<close>

theorem HandleEoms_eom_only_when_quiet:
  assumes "HandleEoms Test probe w = (res, w')"
    and "ISSend buf count X tag \<in> set (drop (length (trace w)) (trace w'))"
  shows "no_send_in_flight (iface (snd (UpdateRequestStatuses Test w))) X
         \<and> no_send_in_flight (iface w') X
         \<and> buf = DummyByte \<and> tag = EOM_TAG"
proof (cases "attached_matrix w")
  case None
  then have "w' = w" using assms(1) by (simp add: HandleEoms_def)
  then show ?thesis using assms(2) by simp
next
  case (Some Z)
  obtain r1 w1 where u: "UpdateRequestStatuses Test w = (r1, w1)"
    by (cases "UpdateRequestStatuses Test w")
  have t1: "trace w1 = trace w" using UpdateRequestStatuses_frame [OF u] by simp
  show ?thesis
  proof (cases "\<exists>x. r1 = Returned x")
    case False
    then have "w' = w1" using assms(1) Some u by (cases r1) (auto simp: HandleEoms_def)
    then show ?thesis using assms(2) t1 by simp
  next
    case True
    obtain r2 w2 where
      l: "for_loop [0..Grid_Size (DistMatrix_Grid Z) - 1] HandleEoms_body w1 = (r2, w2)"
      by (cases "for_loop [0..Grid_Size (DistMatrix_Grid Z) - 1] HandleEoms_body w1")
    from HandleEoms_loop_rel [OF l] obtain extra where
      fl: "sendingData (iface w2) = sendingData (iface w1)"
          "sendingRequest (iface w2) = sendingRequest (iface w1)"
          "sendingReply (iface w2) = sendingReply (iface w1)"
      and tr: "trace w2 = trace w1 @ extra"
      and ex: "list_all (\<lambda>m. case m of
                        ISSend buf count X tag \<Rightarrow>
                          buf = DummyByte \<and> tag = EOM_TAG \<and> no_send_in_flight (iface w1) X
                      | _ \<Rightarrow> False) extra"
      unfolding eoms_rel_def by blast
    have q2: "no_send_in_flight (iface w2) Y = no_send_in_flight (iface w1) Y" for Y
      using fl by (simp add: no_send_in_flight_def)
    have fin: "(trace w' = trace w2 \<or> (\<exists>source. trace w' = trace w2 @ [Recv 1 source EOM_TAG]))
        \<and> sendingData (iface w') = sendingData (iface w2)
        \<and> sendingRequest (iface w') = sendingRequest (iface w2)
        \<and> sendingReply (iface w') = sendingReply (iface w2)"
      using assms(1) Some u l True
      by (cases r2; cases probe) (auto simp: HandleEoms_def Let_def mpi_Recv_def split: if_splits)
    then have "set (drop (length (trace w)) (trace w'))
                 \<subseteq> set extra \<union> range (\<lambda>source. Recv 1 source EOM_TAG)"
      using tr t1 by auto
    then have "ISSend buf count X tag \<in> set extra" using assms(2) by auto
    then have "buf = DummyByte \<and> tag = EOM_TAG \<and> no_send_in_flight (iface w1) X"
      using ex by (auto simp: list_all_iff)
    moreover have "no_send_in_flight (iface w') X = no_send_in_flight (iface w2) X"
      using fin by (simp add: no_send_in_flight_def)
    ultimately show ?thesis using q2 u by simp
  qed
qed
lemma busy_eoms_trace:
  "drop (length (trace busy_world)) (trace (snd (HandleEoms first_done None busy_world)))
     = [ISSend DummyByte 1 0 EOM_TAG]"
  by code_simp

lemma busy_flags:
  "sendingData (iface (snd (HandleEoms first_done None busy_world)))
     = [[False], [True], [True], [True]]"
  by code_simp

theorem HandleEoms_eom_only_when_quiet_witness:
  "ISSend DummyByte 1 0 EOM_TAG
     \<in> set (drop (length (trace busy_world)) (trace (snd (HandleEoms first_done None busy_world))))
   \<and> no_send_in_flight (iface (snd (UpdateRequestStatuses first_done busy_world))) 0
   \<and> no_send_in_flight (iface (snd (HandleEoms first_done None busy_world))) 0
   \<and> sendingData (iface (snd (HandleEoms first_done None busy_world)))
       = [[False], [True], [True], [True]]"
proof -
  have m: "ISSend DummyByte 1 0 EOM_TAG
     \<in> set (drop (length (trace busy_world)) (trace (snd (HandleEoms first_done None busy_world))))"
    by (simp add: busy_eoms_trace)
  have e: "HandleEoms first_done None busy_world
     = (fst (HandleEoms first_done None busy_world), snd (HandleEoms first_done None busy_world))"
    by simp
  from HandleEoms_eom_only_when_quiet [OF e m] m busy_flags show ?thesis by simp
qed

subsection \<open>HandleLocalToGlobalData: the checks of the header\<close>

lemma padded_put_world_eq:
  "padded_put_world =
     \<lparr>iface = resize_members 1
                (AxpyInterface_default\<lparr>attachedForLocalToGlobal := True, localToGlobalMat := Some 0\<rparr>),
      heap = [0 \<mapsto> padded11], trace = []\<rparr>"
  by (simp add: padded_put_world_def Attach_def AxpyInterface_default_def
      resize_for_def Let_def padded11_def grid11_def Grid_Size_def)

text \<open>
  C4, as the code has it. The checks of the unpacked header stand between
  \<^verbatim>\<open>#ifndef RELEASE\<close> and \<^verbatim>\<open>#endif\<close>. In a build without \<^verbatim>\<open>RELEASE\<close>, a data message
  whose header has a negative offset, a negative height or width, or a region that
  reaches past the height or the width of the target, the sum of offset and extent
  being within the range of an \<^verbatim>\<open>int\<close>, makes \<^verbatim>\<open>HandleLocalToGlobalData\<close> throw, and the
  store of matrices at the throw is the store of the call: nothing was accumulated into
  the target.
\<close>

theorem HandleLocalToGlobalData_debug_bounds:
  assumes "\<not> RELEASE E"
    and "localToGlobalMat (iface w) = Some a" and "heap w a = Some Y"
    and "ltg_i header < 0 \<or> ltg_j header < 0 \<or> ltg_height header < 0 \<or> ltg_width header < 0
         \<or> (DistMatrix_Height Y < ltg_i header + ltg_height header
              \<and> ltg_i header + ltg_height header < 2147483648)
         \<or> (DistMatrix_Width Y < ltg_j header + ltg_width header
              \<and> ltg_j header + ltg_width header < 2147483648)"
  shows "\<exists>msg w'. HandleLocalToGlobalData E (Some (source, count, header, XBuffer)) w
                    = (Threw (logic_error msg), w')
                \<and> heap w' = heap w"
proof (cases "ltg_height header < 0 \<or> ltg_width header < 0 \<or> ltg_i header < 0 \<or> ltg_j header < 0")
  case True
  then show ?thesis
    using assms(1-3) by (auto simp: HandleLocalToGlobalData_def Let_def mpi_Recv_def)
next
  case False
  then have "DistMatrix_Height Y < add32 (ltg_i header) (ltg_height header)
             \<or> DistMatrix_Width Y < add32 (ltg_j header) (ltg_width header)"
    using assms(4) by (auto simp: add32_id)
  then show ?thesis
    using assms(1-3) False by (auto simp: HandleLocalToGlobalData_def Let_def mpi_Recv_def)
qed

theorem HandleLocalToGlobalData_debug_bounds_witness:
  "\<not> RELEASE debug_env
   \<and> localToGlobalMat (iface padded_put_world) = Some 0 \<and> heap padded_put_world 0 = Some padded11
   \<and> DistMatrix_Height padded11 < ltg_i tall_header + ltg_height tall_header
   \<and> ltg_i tall_header + ltg_height tall_header < 2147483648
   \<and> (\<exists>msg w'. HandleLocalToGlobalData debug_env (Some (0, 40, tall_header, [5, 7])) padded_put_world
                    = (Threw (logic_error msg), w')
                \<and> heap w' = heap padded_put_world)"
proof -
  have a: "\<not> RELEASE debug_env" by (simp add: debug_env_def)
  have b: "localToGlobalMat (iface padded_put_world) = Some 0"
    by (simp add: padded_put_world_eq resize_members_def AxpyInterface_default_def)
  have c: "heap padded_put_world 0 = Some padded11" by (simp add: padded_put_world_eq)
  have d: "DistMatrix_Height padded11 < ltg_i tall_header + ltg_height tall_header"
    "ltg_i tall_header + ltg_height tall_header < 2147483648"
    by (simp_all add: tall_header_def padded11_def)
  from HandleLocalToGlobalData_debug_bounds [OF a b c, of tall_header 0 40 "[5, 7]"] a b c d
  show ?thesis by simp
qed

text \<open>
  C4 as stated fails in a build with \<^verbatim>\<open>RELEASE\<close>: the header of a 2 x 1 update of a
  1 x 1 target is not checked, the call returns, and both entries were accumulated
  into the local buffer of the target.
\<close>

theorem HandleLocalToGlobalData_release_counterexample:
  "HandleLocalToGlobalData release_env (Some (0, 40, tall_header, [5, 7])) padded_put_world
     = (Returned (),
        padded_put_world\<lparr>heap := [0 \<mapsto> padded11\<lparr>LocalMemory := [5, 7]\<rparr>],
                         trace := [Recv 40 0 DATA_TAG]\<rparr>)
   \<and> ltg_i tall_header + ltg_height tall_header > DistMatrix_Height padded11"
  by (simp add: HandleLocalToGlobalData_def padded_put_world_eq Let_def mpi_Recv_def
      resize_members_def AxpyInterface_default_def padded11_def grid11_def tall_header_def
      release_env_def debug_env_def cyclic_Shift_def cyclic_LocalLength_def
      signed_modulo_int_def signed_divide_int_def in_range_def empty_charvec_def
      resize_vec_def upto.simps DATA_TAG_def LocalBuffer_def add32_def mul32_def int32_def)

subsection \<open>AxpyGlobalToLocal: negative offsets\<close>

text \<open>
  C3, at a failing input. Attached for reading to a 2 x 2 matrix on a grid of one
  process, \<^verbatim>\<open>AxpyGlobalToLocal\<close> is called with a 1 x 1 destination and the offsets
  (-1, 0). The only check, \<^verbatim>\<open>i+height > X.Height() || j+width > X.Width()\<close>, passes; the
  request is sent with \<open>i = -1\<close>, it is answered with the entry at local position (0, 0),
  and that entry is added into the caller's buffer. The call returns normally.
\<close>

theorem AxpyGlobalToLocal_negative_offset:
  "fst (AxpyGlobalToLocal debug_env (\<lambda>request. False) negative_rounds 1 zero11 (- 1) 0 get_world)
     = Returned ()
   \<and> fst (snd (AxpyGlobalToLocal debug_env (\<lambda>request. False) negative_rounds 1 zero11 (- 1) 0
                 get_world))
     = zero11\<lparr>Matrix_Memory := [1]\<rparr>
   \<and> trace (snd (snd (AxpyGlobalToLocal debug_env (\<lambda>request. False) negative_rounds 1 zero11
                        (- 1) 0 get_world)))
     = [ISSend (RequestBytes negative_request) 16 0 DATA_REQUEST_TAG,
        Recv 16 0 DATA_REQUEST_TAG,
        ISSend (ReplyBytes \<lparr>processRow = 0, processCol = 0\<rparr> [1]) 16 0 DATA_REPLY_TAG,
        Recv 16 0 DATA_REPLY_TAG]"
  by code_simp

subsection \<open>HandleGlobalToLocalRequest\<close>

lemma pack_in_range:
  assumes "0 \<le> idx" "idx < int (length sv)" "length sv = length rq"
  shows "pack buf request idx (sv, rq, st)
           = Some (sv[nat idx := (sv ! nat idx)\<lparr>cv_bytes := buf\<rparr>], rq[nat idx := request], st)"
  using assms by (simp add: pack_def in_range_def)

lemma read_col_length: "read_col mem k n = Some col \<Longrightarrow> int (length col) = n"
  by (auto simp: read_col_def split: if_splits)

lemma read_cols_length:
  "read_cols mem ks n = Some sendData \<Longrightarrow> int (length sendData) = int (length ks) * n"
proof (induction ks arbitrary: sendData)
  case Nil
  then show ?case by simp
next
  case (Cons k ks)
  from Cons.prems obtain col rest where
    c: "read_col mem k n = Some col" and r: "read_cols mem ks n = Some rest"
    and d: "sendData = col @ rest"
    by (auto split: option.splits)
  have "int (length col) = n" using c by (rule read_col_length)
  moreover have "int (length rest) = int (length ks) * n" using r by (rule Cons.IH)
  ultimately show ?case using d by (simp add: algebra_simps)
qed

text \<open>
  C10, as the code has it. \<^verbatim>\<open>HandleGlobalToLocalRequest\<close> does not check the header of a
  request against the shape of the matrix. On a grid with positive dimensions, for a
  source whose three reply vectors have equal length, and with a \<^verbatim>\<open>LocalLength\<close> that is
  never negative, take a pending request with any header whatever (negative offsets, a
  region larger than the matrix) for which the byte size of the reply,
  \<open>numEntries * sizeof(T) + sizeof(GlobalToLocalReplyHeader)\<close>, is within the range of an
  \<^verbatim>\<open>int\<close>. The function does not throw. It computes the local offsets and extents from
  the header as it stands; when the columns they select lie inside the local buffer it
  packs them behind the reply header and sends the reply to the source; when they do
  not, the copy reads outside the buffer, which is undefined behaviour, and no reply is
  sent.
\<close>

theorem HandleGlobalToLocalRequest_no_validation:
  assumes X: "deref w (globalToLocalMat (iface w)) = Some X"
    and grid: "0 < Grid_Height (DistMatrix_Grid X)" "0 < Grid_Width (DistMatrix_Grid X)"
    and ch: "reply_channel (iface w) source = Some (sv, rq, st)"
      "length sv = length rq" "length sv = length st"
    and nonneg: "\<forall>n s m. 0 < m \<longrightarrow> 0 \<le> LocalLength E n s m"
    and colShift: "colShift = Shift E (Grid_MCRank (DistMatrix_Grid X))
                     (add32 (ColAlignment X) (req_i requestHeader) smod Grid_Height (DistMatrix_Grid X))
                     (Grid_Height (DistMatrix_Grid X))"
    and rowShift: "rowShift = Shift E (Grid_MRRank (DistMatrix_Grid X))
                     (add32 (RowAlignment X) (req_j requestHeader) smod Grid_Width (DistMatrix_Grid X))
                     (Grid_Width (DistMatrix_Grid X))"
    and localHeight: "localHeight = LocalLength E (req_height requestHeader) colShift
                        (Grid_Height (DistMatrix_Grid X))"
    and localWidth: "localWidth = LocalLength E (req_width requestHeader) rowShift
                        (Grid_Width (DistMatrix_Grid X))"
    and iLocalOffset: "iLocalOffset = LocalLength E (req_i requestHeader) (ColShift X)
                        (Grid_Height (DistMatrix_Grid X))"
    and jLocalOffset: "jLocalOffset = LocalLength E (req_j requestHeader) (RowShift X)
                        (Grid_Width (DistMatrix_Grid X))"
    and cols: "cols = read_cols (LocalMemory X)
                        (map (\<lambda>t. LocalBuffer X iLocalOffset (add32 jLocalOffset t))
                           [0..localWidth - 1])
                        localHeight"
    and fits: "localHeight * localWidth < 2147483648"
      "localHeight * localWidth * int (sizeof_T E) + int (sizeof_GlobalToLocalReplyHeader E)
         < 2147483648"
  shows "(\<forall>e w'. HandleGlobalToLocalRequest E Test (Some (source, requestHeader)) w \<noteq> (Threw e, w'))
       \<and> (\<forall>sendData. cols = Some sendData \<longrightarrow>
            (\<exists>w'. HandleGlobalToLocalRequest E Test (Some (source, requestHeader)) w
                     = (Returned (), w')
                 \<and> trace w' = trace w @
                     [Recv (int (sizeof_GlobalToLocalRequestHeader E)) source DATA_REQUEST_TAG,
                      ISSend (ReplyBytes \<lparr>processRow = Grid_MCRank (DistMatrix_Grid X),
                                          processCol = Grid_MRRank (DistMatrix_Grid X)\<rparr> sendData)
                        (localHeight * localWidth * int (sizeof_T E)
                           + int (sizeof_GlobalToLocalReplyHeader E))
                        source DATA_REPLY_TAG]))
       \<and> (cols = None \<longrightarrow>
            HandleGlobalToLocalRequest E Test (Some (source, requestHeader)) w
              = (Undefined,
                 snd (HandleGlobalToLocalRequest E Test (Some (source, requestHeader)) w))
            \<and> trace (snd (HandleGlobalToLocalRequest E Test (Some (source, requestHeader)) w))
                = trace w @
                    [Recv (int (sizeof_GlobalToLocalRequestHeader E)) source DATA_REQUEST_TAG])"
proof -
  let ?w1 = "mpi_Recv (int (sizeof_GlobalToLocalRequestHeader E)) source DATA_REQUEST_TAG
               (w\<lparr>iface := (iface w)
                    \<lparr>recvVector := \<lparr>cv_size = sizeof_GlobalToLocalRequestHeader E,
                                    cv_bytes = RequestBytes requestHeader\<rparr>\<rparr>\<rparr>)"
  let ?size = "localHeight * localWidth * int (sizeof_T E)
                 + int (sizeof_GlobalToLocalReplyHeader E)"
  have ch1: "reply_channel (iface ?w1) source = Some (sv, rq, st)"
    using ch(1) by (simp add: reply_channel_def mpi_Recv_def split: if_splits)
  have nn: "0 \<le> localHeight" "0 \<le> localWidth"
    using nonneg grid localHeight localWidth by simp_all
  then have size: "0 \<le> ?size" by simp
  have n32: "mul32 localHeight localWidth = localHeight * localWidth"
    using nn fits(1) by (intro mul32_id) simp_all
  have s32: "int32 ?size = ?size" using size fits(2) by (intro int32_id) simp_all
  from ReadyForSend_returns [OF ch(2) ch(3) size, of E Test]
  obtain idx sv' rq' st' where
    rfs: "ReadyForSend E Test ?size (sv, rq, st) = (Returned idx, (sv', rq', st'))"
    and idx: "0 \<le> idx" "idx < int (length sv')" "length sv' = length rq'"
    by blast
  have nz: "\<not> (Grid_Height (DistMatrix_Grid X) = 0 \<or> Grid_Width (DistMatrix_Grid X) = 0)"
    using grid by simp
  show ?thesis
  proof (cases cols)
    case None
    then have "HandleGlobalToLocalRequest E Test (Some (source, requestHeader)) w
                 = (Undefined, ?w1\<lparr>iface := set_reply_channel source (sv', rq', st') (iface ?w1)\<rparr>)"
      using X nz ch1 rfs
      unfolding HandleGlobalToLocalRequest_def cols iLocalOffset jLocalOffset localHeight localWidth
        colShift rowShift
      by (simp add: Let_def n32 [unfolded localHeight localWidth colShift rowShift]
          s32 [unfolded localHeight localWidth colShift rowShift])
    then show ?thesis using None by (simp add: mpi_Recv_def)
  next
    case (Some sendData)
    let ?buf = "ReplyBytes \<lparr>processRow = Grid_MCRank (DistMatrix_Grid X),
                            processCol = Grid_MRRank (DistMatrix_Grid X)\<rparr> sendData"
    have "int (length sendData) = int (length (map (\<lambda>t. LocalBuffer X iLocalOffset (add32 jLocalOffset t))
                                                [0..localWidth - 1])) * localHeight"
      using Some cols by (intro read_cols_length) simp
    then have len: "int (length sendData) = localWidth * localHeight" using nn by simp
    have fit: "fits_buffer (sizeof_GlobalToLocalReplyHeader E) (length sendData) (sizeof_T E) ?size"
      using len by (simp add: fits_buffer_def mult.commute)
    obtain request w2 where s: "mpi_ISSend ?buf ?size source DATA_REPLY_TAG ?w1 = (request, w2)"
      by (cases "mpi_ISSend ?buf ?size source DATA_REPLY_TAG ?w1")
    have t2: "trace w2 = trace w @
                [Recv (int (sizeof_GlobalToLocalRequestHeader E)) source DATA_REQUEST_TAG,
                 ISSend ?buf ?size source DATA_REPLY_TAG]"
      using s by (auto simp: mpi_ISSend_def mpi_Recv_def)
    from pack_in_range [OF idx, of ?buf request st']
    obtain ch2 where p: "pack ?buf request idx (sv', rq', st') = Some ch2" by blast
    have "HandleGlobalToLocalRequest E Test (Some (source, requestHeader)) w
            = (Returned (), w2\<lparr>iface := set_reply_channel source ch2 (iface w2)\<rparr>)"
      using X nz ch1 rfs Some s p fit
      unfolding HandleGlobalToLocalRequest_def cols iLocalOffset jLocalOffset localHeight localWidth
        colShift rowShift
      by (simp add: Let_def n32 [unfolded localHeight localWidth colShift rowShift]
          s32 [unfolded localHeight localWidth colShift rowShift])
    then show ?thesis using Some t2 by simp
  qed
qed

lemma cyclic_LocalLength_nonneg: "0 < m \<Longrightarrow> 0 \<le> cyclic_LocalLength n s m"
  by (simp add: cyclic_LocalLength_def signed_divide_int_def sgn_if pos_imp_zdiv_nonneg_iff)

theorem HandleGlobalToLocalRequest_no_validation_witness:
  "req_i negative_request < 0
   \<and> (\<exists>w'. HandleGlobalToLocalRequest debug_env (\<lambda>request. False) (Some (0, negative_request))
              get_world
            = (Returned (), w')
          \<and> trace w' = trace get_world @
              [Recv 16 0 DATA_REQUEST_TAG,
               ISSend (ReplyBytes \<lparr>processRow = 0, processCol = 0\<rparr> [1]) 16 0 DATA_REPLY_TAG])"
proof -
  have X: "deref get_world (globalToLocalMat (iface get_world)) = Some single22"
    by code_simp
  have g: "0 < Grid_Height (DistMatrix_Grid single22)" "0 < Grid_Width (DistMatrix_Grid single22)"
    by (simp_all add: single22_def grid11_def)
  have ch: "reply_channel (iface get_world) 0 = Some ([], [], [])"
    by code_simp
  have nonneg: "\<forall>n s m. 0 < m \<longrightarrow> 0 \<le> LocalLength debug_env n s m"
    by (simp add: debug_env_def cyclic_LocalLength_nonneg)
  have cols: "read_cols (LocalMemory single22)
      (map (\<lambda>t. LocalBuffer single22
                   (LocalLength debug_env (req_i negative_request) (ColShift single22)
                      (Grid_Height (DistMatrix_Grid single22)))
                   (add32 (LocalLength debug_env (req_j negative_request) (RowShift single22)
                             (Grid_Width (DistMatrix_Grid single22))) t))
         [0..LocalLength debug_env (req_width negative_request)
               (Shift debug_env (Grid_MRRank (DistMatrix_Grid single22))
                  (add32 (RowAlignment single22) (req_j negative_request)
                     smod Grid_Width (DistMatrix_Grid single22))
                  (Grid_Width (DistMatrix_Grid single22)))
               (Grid_Width (DistMatrix_Grid single22)) - 1])
      (LocalLength debug_env (req_height negative_request)
         (Shift debug_env (Grid_MCRank (DistMatrix_Grid single22))
            (add32 (ColAlignment single22) (req_i negative_request)
               smod Grid_Height (DistMatrix_Grid single22))
            (Grid_Height (DistMatrix_Grid single22)))
         (Grid_Height (DistMatrix_Grid single22)))
      = Some [1]"
    by code_simp
  have vals: "LocalLength debug_env (req_height negative_request)
         (Shift debug_env (Grid_MCRank (DistMatrix_Grid single22))
            (add32 (ColAlignment single22) (req_i negative_request)
               smod Grid_Height (DistMatrix_Grid single22))
            (Grid_Height (DistMatrix_Grid single22)))
         (Grid_Height (DistMatrix_Grid single22)) = 1"
    "LocalLength debug_env (req_width negative_request)
               (Shift debug_env (Grid_MRRank (DistMatrix_Grid single22))
                  (add32 (RowAlignment single22) (req_j negative_request)
                     smod Grid_Width (DistMatrix_Grid single22))
                  (Grid_Width (DistMatrix_Grid single22)))
               (Grid_Width (DistMatrix_Grid single22)) = 1"
    "LocalLength debug_env (req_height negative_request)
         (Shift debug_env 0
            (add32 (ColAlignment single22) (req_i negative_request)
               smod Grid_Height (DistMatrix_Grid single22))
            (Grid_Height (DistMatrix_Grid single22)))
         (Grid_Height (DistMatrix_Grid single22)) = 1"
    "LocalLength debug_env (req_width negative_request)
               (Shift debug_env 0
                  (add32 (RowAlignment single22) (req_j negative_request)
                     smod Grid_Width (DistMatrix_Grid single22))
                  (Grid_Width (DistMatrix_Grid single22)))
               (Grid_Width (DistMatrix_Grid single22)) = 1"
    "sizeof_T debug_env = 8" "sizeof_GlobalToLocalReplyHeader debug_env = 8"
    "sizeof_GlobalToLocalRequestHeader debug_env = 16"
    "Grid_MCRank (DistMatrix_Grid single22) = 0" "Grid_MRRank (DistMatrix_Grid single22) = 0"
    by code_simp+
  have neg: "req_i negative_request < 0" by (simp add: negative_request_def)
  from HandleGlobalToLocalRequest_no_validation
    [OF X g ch _ _ nonneg refl refl refl refl refl refl refl,
     where Test = "\<lambda>request. False" and requestHeader = negative_request,
     THEN conjunct2, THEN conjunct1, rule_format, OF _ _ _ _ cols]
  have "\<exists>w'. HandleGlobalToLocalRequest debug_env (\<lambda>request. False) (Some (0, negative_request))
              get_world
            = (Returned (), w')
          \<and> trace w' = trace get_world @
              [Recv 16 0 DATA_REQUEST_TAG,
               ISSend (ReplyBytes \<lparr>processRow = 0, processCol = 0\<rparr> [1]) 16 0 DATA_REPLY_TAG]"
    unfolding vals by simp
  with neg show ?thesis by simp
qed

text \<open>
  C10 as stated fails on the 2 x 2 matrix of a grid of one process, with 8-byte entries.
  The request for the region of 16384 x 16384 entries at (0, 0) selects 268435456
  entries; the byte size of the reply, 2147483656, is stored in an \<^verbatim>\<open>int\<close> as
  -2147483640, and the \<^verbatim>\<open>resize\<close> in \<^verbatim>\<open>ReadyForSend\<close> throws \<^verbatim>\<open>std::length_error\<close>. The request
  for the region of 3 x 3 entries at (0, 0) selects three columns of three entries where
  the local buffer holds two columns of two, and the copy of the first column reads
  outside the buffer. In both runs the request is received and no reply is sent.
\<close>

theorem HandleGlobalToLocalRequest_reply_counterexample:
  "fst (HandleGlobalToLocalRequest debug_env (\<lambda>request. False) (Some (0, oversized_request))
          get_world)
     = Threw length_error
   \<and> trace (snd (HandleGlobalToLocalRequest debug_env (\<lambda>request. False)
                   (Some (0, oversized_request)) get_world))
     = [Recv 16 0 DATA_REQUEST_TAG]
   \<and> fst (HandleGlobalToLocalRequest debug_env (\<lambda>request. False) (Some (0, outside_request))
            get_world)
     = Undefined
   \<and> trace (snd (HandleGlobalToLocalRequest debug_env (\<lambda>request. False)
                   (Some (0, outside_request)) get_world))
     = [Recv 16 0 DATA_REQUEST_TAG]"
  by code_simp

subsection \<open>AxpyLocalToGlobal: what is sent, and to whom\<close>

lemma data_channel_set:
  assumes "data_channel s k \<noteq> None"
  shows "data_channel (set_data_channel k ch s) d = (if d = k then Some ch else data_channel s d)"
proof -
  have k: "0 \<le> k" "k < int (length (dataVectors s))" "k < int (length (dataSendRequests s))"
    "k < int (length (sendingData s))"
    using assms by (auto simp: data_channel_def in_range_def split: if_splits)
  then have n: "nat k < length (dataVectors s)" "nat k < length (dataSendRequests s)"
    "nat k < length (sendingData s)"
    by simp_all
  show ?thesis
  proof (cases "d = k")
    case True
    then show ?thesis using k n
      by (cases ch) (simp add: data_channel_def set_data_channel_def in_range_def)
  next
    case False
    show ?thesis
    proof (cases "0 \<le> d")
      case True
      then have "nat d \<noteq> nat k" using False k(1) by simp
      then show ?thesis using False
        by (simp add: data_channel_def set_data_channel_def in_range_def)
    next
      case False
      then show ?thesis using k(1)
        by (auto simp: data_channel_def set_data_channel_def in_range_def)
    qed
  qed
qed

lemma data_channels_ok_set:
  assumes "data_channels_ok s p" "0 \<le> k" "k < p"
    and "length (fst ch) = length (fst (snd ch))" "length (fst ch) = length (snd (snd ch))"
  shows "data_channels_ok (set_data_channel k ch s) p"
proof -
  have "data_channel s k \<noteq> None"
    using assms(1-3) unfolding data_channels_ok_def by fastforce
  then have eq: "data_channel (set_data_channel k ch s) d
                   = (if d = k then Some ch else data_channel s d)" for d
    by (rule data_channel_set)
  show ?thesis
    unfolding data_channels_ok_def
  proof (intro allI impI)
    fix d assume d: "0 \<le> d \<and> d < p"
    show "\<exists>sv rq st. data_channel (set_data_channel k ch s) d = Some (sv, rq, st)
            \<and> length sv = length rq \<and> length sv = length st"
    proof (cases "d = k")
      case True
      then show ?thesis using eq [of d] assms(4,5) by (cases ch) auto
    next
      case False
      then show ?thesis using eq [of d] assms(1) d unfolding data_channels_ok_def by simp
    qed
  qed
qed

lemma reads_in_range:
  assumes X: "matrix_ok X" and r: "0 < r" and c: "0 < c"
    and shifts: "0 \<le> colShift" "0 \<le> rowShift"
    and h: "0 < lh \<longrightarrow> colShift + (lh - 1) * r < Matrix_Height X"
    and w: "0 < lw \<longrightarrow> rowShift + (lw - 1) * c < Matrix_Width X"
  shows "list_all (in_range (Matrix_Memory X))
           [(rowShift + t * c) * Matrix_LDim X + (colShift + s * r).
              t \<leftarrow> [0..lw - 1], s \<leftarrow> [0..lh - 1]]"
proof -
  have "in_range (Matrix_Memory X) ((rowShift + t * c) * Matrix_LDim X + (colShift + s * r))"
    if t: "0 \<le> t" "t \<le> lw - 1" and s: "0 \<le> s" "s \<le> lh - 1" for t s
  proof -
    let ?L = "Matrix_LDim X"
    have L: "0 \<le> ?L" "Matrix_Height X \<le> ?L"
      "?L * Matrix_Width X \<le> int (length (Matrix_Memory X))"
      using X by (auto simp: matrix_ok_def)
    have "s * r \<le> (lh - 1) * r" using s r by (simp add: mult_right_mono)
    then have a: "colShift + s * r < ?L" using h s L by linarith
    have a0: "0 \<le> colShift + s * r" using shifts s r by simp
    have "t * c \<le> (lw - 1) * c" using t c by (simp add: mult_right_mono)
    then have b: "rowShift + t * c + 1 \<le> Matrix_Width X" using w t by linarith
    have b0: "0 \<le> rowShift + t * c" using shifts t c by simp
    have "(rowShift + t * c + 1) * ?L \<le> Matrix_Width X * ?L"
      using b L(1) by (rule mult_right_mono)
    then have "(rowShift + t * c) * ?L + ?L \<le> int (length (Matrix_Memory X))"
      using L(3) by (simp add: algebra_simps)
    moreover have "0 \<le> (rowShift + t * c) * ?L" using b0 L(1) by simp
    ultimately show ?thesis using a a0 by (simp add: in_range_def)
  qed
  then show ?thesis by (auto simp: list_all_iff)
qed
lemma smod_nonneg: "0 \<le> a \<Longrightarrow> 0 < b \<Longrightarrow> a smod b = a mod (b::int)"
  by (cases "a = 0") (simp_all add: signed_modulo_int_def sgn_if)

lemma concat_map_uniform_length:
  "(\<And>x. x \<in> set xs \<Longrightarrow> length (g x) = n) \<Longrightarrow> length (concat (map g xs)) = length xs * n"
  by (induction xs) simp_all

lemma concat_map_uniform_nth:
  "(\<And>x. x \<in> set xs \<Longrightarrow> length (g x) = n) \<Longrightarrow> k < length xs \<Longrightarrow> m < n
     \<Longrightarrow> concat (map g xs) ! (k * n + m) = g (xs ! k) ! m"
proof (induction xs arbitrary: k)
  case Nil
  then show ?case by simp
next
  case (Cons x xs)
  have lx: "length (g x) = n" using Cons.prems(1) by simp
  show ?case
  proof (cases k)
    case 0
    then show ?thesis using Cons.prems(3) lx by (simp add: nth_append)
  next
    case (Suc k')
    have "concat (map g xs) ! (k' * n + m) = g (xs ! k') ! m"
      using Cons.IH [of k'] Cons.prems Suc by simp
    then show ?thesis using Suc lx by (simp add: nth_append)
  qed
qed

lemma block_length:
  assumes "0 \<le> lw" "0 \<le> lh"
  shows "int (length [f t s. t \<leftarrow> [0..lw - 1], s \<leftarrow> [0..lh - 1]]) = lh * lw"
proof -
  have "length (concat (map (\<lambda>t. map (f t) [0..lh - 1]) [0..lw - 1])) = length [0..lw - 1] * nat lh"
    by (rule concat_map_uniform_length) simp
  then show ?thesis using assms by (simp add: nat_mult_distrib mult.commute)
qed

lemma block_nth:
  assumes "0 \<le> t" "t < lw" "0 \<le> s" "s < lh"
  shows "[f t s. t \<leftarrow> [0..lw - 1], s \<leftarrow> [0..lh - 1]] ! nat (t * lh + s) = f t s"
proof -
  have "concat (map (\<lambda>t. map (f t) [0..lh - 1]) [0..lw - 1]) ! (nat t * nat lh + nat s)
          = map (f ([0..lw - 1] ! nat t)) [0..lh - 1] ! nat s"
    by (rule concat_map_uniform_nth) (use assms in simp_all)
  moreover have "[0..lw - 1] ! nat t = t" using assms by (simp add: nth_upto)
  moreover have "map (f t) [0..lh - 1] ! nat s = f t s" using assms by (simp add: nth_upto)
  moreover have "nat (t * lh + s) = nat t * nat lh + nat s"
    using assms by (simp add: nat_add_distrib nat_mult_distrib)
  ultimately show ?thesis by simp
qed

lemma AxpyLocalToGlobal_send_returns:
  assumes ok: "data_channels_ok (iface w) p"
    and dest: "0 \<le> row + r * col" "row + r * col < p"
    and reads: "list_all (in_range (Matrix_Memory X))
                  [(rowShift + t * c) * Matrix_LDim X + (colShift + s * r).
                     t \<leftarrow> [0..lw - 1], s \<leftarrow> [0..lh - 1]]"
    and nn: "0 \<le> lh" "0 \<le> lw"
    and exact: "add32 row (mul32 r col) = row + r * col" "mul32 lh lw = lh * lw"
      "int32 (int (sizeof_LocalToGlobalHeader E) + lh * lw * int (sizeof_T E))
         = int (sizeof_LocalToGlobalHeader E) + lh * lw * int (sizeof_T E)"
      "[mul32 (add32 rowShift (mul32 t c)) (Matrix_LDim X) + add32 colShift (mul32 s r).
          t \<leftarrow> [0..lw - 1], s \<leftarrow> [0..lh - 1]]
       = [(rowShift + t * c) * Matrix_LDim X + (colShift + s * r).
            t \<leftarrow> [0..lw - 1], s \<leftarrow> [0..lh - 1]]"
  shows "\<exists>w'. AxpyLocalToGlobal_send E Test X header r c row col colShift rowShift lh lw w
                = (Returned (), w')
            \<and> trace w' = trace w @
                [ISSend (DataBytes header
                           (map (\<lambda>k. Matrix_Memory X ! nat k)
                              [(rowShift + t * c) * Matrix_LDim X + (colShift + s * r).
                                 t \<leftarrow> [0..lw - 1], s \<leftarrow> [0..lh - 1]]))
                   (int (sizeof_LocalToGlobalHeader E) + lh * lw * int (sizeof_T E))
                   (row + r * col) DATA_TAG]
            \<and> data_channels_ok (iface w') p \<and> heap w' = heap w"
proof -
  let ?d = "row + r * col"
  let ?size = "int (sizeof_LocalToGlobalHeader E) + lh * lw * int (sizeof_T E)"
  let ?idx = "[(rowShift + t * c) * Matrix_LDim X + (colShift + s * r).
                 t \<leftarrow> [0..lw - 1], s \<leftarrow> [0..lh - 1]]"
  let ?data = "map (\<lambda>k. Matrix_Memory X ! nat k) ?idx"
  let ?buf = "DataBytes header ?data"
  from ok dest obtain sv rq st where
    ch: "data_channel (iface w) ?d = Some (sv, rq, st)" "length sv = length rq"
      "length sv = length st"
    unfolding data_channels_ok_def by blast
  have size: "0 \<le> ?size" using nn by simp
  from ReadyForSend_returns [OF ch(2) ch(3) size, of E Test]
  obtain idx sv' rq' st' where
    rfs: "ReadyForSend E Test ?size (sv, rq, st) = (Returned idx, (sv', rq', st'))"
    and idx: "0 \<le> idx" "idx < int (length sv')" "length sv' = length rq'"
    and len: "length sv' = length st'"
    by blast
  have rc: "read_cells (Matrix_Memory X) ?idx = Some ?data"
    using reads by (simp add: read_cells_def)
  have "int (length ?idx) = lh * lw" using nn by (intro block_length) simp_all
  then have fit: "fits_buffer (sizeof_LocalToGlobalHeader E) (length ?data) (sizeof_T E) ?size"
    by (simp add: fits_buffer_def)
  obtain request w2 where s: "mpi_ISSend ?buf ?size ?d DATA_TAG w = (request, w2)"
    by (cases "mpi_ISSend ?buf ?size ?d DATA_TAG w")
  have w2: "trace w2 = trace w @ [ISSend ?buf ?size ?d DATA_TAG]" "iface w2 = iface w"
    "heap w2 = heap w"
    using s by (auto simp: mpi_ISSend_def)
  let ?ch2 = "(sv'[nat idx := (sv' ! nat idx)\<lparr>cv_bytes := ?buf\<rparr>], rq'[nat idx := request], st')"
  have p: "pack ?buf request idx (sv', rq', st') = Some ?ch2"
    by (rule pack_in_range [OF idx])
  have res: "AxpyLocalToGlobal_send E Test X header r c row col colShift rowShift lh lw w
          = (Returned (), w2\<lparr>iface := set_data_channel ?d ?ch2 (iface w2)\<rparr>)"
    unfolding AxpyLocalToGlobal_send_def Let_def exact
    using ch(1) rfs rc s p fit by simp
  have "data_channels_ok (set_data_channel ?d ?ch2 (iface w2)) p"
    using ok dest idx len w2(2) by (intro data_channels_ok_set) simp_all
  then show ?thesis using res w2 by simp
qed

lemma put_offsets_exact:
  assumes X: "matrix_ok X" and fit: "Matrix_LDim X * Matrix_Width X < 2147483648"
    and r: "0 < r" and c: "0 < c"
    and shifts: "0 \<le> colShift" "0 \<le> rowShift"
    and h: "0 < lh \<longrightarrow> colShift + (lh - 1) * r < Matrix_Height X"
    and w: "0 < lw \<longrightarrow> rowShift + (lw - 1) * c < Matrix_Width X"
  shows "[mul32 (add32 rowShift (mul32 t c)) (Matrix_LDim X) + add32 colShift (mul32 s r).
            t \<leftarrow> [0..lw - 1], s \<leftarrow> [0..lh - 1]]
       = [(rowShift + t * c) * Matrix_LDim X + (colShift + s * r).
            t \<leftarrow> [0..lw - 1], s \<leftarrow> [0..lh - 1]]"
proof -
  have pw: "mul32 (add32 rowShift (mul32 t c)) (Matrix_LDim X) + add32 colShift (mul32 s r)
          = (rowShift + t * c) * Matrix_LDim X + (colShift + s * r)"
    if t: "0 \<le> t" "t \<le> lw - 1" and s: "0 \<le> s" "s \<le> lh - 1" for t s
  proof -
    let ?L = "Matrix_LDim X"
    have L: "0 \<le> ?L" "Matrix_Height X \<le> ?L" "0 \<le> Matrix_Width X"
      using X by (auto simp: matrix_ok_def)
    have sr: "0 \<le> s * r" using s r by simp
    have "s * r \<le> (lh - 1) * r" using s r by (simp add: mult_right_mono)
    then have a: "colShift + s * r < Matrix_Height X" using h s by linarith
    have tc: "0 \<le> t * c" using t c by simp
    have "t * c \<le> (lw - 1) * c" using t c by (simp add: mult_right_mono)
    then have b: "rowShift + t * c + 1 \<le> Matrix_Width X" using w t by linarith
    have L1: "1 \<le> ?L" using a shifts sr L(2) by linarith
    have W1: "1 \<le> Matrix_Width X" using b shifts tc by linarith
    have "?L * 1 \<le> ?L * Matrix_Width X" using W1 L(1) by (rule mult_left_mono)
    then have LW: "?L < 2147483648" using fit by simp
    have "1 * Matrix_Width X \<le> ?L * Matrix_Width X" using L1 L(3) by (rule mult_right_mono)
    then have WW: "Matrix_Width X < 2147483648" using fit by simp
    have "(rowShift + t * c + 1) * ?L \<le> Matrix_Width X * ?L"
      using b L(1) by (rule mult_right_mono)
    then have "(rowShift + t * c) * ?L + ?L \<le> ?L * Matrix_Width X"
      by (simp add: algebra_simps)
    then have big: "(rowShift + t * c) * ?L < 2147483648" using fit L(1) by linarith
    have big0: "0 \<le> (rowShift + t * c) * ?L" using shifts tc L(1) by simp
    have e1: "mul32 t c = t * c" using tc b shifts WW by (intro mul32_id) linarith+
    have e2: "add32 rowShift (t * c) = rowShift + t * c"
      using tc b shifts WW by (intro add32_id) linarith+
    have e3: "mul32 (rowShift + t * c) ?L = (rowShift + t * c) * ?L"
      using big0 big by (rule mul32_id)
    have e4: "mul32 s r = s * r" using sr a shifts L(2) LW by (intro mul32_id) linarith+
    have e5: "add32 colShift (s * r) = colShift + s * r"
      using sr a shifts L(2) LW by (intro add32_id) linarith+
    show ?thesis by (simp only: e1 e2 e3 e4 e5)
  qed
  show ?thesis
    by (intro arg_cong [where f = concat] map_cong refl) (use pw in auto)
qed

lemma local_length_le:
  assumes E: "coordinates_ok E" and m: "0 < m" and n: "0 \<le> n" and s: "0 \<le> s"
  shows "0 \<le> LocalLength E n s m" "LocalLength E n s m \<le> n"
proof -
  let ?l = "LocalLength E n s m"
  show nn: "0 \<le> ?l" using E m unfolding coordinates_ok_def by blast
  show "?l \<le> n"
  proof (cases "0 < ?l")
    case False
    then show ?thesis using n by simp
  next
    case True
    then have last: "s + (?l - 1) * m < n" using E m unfolding coordinates_ok_def by blast
    have "(?l - 1) * 1 \<le> (?l - 1) * m" using True m by (intro mult_left_mono) simp_all
    then have "?l - 1 \<le> (?l - 1) * m" by simp
    then show ?thesis using last s by linarith
  qed
qed

lemma rank_bounds:
  assumes "0 < r" "0 < c" "0 \<le> row" "row < r" "0 \<le> col" "col < (c::int)"
  shows "0 \<le> row + r * col" "row + r * col < r * c"
proof -
  show "0 \<le> row + r * col" using assms by simp
  have "r * col \<le> r * (c - 1)" using assms by (intro mult_left_mono) simp_all
  then show "row + r * col < r * c" using assms by (simp add: algebra_simps)
qed

lemma rank_slot:
  assumes "0 < r" "0 \<le> row" "row < (r::int)"
  shows "(row + r * col) mod r = row" "(row + r * col) div r = col"
  using assms by simp_all

lemma next_slot:
  assumes r: "0 < r" and c: "0 < c" and row: "0 \<le> row" "row < r" and col: "0 \<le> col" "col < (c::int)"
    and fit: "r < 2147483648" "c < 2147483648"
  defines "row1 \<equiv> add32 row 1 smod r"
  defines "col1 \<equiv> (if row1 = 0 then add32 col 1 smod c else col)"
  shows "0 \<le> row1 \<and> row1 < r \<and> 0 \<le> col1 \<and> col1 < c
         \<and> row1 + r * col1 = (row + r * col + 1) mod (r * c)"
proof -
  have b: "0 \<le> row + r * col" "row + r * col < r * c"
    using rank_bounds [OF r c row col] by simp_all
  have "add32 row 1 = row + 1" using row fit by (intro add32_id) simp_all
  then have row1: "row1 = (row + 1) mod r" unfolding row1_def using row r by (simp add: smod_nonneg)
  have "add32 col 1 = col + 1" using col fit by (intro add32_id) simp_all
  then have colmod: "add32 col 1 smod c = (col + 1) mod c" using col c by (simp add: smod_nonneg)
  show ?thesis
  proof (cases "row + 1 < r")
    case True
    then have r1: "row1 = row + 1" using row1 row by simp
    then have c1: "col1 = col" unfolding col1_def using row by simp
    have "row + r * col + 1 < r * c"
    proof -
      have "r * col \<le> r * (c - 1)" using r col by (intro mult_left_mono) simp_all
      then show ?thesis using True by (simp add: algebra_simps)
    qed
    then have "(row + r * col + 1) mod (r * c) = row + r * col + 1" using b by simp
    then show ?thesis using r1 c1 True row col by simp
  next
    case False
    then have rr: "row + 1 = r" using row by simp
    then have r1: "row1 = 0" using row1 by simp
    then have c1: "col1 = (col + 1) mod c" unfolding col1_def using colmod by simp
    have eq: "row + r * col + 1 = r * (col + 1)" using rr by (simp add: algebra_simps)
    show ?thesis
    proof (cases "col + 1 < c")
      case True
      then have c2: "col1 = col + 1" using c1 col by simp
      have "r * (col + 1) \<le> r * (c - 1)" using r True by (intro mult_left_mono) simp_all
      then have "r * (col + 1) < r * c" using r by (simp add: algebra_simps)
      moreover have "0 \<le> r * (col + 1)" using r col by simp
      ultimately have "(r * (col + 1)) mod (r * c) = r * (col + 1)" by simp
      then show ?thesis using r1 c2 eq True r col by simp
    next
      case False
      then have cc: "col + 1 = c" using col by simp
      then have c2: "col1 = 0" using c1 by simp
      have "(r * (col + 1)) mod (r * c) = 0" using cc by simp
      then show ?thesis using r1 c2 eq r c by simp
    qed
  qed
qed

lemma slots_from_closed:
  assumes r: "0 < r" and c: "0 < c" and fit: "r < 2147483648" "c < 2147483648"
  shows "0 \<le> row \<Longrightarrow> row < r \<Longrightarrow> 0 \<le> col \<Longrightarrow> col < c \<Longrightarrow>
         slots_from n r c row col
           = map (\<lambda>k. (((row + r * col + int k) mod (r * c)) mod r,
                       ((row + r * col + int k) mod (r * c)) div r)) [0..<n]"
proof (induction n arbitrary: row col)
  case 0
  then show ?case by simp
next
  case (Suc n)
  let ?row1 = "add32 row 1 smod r"
  let ?col1 = "(if ?row1 = 0 then add32 col 1 smod c else col)"
  let ?d = "row + r * col"
  have nx: "0 \<le> ?row1" "?row1 < r" "0 \<le> ?col1" "?col1 < c"
    "?row1 + r * ?col1 = (?d + 1) mod (r * c)"
    using next_slot [OF r c Suc.prems fit] by simp_all
  have b: "0 \<le> ?d" "?d < r * c" using rank_bounds [OF r c Suc.prems] by simp_all
  have first: "((?d + int 0) mod (r * c)) mod r = row" "((?d + int 0) mod (r * c)) div r = col"
    using b rank_slot [OF r Suc.prems(1,2), of col] by simp_all
  have shift: "(?row1 + r * ?col1 + int k) mod (r * c) = (?d + int (Suc k)) mod (r * c)" for k
  proof -
    have "(?row1 + r * ?col1 + int k) mod (r * c) = ((?d + 1) mod (r * c) + int k) mod (r * c)"
      using nx(5) by simp
    also have "\<dots> = (?d + 1 + int k) mod (r * c)" by (simp add: mod_add_left_eq)
    finally show ?thesis by (simp add: algebra_simps)
  qed
  have "slots_from (Suc n) r c row col = (row, col) # slots_from n r c ?row1 ?col1"
    by (simp add: Let_def)
  also have "slots_from n r c ?row1 ?col1
      = map (\<lambda>k. (((?row1 + r * ?col1 + int k) mod (r * c)) mod r,
                  ((?row1 + r * ?col1 + int k) mod (r * c)) div r)) [0..<n]"
    by (rule Suc.IH [OF nx(1-4)])
  also have "\<dots> = map (\<lambda>k. (((?d + int (Suc k)) mod (r * c)) mod r,
                  ((?d + int (Suc k)) mod (r * c)) div r)) [0..<n]"
    by (simp only: shift)
  finally show ?case
    using first by (simp only: map_upt_Suc)
qed

lemma slots_once:
  assumes r: "0 < r" and c: "0 < c" and row: "0 \<le> row" "row < r" and col: "0 \<le> col" "col < c"
    and fit: "r < 2147483648" "c < 2147483648"
  shows "distinct (slots_from (nat (r * c)) r c row col)"
    and "set (slots_from (nat (r * c)) r c row col) = {0..r - 1} \<times> {0..c - 1}"
proof -
  let ?p = "r * c"
  let ?d = "row + r * col"
  let ?f = "\<lambda>k. (((?d + int k) mod ?p) mod r, ((?d + int k) mod ?p) div r)"
  have p: "0 < ?p" using r c by simp
  have closed: "slots_from (nat ?p) r c row col = map ?f [0..<nat ?p]"
    by (rule slots_from_closed [OF r c fit row col])
  have rank: "x mod r + r * (x div r) = x" for x :: int by simp
  have inj: "inj_on ?f {0..<nat ?p}"
  proof (rule inj_onI)
    fix a b assume a: "a \<in> {0..<nat ?p}" and b: "b \<in> {0..<nat ?p}" and e: "?f a = ?f b"
    let ?x = "(?d + int a) mod ?p" and ?y = "(?d + int b) mod ?p"
    from e have e1: "?x mod r = ?y mod r" and e2: "?x div r = ?y div r" by simp_all
    have "?x = ?x mod r + r * (?x div r)" by (simp only: rank)
    also have "\<dots> = ?y mod r + r * (?y div r)" by (simp only: e1 e2)
    also have "\<dots> = ?y" by (simp only: rank)
    finally have "(?d + int a) mod ?p = (?d + int b) mod ?p" .
    then have "((?d + int a) - ?d) mod ?p = ((?d + int b) - ?d) mod ?p"
      by (rule mod_diff_cong) simp
    then have "int a mod ?p = int b mod ?p" by simp
    moreover have "int a mod ?p = int a" "int b mod ?p = int b" using a b by simp_all
    ultimately show "a = b" by simp
  qed
  show "distinct (slots_from (nat ?p) r c row col)"
    unfolding closed using inj by (simp add: distinct_map)
  show "set (slots_from (nat ?p) r c row col) = {0..r - 1} \<times> {0..c - 1}"
  proof (intro set_eqI iffI)
    fix s assume "s \<in> set (slots_from (nat ?p) r c row col)"
    then obtain k where s: "s = ?f k" unfolding closed by auto
    let ?x = "(?d + int k) mod ?p"
    have x: "0 \<le> ?x" "?x < ?p" using p by simp_all
    have "0 \<le> ?x mod r" "?x mod r < r" using r by simp_all
    moreover have "0 \<le> ?x div r" using x r by (simp add: pos_imp_zdiv_nonneg_iff)
    moreover have "?x div r < c"
    proof (rule ccontr)
      assume "\<not> ?x div r < c"
      then have "c \<le> ?x div r" by simp
      then have "r * c \<le> r * (?x div r)" using r by (intro mult_left_mono) simp_all
      moreover have "r * (?x div r) + ?x mod r = ?x" by (rule mult_div_mod_eq)
      moreover have "0 \<le> ?x mod r" using r by simp
      ultimately show False using x(2) by linarith
    qed
    ultimately show "s \<in> {0..r - 1} \<times> {0..c - 1}" using s by simp
  next
    fix s assume s: "s \<in> {0..r - 1} \<times> {0..c - 1}"
    obtain a b where ab: "s = (a, b)" by (cases s)
    have a: "0 \<le> a" "a < r" and b: "0 \<le> b" "b < c" using s ab by simp_all
    let ?x = "a + r * b"
    have x: "0 \<le> ?x" "?x < ?p" using rank_bounds [OF r c a b] by simp_all
    let ?k = "nat ((?x - ?d) mod ?p)"
    have k: "?k < nat ?p" using p by simp
    have "(?d + int ?k) mod ?p = (?d + (?x - ?d) mod ?p) mod ?p" using p by simp
    also have "\<dots> = (?d + (?x - ?d)) mod ?p" by (simp add: mod_add_right_eq)
    also have "\<dots> = ?x" using x by simp
    finally have "(a, b) = ?f ?k" using rank_slot [OF r a, of b] by simp
    moreover have "?k \<in> {0..<nat ?p}" using k by simp
    ultimately have "(a, b) \<in> ?f ` {0..<nat ?p}" by (rule image_eqI)
    then show "s \<in> set (slots_from (nat ?p) r c row col)" unfolding closed ab by simp
  qed
qed

lemma AxpyLocalToGlobal_body_returns:
  assumes E: "coordinates_ok E" and X: "matrix_ok X" and r: "0 < r" and c: "0 < c"
    and hdr: "ltg_height header = Matrix_Height X" "ltg_width header = Matrix_Width X"
    and al: "0 \<le> colAlignment" "colAlignment < r" "0 \<le> rowAlignment" "rowAlignment < c"
    and fit: "r * c < 2147483648" "Matrix_LDim X * Matrix_Width X < 2147483648"
    and sizes: "\<forall>row col. 0 \<le> row \<and> row < r \<and> 0 \<le> col \<and> col < c \<longrightarrow>
                  int (sizeof_LocalToGlobalHeader E)
                  + LocalLength E (Matrix_Height X) (Shift E row colAlignment r) r
                    * LocalLength E (Matrix_Width X) (Shift E col rowAlignment c) c
                    * int (sizeof_T E)
                  < 2147483648"
    and ok: "data_channels_ok (iface w) (r * c)"
    and row: "0 \<le> row" "row < r" and col: "0 \<le> col" "col < c"
  shows "\<exists>w'. AxpyLocalToGlobal_body E Test X header r c colAlignment rowAlignment k (row, col, w)
            = (Returned (),
               (add32 row 1 smod r, (if add32 row 1 smod r = 0 then add32 col 1 smod c else col), w'))
          \<and> trace w' = trace w @
               map (data_message E X header r c colAlignment rowAlignment)
                 (filter (\<lambda>slot. numEntries_of E header r c colAlignment rowAlignment slot \<noteq> 0)
                    [(row, col)])
          \<and> data_channels_ok (iface w') (r * c) \<and> heap w' = heap w"
proof -
  let ?cs = "Shift E row colAlignment r"
  let ?rs = "Shift E col rowAlignment c"
  let ?lh = "LocalLength E (ltg_height header) ?cs r"
  let ?lw = "LocalLength E (ltg_width header) ?rs c"
  let ?H = "Matrix_Height X" and ?W = "Matrix_Width X" and ?L = "Matrix_LDim X"
  have XX: "0 \<le> ?H" "0 \<le> ?W" "?H \<le> ?L" using X by (auto simp: matrix_ok_def)
  have cs: "0 \<le> ?cs" and rs: "0 \<le> ?rs"
    using E row col al unfolding coordinates_ok_def by blast+
  have lh: "0 \<le> ?lh" "?lh \<le> ?H"
    using local_length_le [OF E r XX(1) cs] hdr by simp_all
  have lw: "0 \<le> ?lw" "?lw \<le> ?W"
    using local_length_le [OF E c XX(2) rs] hdr by simp_all
  have prod0: "0 \<le> ?lh * ?lw" using lh lw by simp
  have "?lh * ?lw \<le> ?H * ?W" using lh lw XX by (intro mult_mono) simp_all
  moreover have "?H * ?W \<le> ?L * ?W" using XX by (intro mult_right_mono) simp_all
  ultimately have prod: "?lh * ?lw \<le> ?H * ?W" "?lh * ?lw < 2147483648"
    using fit(2) by simp_all
  have n32: "mul32 ?lh ?lw = ?lh * ?lw" using prod0 prod(2) by (rule mul32_id)
  show ?thesis
  proof (cases "?lh * ?lw = 0")
    case True
    then show ?thesis using ok n32
      by (auto simp: AxpyLocalToGlobal_body_def Let_def numEntries_of_def)
  next
    case False
    have last: "0 < ?lh \<longrightarrow> ?cs + (?lh - 1) * r < Matrix_Height X"
      "0 < ?lw \<longrightarrow> ?rs + (?lw - 1) * c < Matrix_Width X"
      using E r c hdr unfolding coordinates_ok_def by metis+
    have reads: "list_all (in_range (Matrix_Memory X))
                  [(?rs + t * c) * Matrix_LDim X + (?cs + s * r).
                     t \<leftarrow> [0..?lw - 1], s \<leftarrow> [0..?lh - 1]]"
      by (rule reads_in_range [OF X r c cs rs last])
    have offsets: "[mul32 (add32 ?rs (mul32 t c)) (Matrix_LDim X) + add32 ?cs (mul32 s r).
                      t \<leftarrow> [0..?lw - 1], s \<leftarrow> [0..?lh - 1]]
                 = [(?rs + t * c) * Matrix_LDim X + (?cs + s * r).
                      t \<leftarrow> [0..?lw - 1], s \<leftarrow> [0..?lh - 1]]"
      by (rule put_offsets_exact [OF X fit(2) r c cs rs last])
    have dest: "0 \<le> row + r * col" "row + r * col < r * c"
      using rank_bounds [OF r c row col] by simp_all
    have rcol: "0 \<le> r * col" using r col by simp
    then have "mul32 r col = r * col" using dest(2) row(1) fit(1) by (intro mul32_id) linarith+
    moreover have "add32 row (r * col) = row + r * col"
      using dest fit(1) by (intro add32_id) linarith+
    ultimately have d32: "add32 row (mul32 r col) = row + r * col" by simp
    have "int (sizeof_LocalToGlobalHeader E) + ?lh * ?lw * int (sizeof_T E) < 2147483648"
      using sizes row col hdr by simp
    moreover have "0 \<le> int (sizeof_LocalToGlobalHeader E) + ?lh * ?lw * int (sizeof_T E)"
      using prod0 by simp
    ultimately have s32: "int32 (int (sizeof_LocalToGlobalHeader E) + ?lh * ?lw * int (sizeof_T E))
                   = int (sizeof_LocalToGlobalHeader E) + ?lh * ?lw * int (sizeof_T E)"
      by (intro int32_id) linarith+
    from AxpyLocalToGlobal_send_returns [OF ok dest reads lh(1) lw(1) d32 n32 s32 offsets,
        of Test header]
    obtain w' where
      s: "AxpyLocalToGlobal_send E Test X header r c row col ?cs ?rs ?lh ?lw w = (Returned (), w')"
      and t: "trace w' = trace w @
                [ISSend (DataBytes header
                           (map (\<lambda>k. Matrix_Memory X ! nat k)
                              [(?rs + t * c) * Matrix_LDim X + (?cs + s * r).
                                 t \<leftarrow> [0..?lw - 1], s \<leftarrow> [0..?lh - 1]]))
                   (int (sizeof_LocalToGlobalHeader E) + ?lh * ?lw * int (sizeof_T E))
                   (row + r * col) DATA_TAG]"
      and k: "data_channels_ok (iface w') (r * c)" "heap w' = heap w"
      by blast
    have "AxpyLocalToGlobal_body E Test X header r c colAlignment rowAlignment k (row, col, w)
            = (Returned (),
               (add32 row 1 smod r, (if add32 row 1 smod r = 0 then add32 col 1 smod c else col), w'))"
      using False s n32 by (simp add: AxpyLocalToGlobal_body_def Let_def)
    moreover have "trace w' = trace w @
               map (data_message E X header r c colAlignment rowAlignment)
                 (filter (\<lambda>slot. numEntries_of E header r c colAlignment rowAlignment slot \<noteq> 0)
                    [(row, col)])"
      using False t by (simp add: numEntries_of_def data_message_def Let_def)
    ultimately show ?thesis using k by blast
  qed
qed

lemma AxpyLocalToGlobal_loop_returns:
  assumes E: "coordinates_ok E" and X: "matrix_ok X" and r: "0 < r" and c: "0 < c"
    and hdr: "ltg_height header = Matrix_Height X" "ltg_width header = Matrix_Width X"
    and al: "0 \<le> colAlignment" "colAlignment < r" "0 \<le> rowAlignment" "rowAlignment < c"
    and fit: "r * c < 2147483648" "Matrix_LDim X * Matrix_Width X < 2147483648"
    and sizes: "\<forall>row col. 0 \<le> row \<and> row < r \<and> 0 \<le> col \<and> col < c \<longrightarrow>
                  int (sizeof_LocalToGlobalHeader E)
                  + LocalLength E (Matrix_Height X) (Shift E row colAlignment r) r
                    * LocalLength E (Matrix_Width X) (Shift E col rowAlignment c) c
                    * int (sizeof_T E)
                  < 2147483648"
  shows "data_channels_ok (iface w) (r * c) \<Longrightarrow> 0 \<le> row \<Longrightarrow> row < r \<Longrightarrow> 0 \<le> col \<Longrightarrow> col < c
     \<Longrightarrow> \<exists>row' col' w'.
           for_loop ks (AxpyLocalToGlobal_body E Test X header r c colAlignment rowAlignment)
             (row, col, w) = (Returned (), (row', col', w'))
         \<and> trace w' = trace w @
              map (data_message E X header r c colAlignment rowAlignment)
                (filter (\<lambda>slot. numEntries_of E header r c colAlignment rowAlignment slot \<noteq> 0)
                   (slots_from (length ks) r c row col))
         \<and> heap w' = heap w"
proof (induction ks arbitrary: row col w)
  case Nil
  then show ?case by simp
next
  case (Cons k ks)
  let ?body = "AxpyLocalToGlobal_body E Test X header r c colAlignment rowAlignment"
  let ?owns = "\<lambda>slot. numEntries_of E header r c colAlignment rowAlignment slot \<noteq> 0"
  let ?msg = "data_message E X header r c colAlignment rowAlignment"
  let ?row1 = "add32 row 1 smod r"
  let ?col1 = "(if ?row1 = 0 then add32 col 1 smod c else col)"
  have "r * 1 \<le> r * c" using r c by (intro mult_left_mono) simp_all
  moreover have "1 * c \<le> r * c" using r c by (intro mult_right_mono) simp_all
  ultimately have rc: "r < 2147483648" "c < 2147483648" using fit(1) by simp_all
  from AxpyLocalToGlobal_body_returns [OF E X r c hdr al fit sizes Cons.prems, of Test k]
  obtain w1 where
    b: "?body k (row, col, w) = (Returned (), (?row1, ?col1, w1))"
    and t1: "trace w1 = trace w @ map ?msg (filter ?owns [(row, col)])"
    and ok1: "data_channels_ok (iface w1) (r * c)" and h1: "heap w1 = heap w"
    by blast
  have nx: "0 \<le> ?row1" "?row1 < r" "0 \<le> ?col1" "?col1 < c"
    using next_slot [OF r c Cons.prems(2-5) rc] by simp_all
  from Cons.IH [OF ok1 nx]
  obtain row' col' w' where
    l: "for_loop ks ?body (?row1, ?col1, w1) = (Returned (), (row', col', w'))"
    and t: "trace w' = trace w1 @ map ?msg (filter ?owns (slots_from (length ks) r c ?row1 ?col1))"
    and h: "heap w' = heap w1"
    by blast
  have "for_loop (k # ks) ?body (row, col, w) = (Returned (), (row', col', w'))"
    using b l by simp
  moreover have "trace w' = trace w @ map ?msg (filter ?owns (slots_from (length (k # ks)) r c row col))"
    using t t1 by (simp add: Let_def)
  ultimately show ?case using h h1 by simp
qed

lemma AxpyLocalToGlobal_returns:
  assumes Y: "deref w (localToGlobalMat (iface w)) = Some Y"
    and inb: "0 \<le> i" "0 \<le> j" "i + Matrix_Height X \<le> DistMatrix_Height Y"
      "j + Matrix_Width X \<le> DistMatrix_Width Y"
    and g: "g = DistMatrix_Grid Y" "r = Grid_Height g" "c = Grid_Width g" "0 < r" "0 < c"
    and me: "0 \<le> Grid_MCRank g" "Grid_MCRank g < r" "0 \<le> Grid_MRRank g" "Grid_MRRank g < c"
    and al: "0 \<le> ColAlignment Y" "0 \<le> RowAlignment Y"
    and E: "coordinates_ok E" and X: "matrix_ok X" and fits: "put_fits E Y X i j"
    and ok: "data_channels_ok (iface w) (Grid_Size g)"
    and header: "header = \<lparr>ltg_i = i, ltg_j = j, ltg_height = Matrix_Height X,
                            ltg_width = Matrix_Width X, ltg_alpha = alpha\<rparr>"
    and slots: "slots = slots_from (nat (Grid_Size g)) r c (Grid_MCRank g) (Grid_MRRank g)"
  shows "\<exists>w'. AxpyLocalToGlobal E Test alpha X i j w = (Returned (), w')
      \<and> trace w' = trace w @
           map (data_message E X header r c ((ColAlignment Y + i) smod r) ((RowAlignment Y + j) smod c))
             (filter (\<lambda>slot. numEntries_of E header r c ((ColAlignment Y + i) smod r)
                               ((RowAlignment Y + j) smod c) slot \<noteq> 0) slots)
      \<and> slots = map (\<lambda>k. (((Grid_VCRank g + int k) mod (r * c)) mod r,
                           ((Grid_VCRank g + int k) mod (r * c)) div r)) [0..<nat (r * c)]
      \<and> distinct slots \<and> set slots = {0..r - 1} \<times> {0..c - 1}"
proof -
  let ?ca = "(ColAlignment Y + i) smod r"
  let ?ra = "(RowAlignment Y + j) smod c"
  let ?body = "AxpyLocalToGlobal_body E Test X header r c ?ca ?ra"
  have p: "Grid_Size g = r * c" using g by (simp add: Grid_Size_def)
  have fit: "r * c < 2147483648" "Matrix_LDim X * Matrix_Width X < 2147483648"
    using fits g(1) p unfolding put_fits_def Let_def by simp_all
  have ints: "DistMatrix_Height Y < 2147483648" "DistMatrix_Width Y < 2147483648"
    "ColAlignment Y + i < 2147483648" "RowAlignment Y + j < 2147483648"
    using fits unfolding put_fits_def Let_def by simp_all
  have "list_all
          (\<lambda>slot. int (sizeof_LocalToGlobalHeader E)
                   + LocalLength E (Matrix_Height X) (Shift E (fst slot) ?ca r) r
                     * LocalLength E (Matrix_Width X) (Shift E (snd slot) ?ra c) c
                     * int (sizeof_T E)
                   < 2147483648)
          (row_major_slots r c)"
    using fits g(1-3) unfolding put_fits_def Let_def by simp
  then have sizes: "\<forall>row col. 0 \<le> row \<and> row < r \<and> 0 \<le> col \<and> col < c \<longrightarrow>
                  int (sizeof_LocalToGlobalHeader E)
                  + LocalLength E (Matrix_Height X) (Shift E row ?ca r) r
                    * LocalLength E (Matrix_Width X) (Shift E col ?ra c) c
                    * int (sizeof_T E)
                  < 2147483648"
    unfolding list_all_iff row_major_slots_def by fastforce
  have "r * 1 \<le> r * c" using g(4,5) by (intro mult_left_mono) simp_all
  moreover have "1 * c \<le> r * c" using g(4,5) by (intro mult_right_mono) simp_all
  ultimately have rc: "r < 2147483648" "c < 2147483648" using fit(1) by simp_all
  have XX: "0 \<le> Matrix_Height X" "0 \<le> Matrix_Width X" using X by (auto simp: matrix_ok_def)
  have "add32 i (Matrix_Height X) = i + Matrix_Height X"
    using inb XX ints by (intro add32_id) linarith+
  moreover have "add32 j (Matrix_Width X) = j + Matrix_Width X"
    using inb XX ints by (intro add32_id) linarith+
  ultimately have check: "\<not> (add32 i (Matrix_Height X) > DistMatrix_Height Y
                             \<or> add32 j (Matrix_Width X) > DistMatrix_Width Y)"
    using inb by simp
  have ca32: "add32 (ColAlignment Y) i = ColAlignment Y + i"
    using al inb ints by (intro add32_id) linarith+
  have ra32: "add32 (RowAlignment Y) j = RowAlignment Y + j"
    using al inb ints by (intro add32_id) linarith+
  have ca: "0 \<le> ?ca" "?ca < r" using al inb g by (simp_all add: smod_nonneg)
  have ra: "0 \<le> ?ra" "?ra < c" using al inb g by (simp_all add: smod_nonneg)
  have hdr: "ltg_height header = Matrix_Height X" "ltg_width header = Matrix_Width X"
    using header by simp_all
  have len: "length [0..Grid_Size g - 1] = nat (Grid_Size g)" by simp
  from AxpyLocalToGlobal_loop_returns
    [OF E X g(4,5) hdr ca ra fit sizes ok [unfolded p] me,
     where Test = Test and ks = "[0..Grid_Size g - 1]"]
  obtain row' col' w' where
    l: "for_loop [0..Grid_Size g - 1] ?body (Grid_MCRank g, Grid_MRRank g, w)
          = (Returned (), (row', col', w'))"
    and t: "trace w' = trace w @
              map (data_message E X header r c ?ca ?ra)
                (filter (\<lambda>slot. numEntries_of E header r c ?ca ?ra slot \<noteq> 0) slots)"
    unfolding slots len by blast
  have "AxpyLocalToGlobal E Test alpha X i j w = (Returned (), w')"
    using Y inb(1,2) check g l header
    by (simp add: AxpyLocalToGlobal_def Let_def ca32 ra32)
  moreover have "slots = map (\<lambda>k. (((Grid_VCRank g + int k) mod (r * c)) mod r,
                           ((Grid_VCRank g + int k) mod (r * c)) div r)) [0..<nat (r * c)]"
    unfolding slots p Grid_VCRank_def g(2) [symmetric]
    by (rule slots_from_closed [OF g(4,5) rc me])
  moreover have "distinct slots" "set slots = {0..r - 1} \<times> {0..c - 1}"
    unfolding slots p by (rule slots_once [OF g(4,5) me rc])+
  ultimately show ?thesis using t by blast
qed

text \<open>
  C5, as the code has it. Take an in-bounds put on a grid of \<open>r * c\<close> processes, with
  the data channels of all ranks in order and no \<^verbatim>\<open>int\<close> of the put overflowing
  (\<open>put_fits\<close>: in particular the byte size of each message is below \<open>2^31\<close>). Every
  call that \<^verbatim>\<open>AxpyLocalToGlobal\<close> adds to the log is a send with the data tag to the rank
  \<open>row + r * col\<close> of a slot \<open>(row, col)\<close> of the grid, \<open>0 \<le> row < r\<close> and
  \<open>0 \<le> col < c\<close>, of a buffer that holds the header \<open>{i, j, height, width, alpha}\<close> of
  the whole region followed by exactly \<open>localHeight * localWidth\<close> entries, the part of
  the region that this slot owns: \<open>localHeight\<close> and \<open>localWidth\<close> are the local
  lengths of \<open>height\<close> and \<open>width\<close> for that slot, not \<open>height\<close> and \<open>width\<close>. The
  entries are in column-major order of the packed part: entry \<open>t * localHeight + s\<close>
  is the entry of \<open>X\<close> in row \<open>colShift + s * r\<close> and column \<open>rowShift + t * c\<close>. The
  count of the send is the size of the header plus the size of these entries.
\<close>

theorem AxpyLocalToGlobal_message_layout:
  assumes Y: "deref w (localToGlobalMat (iface w)) = Some Y"
    and inb: "0 \<le> i" "0 \<le> j" "i + Matrix_Height X \<le> DistMatrix_Height Y"
      "j + Matrix_Width X \<le> DistMatrix_Width Y"
    and g: "g = DistMatrix_Grid Y" "r = Grid_Height g" "c = Grid_Width g" "0 < r" "0 < c"
    and me: "0 \<le> Grid_MCRank g" "Grid_MCRank g < r" "0 \<le> Grid_MRRank g" "Grid_MRRank g < c"
    and al: "0 \<le> ColAlignment Y" "0 \<le> RowAlignment Y"
    and E: "coordinates_ok E" and X: "matrix_ok X" and fits: "put_fits E Y X i j"
    and ok: "data_channels_ok (iface w) (Grid_Size g)"
    and run: "AxpyLocalToGlobal E Test alpha X i j w = (res, w')"
    and m: "m \<in> set (drop (length (trace w)) (trace w'))"
  shows "\<exists>row col sendData colShift rowShift localHeight localWidth.
      0 \<le> row \<and> row < r \<and> 0 \<le> col \<and> col < c
    \<and> colShift = Shift E row ((ColAlignment Y + i) smod r) r
    \<and> rowShift = Shift E col ((RowAlignment Y + j) smod c) c
    \<and> localHeight = LocalLength E (Matrix_Height X) colShift r
    \<and> localWidth = LocalLength E (Matrix_Width X) rowShift c
    \<and> m = ISSend
            (DataBytes \<lparr>ltg_i = i, ltg_j = j, ltg_height = Matrix_Height X,
                        ltg_width = Matrix_Width X, ltg_alpha = alpha\<rparr> sendData)
            (int (sizeof_LocalToGlobalHeader E) + localHeight * localWidth * int (sizeof_T E))
            (row + r * col) DATA_TAG
    \<and> int (length sendData) = localHeight * localWidth
    \<and> localHeight * localWidth \<noteq> 0
    \<and> (\<forall>t s. 0 \<le> t \<and> t < localWidth \<and> 0 \<le> s \<and> s < localHeight \<longrightarrow>
          sendData ! nat (t * localHeight + s)
            = Matrix_Memory X ! nat ((rowShift + t * c) * Matrix_LDim X + (colShift + s * r)))"
proof -
  let ?header = "\<lparr>ltg_i = i, ltg_j = j, ltg_height = Matrix_Height X, ltg_width = Matrix_Width X,
                   ltg_alpha = alpha\<rparr>"
  let ?ca = "(ColAlignment Y + i) smod r"
  let ?ra = "(RowAlignment Y + j) smod c"
  let ?slots = "slots_from (nat (Grid_Size g)) r c (Grid_MCRank g) (Grid_MRRank g)"
  let ?owns = "\<lambda>slot. numEntries_of E ?header r c ?ca ?ra slot \<noteq> 0"
  from AxpyLocalToGlobal_returns [OF Y inb g me al E X fits ok refl refl, of Test alpha]
  obtain w1 where
    r1: "AxpyLocalToGlobal E Test alpha X i j w = (Returned (), w1)"
    and t1: "trace w1 = trace w @ map (data_message E X ?header r c ?ca ?ra) (filter ?owns ?slots)"
    and grid: "set ?slots = {0..r - 1} \<times> {0..c - 1}"
    by blast
  have "w' = w1" using run r1 by simp
  then have "m \<in> set (map (data_message E X ?header r c ?ca ?ra) (filter ?owns ?slots))"
    using m t1 by simp
  then obtain slot where
    sl: "slot \<in> set ?slots" "?owns slot" "m = data_message E X ?header r c ?ca ?ra slot"
    by auto
  obtain row col where rc: "slot = (row, col)" by (cases slot)
  have "(row, col) \<in> {0..r - 1} \<times> {0..c - 1}" using sl(1) grid rc by simp
  then have bounds: "0 \<le> row" "row < r" "0 \<le> col" "col < c" by simp_all
  have slot: "m = data_message E X ?header r c ?ca ?ra (row, col)"
    "numEntries_of E ?header r c ?ca ?ra (row, col) \<noteq> 0"
    using sl rc by simp_all
  let ?cs = "Shift E row ?ca r"
  let ?rs = "Shift E col ?ra c"
  let ?lh = "LocalLength E (Matrix_Height X) ?cs r"
  let ?lw = "LocalLength E (Matrix_Width X) ?rs c"
  let ?idx = "[(?rs + t * c) * Matrix_LDim X + (?cs + s * r). t \<leftarrow> [0..?lw - 1], s \<leftarrow> [0..?lh - 1]]"
  let ?data = "map (\<lambda>k. Matrix_Memory X ! nat k) ?idx"
  have nn: "0 \<le> ?lh" "0 \<le> ?lw" using E g(4,5) unfolding coordinates_ok_def by blast+
  have len: "int (length ?idx) = ?lh * ?lw" using nn by (intro block_length) simp_all
  have msg: "m = ISSend (DataBytes ?header ?data)
            (int (sizeof_LocalToGlobalHeader E) + ?lh * ?lw * int (sizeof_T E))
            (row + r * col) DATA_TAG"
    using slot(1) by (simp add: data_message_def Let_def)
  have nz: "?lh * ?lw \<noteq> 0" using slot(2) by (simp add: numEntries_of_def)
  have nth: "?data ! nat (t * ?lh + s)
        = Matrix_Memory X ! nat ((?rs + t * c) * Matrix_LDim X + (?cs + s * r))"
    if ts: "0 \<le> t \<and> t < ?lw \<and> 0 \<le> s \<and> s < ?lh" for t s
  proof -
    have "t * ?lh + s < ?lh * ?lw"
    proof -
      have "t + 1 \<le> ?lw" using ts by simp
      then have "(t + 1) * ?lh \<le> ?lw * ?lh" using nn(1) by (rule mult_right_mono)
      then show ?thesis using ts by (simp add: algebra_simps)
    qed
    moreover have "0 \<le> t * ?lh + s" using ts nn by simp
    ultimately have "nat (t * ?lh + s) < length ?idx" using len by linarith
    then have "?data ! nat (t * ?lh + s) = Matrix_Memory X ! nat (?idx ! nat (t * ?lh + s))"
      by (rule nth_map)
    moreover have "?idx ! nat (t * ?lh + s) = (?rs + t * c) * Matrix_LDim X + (?cs + s * r)"
      using ts by (intro block_nth) simp_all
    ultimately show ?thesis by simp
  qed
  have "int (length ?data) = ?lh * ?lw" using len by simp
  with bounds msg nz nth show ?thesis by blast
qed

text \<open>
  C6, as the code has it. For an in-bounds put on a grid of \<open>r * c\<close> processes, with the
  data channels of all ranks in order and no \<^verbatim>\<open>int\<close> of the put overflowing
  (\<open>put_fits\<close>: in particular the byte size of each message is below \<open>2^31\<close>),
  \<^verbatim>\<open>AxpyLocalToGlobal\<close> returns, and what it adds to the log is one data message for each
  visited slot with \<^verbatim>\<open>numEntries != 0\<close>, in the order of the visits, and nothing for a slot
  with \<^verbatim>\<open>numEntries == 0\<close>. The slots are visited starting from the caller's own slot with
  the row coordinate moving fastest, that is in cyclic order of their ranks
  \<open>row + r * col\<close>, each slot of the grid exactly once; this is not the row-major order
  by (row, col).
\<close>

theorem AxpyLocalToGlobal_one_message_per_owner:
  assumes Y: "deref w (localToGlobalMat (iface w)) = Some Y"
    and inb: "0 \<le> i" "0 \<le> j" "i + Matrix_Height X \<le> DistMatrix_Height Y"
      "j + Matrix_Width X \<le> DistMatrix_Width Y"
    and g: "g = DistMatrix_Grid Y" "r = Grid_Height g" "c = Grid_Width g" "0 < r" "0 < c"
    and me: "0 \<le> Grid_MCRank g" "Grid_MCRank g < r" "0 \<le> Grid_MRRank g" "Grid_MRRank g < c"
    and al: "0 \<le> ColAlignment Y" "0 \<le> RowAlignment Y"
    and E: "coordinates_ok E" and X: "matrix_ok X" and fits: "put_fits E Y X i j"
    and ok: "data_channels_ok (iface w) (Grid_Size g)"
    and header: "header = \<lparr>ltg_i = i, ltg_j = j, ltg_height = Matrix_Height X,
                            ltg_width = Matrix_Width X, ltg_alpha = alpha\<rparr>"
    and slots: "slots = slots_from (nat (Grid_Size g)) r c (Grid_MCRank g) (Grid_MRRank g)"
  shows "\<exists>w'. AxpyLocalToGlobal E Test alpha X i j w = (Returned (), w')
      \<and> trace w' = trace w @
           map (data_message E X header r c ((ColAlignment Y + i) smod r) ((RowAlignment Y + j) smod c))
             (filter (\<lambda>slot. numEntries_of E header r c ((ColAlignment Y + i) smod r)
                               ((RowAlignment Y + j) smod c) slot \<noteq> 0) slots)
      \<and> slots = map (\<lambda>k. (((Grid_VCRank g + int k) mod (r * c)) mod r,
                           ((Grid_VCRank g + int k) mod (r * c)) div r)) [0..<nat (r * c)]
      \<and> distinct slots \<and> set slots = {0..r - 1} \<times> {0..c - 1}"
  using assms by (rule AxpyLocalToGlobal_returns)

lemma cyclic_coordinates_ok: "coordinates_ok debug_env"
proof -
  have shift: "0 \<le> cyclic_Shift k a m" if "0 \<le> k" "k < m" "0 \<le> a" "a < m" for k a m
    using that by (simp add: cyclic_Shift_def smod_nonneg)
  have last: "s + (cyclic_LocalLength n s m - 1) * m < n"
    if m: "0 < m" and l: "0 < cyclic_LocalLength n s m" for n s m
  proof -
    have ns: "s < n" using l by (simp add: cyclic_LocalLength_def split: if_splits)
    then have "cyclic_LocalLength n s m - 1 = (n - s - 1) div m"
      using m by (simp add: cyclic_LocalLength_def signed_divide_int_def sgn_if)
    moreover have "(n - s - 1) div m * m \<le> n - s - 1"
    proof -
      have "m * ((n - s - 1) div m) + (n - s - 1) mod m = n - s - 1" by (rule mult_div_mod_eq)
      moreover have "0 \<le> (n - s - 1) mod m" using m by simp
      ultimately have "m * ((n - s - 1) div m) \<le> n - s - 1" by linarith
      then show ?thesis by (simp add: mult.commute)
    qed
    ultimately show ?thesis by simp
  qed
  show ?thesis
    unfolding coordinates_ok_def
    using shift last cyclic_LocalLength_nonneg by (simp add: debug_env_def)
qed

lemma put_world_at10_eq:
  "put_world_at10 =
     \<lparr>iface = resize_members 4
                (AxpyInterface_default\<lparr>attachedForLocalToGlobal := True, localToGlobalMat := Some 0\<rparr>),
      heap = [0 \<mapsto> dist44\<lparr>DistMatrix_Grid := grid22_at10\<rparr>], trace = []\<rparr>"
  by (simp add: put_world_at10_def Attach_def AxpyInterface_default_def
      resize_for_def Let_def dist44_def grid22_def grid22_at10_def Grid_Size_def)

lemma fresh_data_channels:
  "data_channels_ok
     (resize_members 4
        (AxpyInterface_default\<lparr>attachedForLocalToGlobal := True, localToGlobalMat := Some 0\<rparr>)) 4"
proof -
  have "data_channel
     (resize_members 4
        (AxpyInterface_default\<lparr>attachedForLocalToGlobal := True, localToGlobalMat := Some 0\<rparr>)) d
      = Some ([], [], [])" if "0 \<le> d \<and> d < 4" for d
  proof -
    have "d = 0 \<or> d = 1 \<or> d = 2 \<or> d = 3" using that by auto
    then show ?thesis
      by (auto simp: data_channel_def resize_members_def AxpyInterface_default_def
          resize_vec_def in_range_def numeral_eq_Suc)
  qed
  then show ?thesis unfolding data_channels_ok_def by (intro allI impI exI [of _ "[]"]) simp
qed

theorem AxpyLocalToGlobal_message_layout_witness:
  "ISSend (DataBytes \<lparr>ltg_i = 0, ltg_j = 0, ltg_height = 2, ltg_width = 2, ltg_alpha = 1\<rparr> [1])
          32 0 DATA_TAG
     \<in> set (drop (length (trace put_world))
              (trace (snd (AxpyLocalToGlobal debug_env (\<lambda>request. False) 1 ones22 0 0 put_world))))
   \<and> (\<exists>row col sendData colShift rowShift localHeight localWidth.
        0 \<le> row \<and> row < 2 \<and> 0 \<le> col \<and> col < 2
      \<and> colShift = Shift debug_env row ((ColAlignment dist44 + 0) smod 2) 2
      \<and> rowShift = Shift debug_env col ((RowAlignment dist44 + 0) smod 2) 2
      \<and> localHeight = LocalLength debug_env (Matrix_Height ones22) colShift 2
      \<and> localWidth = LocalLength debug_env (Matrix_Width ones22) rowShift 2
      \<and> ISSend (DataBytes \<lparr>ltg_i = 0, ltg_j = 0, ltg_height = 2, ltg_width = 2, ltg_alpha = 1\<rparr> [1])
           32 0 DATA_TAG
          = ISSend
              (DataBytes \<lparr>ltg_i = 0, ltg_j = 0, ltg_height = Matrix_Height ones22,
                          ltg_width = Matrix_Width ones22, ltg_alpha = 1\<rparr> sendData)
              (int (sizeof_LocalToGlobalHeader debug_env)
                 + localHeight * localWidth * int (sizeof_T debug_env))
              (row + 2 * col) DATA_TAG
      \<and> int (length sendData) = localHeight * localWidth
      \<and> localHeight * localWidth \<noteq> 0
      \<and> (\<forall>t s. 0 \<le> t \<and> t < localWidth \<and> 0 \<le> s \<and> s < localHeight \<longrightarrow>
            sendData ! nat (t * localHeight + s)
              = Matrix_Memory ones22
                  ! nat ((rowShift + t * 2) * Matrix_LDim ones22 + (colShift + s * 2))))"
proof -
  let ?run = "AxpyLocalToGlobal debug_env (\<lambda>request. False) 1 ones22 0 0 put_world"
  have run: "?run = (fst ?run, snd ?run)" by simp
  have inb: "(0::int) \<le> 0" "0 + Matrix_Height ones22 \<le> DistMatrix_Height dist44"
    "0 + Matrix_Width ones22 \<le> DistMatrix_Width dist44"
    by (simp_all add: ones22_def dist44_def)
  have g: "grid22 = DistMatrix_Grid dist44" "2 = Grid_Height grid22"
    "2 = Grid_Width grid22" "(0::int) < 2"
    by (simp_all add: dist44_def grid22_def)
  have me: "0 \<le> Grid_MCRank grid22" "Grid_MCRank grid22 < 2"
    "0 \<le> Grid_MRRank grid22" "Grid_MRRank grid22 < 2"
    by (simp_all add: grid22_def)
  have al: "0 \<le> ColAlignment dist44" "0 \<le> RowAlignment dist44" by (simp_all add: dist44_def)
  have X: "matrix_ok ones22" by (simp add: matrix_ok_def ones22_def)
  have fits: "put_fits debug_env dist44 ones22 0 0" by code_simp
  have ok: "data_channels_ok (iface put_world) (Grid_Size grid22)"
    using fresh_data_channels
    by (simp add: put_world_eq Grid_Size_def grid22_def)
  have m: "ISSend (DataBytes \<lparr>ltg_i = 0, ltg_j = 0, ltg_height = 2, ltg_width = 2, ltg_alpha = 1\<rparr> [1])
          32 0 DATA_TAG
     \<in> set (drop (length (trace put_world)) (trace (snd ?run)))"
    by code_simp
  from m AxpyLocalToGlobal_message_layout
    [OF deref_put_world inb(1) inb(1) inb(2,3) g(1-4) g(4) me al cyclic_coordinates_ok X fits ok
       run m]
  show ?thesis by (rule conjI)
qed

text \<open>
  C5 as stated fails on a 2 x 2 grid: a put of a 2 x 2 block sends four messages whose
  header says \<open>height = 2\<close> and \<open>width = 2\<close> and whose payload is the one entry that the
  destination owns, not \<open>height * width = 4\<close> entries.
\<close>

theorem AxpyLocalToGlobal_payload_counterexample:
  "trace (snd (AxpyLocalToGlobal debug_env (\<lambda>request. False) 1 ones22 0 0 put_world))
     = map (\<lambda>dest. ISSend (DataBytes \<lparr>ltg_i = 0, ltg_j = 0, ltg_height = 2, ltg_width = 2,
                                       ltg_alpha = 1\<rparr> [1]) 32 dest DATA_TAG)
         [0, 1, 2, 3]
   \<and> int (length [1 :: int]) \<noteq> 2 * 2"
  by code_simp

theorem AxpyLocalToGlobal_one_message_per_owner_witness:
  "\<exists>w'. AxpyLocalToGlobal debug_env (\<lambda>request. False) 1 ones22 0 0 put_world_at10 = (Returned (), w')
      \<and> trace w' =
          map (\<lambda>dest. ISSend (DataBytes \<lparr>ltg_i = 0, ltg_j = 0, ltg_height = 2, ltg_width = 2,
                                            ltg_alpha = 1\<rparr> [1]) 32 dest DATA_TAG)
            [1, 2, 3, 0]"
proof -
  let ?Y = "dist44\<lparr>DistMatrix_Grid := grid22_at10\<rparr>"
  let ?header = "\<lparr>ltg_i = 0, ltg_j = 0, ltg_height = Matrix_Height ones22,
                   ltg_width = Matrix_Width ones22, ltg_alpha = 1::int\<rparr>"
  have Y: "deref put_world_at10 (localToGlobalMat (iface put_world_at10)) = Some ?Y"
    by (simp add: put_world_at10_eq deref_def resize_members_def AxpyInterface_default_def)
  have inb: "(0::int) \<le> 0" "0 + Matrix_Height ones22 \<le> DistMatrix_Height ?Y"
    "0 + Matrix_Width ones22 \<le> DistMatrix_Width ?Y"
    by (simp_all add: ones22_def dist44_def)
  have g: "grid22_at10 = DistMatrix_Grid ?Y" "2 = Grid_Height grid22_at10"
    "2 = Grid_Width grid22_at10" "(0::int) < 2"
    by (simp_all add: grid22_at10_def grid22_def)
  have me: "0 \<le> Grid_MCRank grid22_at10" "Grid_MCRank grid22_at10 < 2"
    "0 \<le> Grid_MRRank grid22_at10" "Grid_MRRank grid22_at10 < 2"
    by (simp_all add: grid22_at10_def grid22_def)
  have al: "0 \<le> ColAlignment ?Y" "0 \<le> RowAlignment ?Y" by (simp_all add: dist44_def)
  have X: "matrix_ok ones22" by (simp add: matrix_ok_def ones22_def)
  have fits: "put_fits debug_env ?Y ones22 0 0" by code_simp
  have ok: "data_channels_ok (iface put_world_at10) (Grid_Size grid22_at10)"
    using fresh_data_channels
    by (simp add: put_world_at10_eq Grid_Size_def grid22_at10_def grid22_def)
  have sent: "trace put_world_at10 @
           map (data_message debug_env ones22 ?header 2 2 ((ColAlignment ?Y + 0) smod 2)
                  ((RowAlignment ?Y + 0) smod 2))
             (filter (\<lambda>slot. numEntries_of debug_env ?header 2 2 ((ColAlignment ?Y + 0) smod 2)
                               ((RowAlignment ?Y + 0) smod 2) slot \<noteq> 0)
                (slots_from (nat (Grid_Size grid22_at10)) 2 2 (Grid_MCRank grid22_at10)
                   (Grid_MRRank grid22_at10)))
        = map (\<lambda>dest. ISSend (DataBytes \<lparr>ltg_i = 0, ltg_j = 0, ltg_height = 2, ltg_width = 2,
                                            ltg_alpha = 1\<rparr> [1]) 32 dest DATA_TAG)
            [1, 2, 3, 0]"
    by code_simp
  from AxpyLocalToGlobal_one_message_per_owner
    [OF Y inb(1) inb(1) inb(2,3) g(1-4) g(4) me al cyclic_coordinates_ok X fits ok refl refl,
     where Test = "\<lambda>request. False" and alpha = 1]
  show ?thesis unfolding sent by blast
qed

text \<open>
  C6 as stated fails for the process at slot (1, 0) of a 2 x 2 grid: its put of a
  2 x 2 block visits the slots (1, 0), (0, 1), (1, 1), (0, 0) and sends to the ranks
  1, 2, 3, 0 in that order, where the row-major order by (row, col) is
  (0, 0), (0, 1), (1, 0), (1, 1), the ranks 0, 2, 1, 3.
\<close>

theorem AxpyLocalToGlobal_order_counterexample:
  "destinations
     (trace (snd (AxpyLocalToGlobal debug_env (\<lambda>request. False) 1 ones22 0 0 put_world_at10)))
     = [1, 2, 3, 0]
   \<and> slots_from 4 2 2 1 0 = [(1, 0), (0, 1), (1, 1), (0, 0)]
   \<and> row_major_slots 2 2 = [(0, 0), (0, 1), (1, 0), (1, 1)]
   \<and> map (\<lambda>slot. fst slot + 2 * snd slot) (row_major_slots 2 2) = [0, 2, 1, 3]
   \<and> slots_from 4 2 2 1 0 \<noteq> row_major_slots 2 2"
  by code_simp

subsection \<open>Who writes the attached matrix\<close>

lemma resize_for_heap: "heap (snd (resize_for Z w)) = heap w"
  by (simp add: resize_for_def Let_def split: option.splits)

lemma Attach_heap: "heap (snd (Attach axpyType Z w)) = heap w"
  by (simp add: Attach_def Let_def resize_for_heap)

lemma Attach_const_heap: "heap (snd (Attach_const axpyType Z w)) = heap w"
  by (simp add: Attach_const_def Let_def resize_for_heap)

lemma AxpyInterface_ctor_heap: "heap (snd (AxpyInterface_ctor axpyType Z w)) = heap w"
  by (simp add: AxpyInterface_ctor_def Let_def resize_for_heap)

lemma AxpyInterface_ctor_const_heap: "heap (snd (AxpyInterface_ctor_const axpyType Z w)) = heap w"
  by (simp add: AxpyInterface_ctor_const_def Let_def resize_for_heap)

lemma Finished_world: "snd (Finished E w) = w"
  by (simp add: Finished_def Let_def split: option.splits)

lemma UpdateRequestStatuses_heap: "heap (snd (UpdateRequestStatuses Test w)) = heap w"
  using UpdateRequestStatuses_frame [of Test w "fst (UpdateRequestStatuses Test w)"
      "snd (UpdateRequestStatuses Test w)"]
  by simp

lemma HandleEoms_body_heap: "HandleEoms_body i w = (r, w') \<Longrightarrow> heap w' = heap w"
  by (auto simp: HandleEoms_body_def Let_def mpi_ISSend_def split: if_splits)

lemma HandleEoms_heap: "heap (snd (HandleEoms Test probe w)) = heap w"
proof (cases "attached_matrix w")
  case None
  then show ?thesis by (simp add: HandleEoms_def)
next
  case (Some Z)
  obtain r1 w1 where u: "UpdateRequestStatuses Test w = (r1, w1)"
    by (cases "UpdateRequestStatuses Test w")
  have h1: "heap w1 = heap w" using UpdateRequestStatuses_frame [OF u] by simp
  obtain r2 w2 where
    l: "for_loop [0..Grid_Size (DistMatrix_Grid Z) - 1] HandleEoms_body w1 = (r2, w2)"
    by (cases "for_loop [0..Grid_Size (DistMatrix_Grid Z) - 1] HandleEoms_body w1")
  have h2: "heap w2 = heap w1"
    using l by (rule for_loop_rel [where R = "\<lambda>w w'. heap w' = heap w", rotated -1])
      (auto dest: HandleEoms_body_heap)
  show ?thesis
    using Some u l h1 h2
    by (cases r1; cases r2; cases probe)
      (auto simp: HandleEoms_def Let_def mpi_Recv_def split: if_splits)
qed

lemma HandleGlobalToLocalRequest_heap:
  "heap (snd (HandleGlobalToLocalRequest E Test probe w)) = heap w"
  by (auto simp: HandleGlobalToLocalRequest_def Let_def mpi_Recv_def mpi_ISSend_def
      split: option.splits prod.splits result.splits if_splits)

lemma AxpyLocalToGlobal_send_heap:
  "heap (snd (AxpyLocalToGlobal_send E Test X header r c row col colShift rowShift lh lw w)) = heap w"
  by (auto simp: AxpyLocalToGlobal_send_def Let_def mpi_ISSend_def
      split: option.splits prod.splits result.splits if_splits)

lemma AxpyLocalToGlobal_body_heap:
  assumes "AxpyLocalToGlobal_body E Test X header r c colAlignment rowAlignment k st = (res, st')"
  shows "heap (snd (snd st')) = heap (snd (snd st))"
proof -
  obtain row col w where st: "st = (row, col, w)" by (cases st)
  let ?send = "AxpyLocalToGlobal_send E Test X header r c row col
             (Shift E row colAlignment r) (Shift E col rowAlignment c)
             (LocalLength E (ltg_height header) (Shift E row colAlignment r) r)
             (LocalLength E (ltg_width header) (Shift E col rowAlignment c) c) w"
  have "snd (snd st') = w \<or> snd (snd st') = snd ?send"
    using assms st
    by (cases "fst ?send")
      (auto simp: AxpyLocalToGlobal_body_def Let_def split: if_splits prod.splits result.splits)
  then show ?thesis using st AxpyLocalToGlobal_send_heap [of E Test X header r c row col] by auto
qed

lemma AxpyLocalToGlobal_heap: "heap (snd (AxpyLocalToGlobal E Test alpha X i j w)) = heap w"
proof (cases "deref w (localToGlobalMat (iface w))")
  case None
  then show ?thesis by (simp add: AxpyLocalToGlobal_def)
next
  case (Some Y)
  let ?g = "DistMatrix_Grid Y"
  let ?header = "\<lparr>ltg_i = i, ltg_j = j, ltg_height = Matrix_Height X, ltg_width = Matrix_Width X,
                   ltg_alpha = alpha\<rparr>"
  let ?body = "AxpyLocalToGlobal_body E Test X ?header (Grid_Height ?g) (Grid_Width ?g)
                 (add32 (ColAlignment Y) i smod Grid_Height ?g)
                 (add32 (RowAlignment Y) j smod Grid_Width ?g)"
  let ?loop = "for_loop [0..Grid_Size ?g - 1] ?body (Grid_MCRank ?g, Grid_MRRank ?g, w)"
  have "?loop = (fst ?loop, snd ?loop)" by simp
  then have "heap (snd (snd (snd ?loop))) = heap (snd (snd (Grid_MCRank ?g, Grid_MRRank ?g, w)))"
    by (rule for_loop_rel
        [where R = "\<lambda>st st'. heap (snd (snd st')) = heap (snd (snd st))", rotated -1])
      (auto dest: AxpyLocalToGlobal_body_heap)
  then show ?thesis
    using Some by (auto simp: AxpyLocalToGlobal_def Let_def split: prod.splits)
qed

lemma AxpyGlobalToLocal_request_heap:
  "AxpyGlobalToLocal_request E Test requestHeader rank w = (r, w') \<Longrightarrow> heap w' = heap w"
  by (auto simp: AxpyGlobalToLocal_request_def Let_def mpi_ISSend_def
      split: option.splits prod.splits result.splits if_splits)

lemma AxpyGlobalToLocal_unpack_heap:
  "AxpyGlobalToLocal_unpack E alpha i j X reply (Y, w) = (r, (Y', w')) \<Longrightarrow> heap w' = heap w"
  by (auto simp: AxpyGlobalToLocal_unpack_def Let_def mpi_Recv_def
      split: option.splits prod.splits if_splits)

lemma AxpyGlobalToLocal_wait_heap:
  "heap (snd (snd (AxpyGlobalToLocal_wait E alpha i j X evs numReplies (Y, w)))) = heap w"
proof (induction evs arbitrary: numReplies Y w)
  case Nil
  then show ?case by simp
next
  case (Cons ev evs)
  obtain r1 w1 where h: "HandleGlobalToLocalRequest E (ev_Test ev) (ev_request ev) w = (r1, w1)"
    by (cases "HandleGlobalToLocalRequest E (ev_Test ev) (ev_request ev) w")
  have h1: "heap w1 = heap w" using HandleGlobalToLocalRequest_heap [of E "ev_Test ev" "ev_request ev" w] h
    by simp
  show ?case
  proof (cases "numReplies < Grid_Size (DistMatrix_Grid X) \<and> (\<exists>u. r1 = Returned u)")
    case False
    then show ?thesis using h h1 by (cases r1) auto
  next
    case True
    show ?thesis
    proof (cases "ev_reply ev")
      case None
      then show ?thesis using True h h1 Cons.IH [of numReplies Y w1] by auto
    next
      case (Some reply)
      obtain r2 Y2 w2 where u: "AxpyGlobalToLocal_unpack E alpha i j X reply (Y, w1) = (r2, (Y2, w2))"
        by (cases "AxpyGlobalToLocal_unpack E alpha i j X reply (Y, w1)") auto
      have h2: "heap w2 = heap w1" using AxpyGlobalToLocal_unpack_heap [OF u] .
      show ?thesis
        using True h h1 h2 u Some Cons.IH [of "add32 numReplies 1" Y2 w2]
        by (cases r2) auto
    qed
  qed
qed

lemma AxpyGlobalToLocal_heap:
  "heap (snd (snd (AxpyGlobalToLocal E Test evs alpha Y i j w))) = heap w"
proof (cases "deref w (globalToLocalMat (iface w))")
  case None
  then show ?thesis by (simp add: AxpyGlobalToLocal_def)
next
  case (Some X)
  let ?header = "\<lparr>req_i = i, req_j = j, req_height = Matrix_Height Y, req_width = Matrix_Width Y\<rparr>"
  obtain r1 w1 where
    l: "for_loop [0..Grid_Size (DistMatrix_Grid X) - 1] (AxpyGlobalToLocal_request E Test ?header) w
          = (r1, w1)"
    by (cases "for_loop [0..Grid_Size (DistMatrix_Grid X) - 1]
                 (AxpyGlobalToLocal_request E Test ?header) w")
  have h1: "heap w1 = heap w"
    using l by (rule for_loop_rel [where R = "\<lambda>w w'. heap w' = heap w", rotated -1])
      (auto dest: AxpyGlobalToLocal_request_heap)
  show ?thesis
    using Some l h1 AxpyGlobalToLocal_wait_heap [of E alpha i j X evs 0 Y w1]
    by (cases r1) (auto simp: AxpyGlobalToLocal_def Let_def)
qed

lemma Axpy_heap: "heap (snd (snd (Axpy E Test evs alpha Z i j w))) = heap w"
  using AxpyLocalToGlobal_heap [of E Test alpha Z i j w] AxpyGlobalToLocal_heap [of E Test evs alpha Z i j w]
  by (auto simp: Axpy_def split: prod.splits)

lemma Axpy_const_heap: "heap (snd (Axpy_const E Test alpha Z i j w)) = heap w"
  using AxpyLocalToGlobal_heap [of E Test alpha Z i j w]
  by (simp add: Axpy_const_def)

lemma Detach_round_heap:
  "heap (snd (Detach_round E ev w))
     = (if attachedForLocalToGlobal (iface w)
        then heap (snd (HandleLocalToGlobalData E (ev_data ev) w))
        else heap w)"
proof -
  let ?first = "if attachedForLocalToGlobal (iface w)
            then HandleLocalToGlobalData E (ev_data ev) w
            else HandleGlobalToLocalRequest E (ev_Test ev) (ev_request ev) w"
  obtain r1 w1 where f: "?first = (r1, w1)" by (cases ?first)
  have "heap (snd (Detach_round E ev w)) = heap w1"
    using f HandleEoms_heap [of "ev_TestEoms ev" "ev_eom ev" w1]
    by (cases r1) (simp_all add: Detach_round_def)
  moreover have "heap w1 = (if attachedForLocalToGlobal (iface w)
        then heap (snd (HandleLocalToGlobalData E (ev_data ev) w))
        else heap w)"
    using f HandleGlobalToLocalRequest_heap [of E "ev_Test ev" "ev_request ev" w]
    by (auto split: if_splits)
  ultimately show ?thesis by simp
qed

lemma Detach_loop_serviced: "put_serviced E (heap w) (heap (snd (Detach_loop E evs w)))"
proof -
  have "put_serviced E h (heap w) \<Longrightarrow> put_serviced E h (heap (snd (Detach_loop E evs w)))" for h
  proof (induction evs arbitrary: w)
    case Nil
    have "snd (Detach_loop E [] w) = w"
      using Finished_world [of E w] by (cases "Finished E w"; cases "fst (Finished E w)") auto
    then show ?case using Nil by simp
  next
    case (Cons ev evs)
    obtain r1 w1 where f: "Finished E w = (r1, w1)" by (cases "Finished E w")
    have w1: "w1 = w" using Finished_world [of E w] f by simp
    show ?case
    proof (cases "r1 = Returned False")
      case False
      then have "snd (Detach_loop E (ev # evs) w) = w"
        using f w1 by (cases r1) auto
      then show ?thesis using Cons.prems by simp
    next
      case True
      obtain r2 w2 where d: "Detach_round E ev w = (r2, w2)" by (cases "Detach_round E ev w")
      have "put_serviced E h (heap w2)"
      proof (cases "attachedForLocalToGlobal (iface w)")
        case True
        then have "heap w2 = heap (snd (HandleLocalToGlobalData E (ev_data ev) w))"
          using Detach_round_heap [of E ev w] d by simp
        then show ?thesis using put_serviced_step [OF Cons.prems] by simp
      next
        case False
        then have "heap w2 = heap w" using Detach_round_heap [of E ev w] d by simp
        then show ?thesis using Cons.prems by simp
      qed
      then have "put_serviced E h (heap (snd (Detach_loop E evs w2)))" by (rule Cons.IH)
      then show ?thesis using True f w1 d Cons.prems \<open>put_serviced E h (heap w2)\<close>
        by (cases r2) auto
    qed
  qed
  then show ?thesis using put_serviced_same by blast
qed

lemma Detach_serviced: "put_serviced E (heap w) (heap (snd (Detach E evs w)))"
proof -
  obtain r1 w1 where l: "Detach_loop E evs w = (r1, w1)" by (cases "Detach_loop E evs w")
  have s1: "put_serviced E (heap w) (heap w1)" using Detach_loop_serviced [of E w evs] l by simp
  have "heap (snd (Detach E evs w)) = heap w \<or> heap (snd (Detach E evs w)) = heap w1"
    using l by (cases r1) (auto simp: Detach_def Let_def mpi_Barrier_def split: option.splits)
  then show ?thesis using s1 put_serviced_same [of E "heap w"] by auto
qed

lemma AxpyInterface_dtor_serviced:
  "put_serviced E (heap w) (heap (snd (AxpyInterface_dtor E uncaught evs w)))"
proof -
  have "heap (snd (AxpyInterface_dtor E uncaught evs w)) = heap w
        \<or> heap (snd (AxpyInterface_dtor E uncaught evs w)) = heap (snd (Detach E evs w))"
    by (auto simp: AxpyInterface_dtor_def split: option.splits)
  then show ?thesis using Detach_serviced [of E w evs] put_serviced_same [of E "heap w"] by auto
qed

text \<open>
  C8. \<^verbatim>\<open>AxpyLocalToGlobal\<close> leaves the store of distributed matrices as it found it,
  whatever its outcome: it does not write the attached matrix. The same holds for both
  overloads of \<^verbatim>\<open>Axpy\<close>, for \<^verbatim>\<open>AxpyGlobalToLocal\<close> (it writes the caller's local matrix),
  \<^verbatim>\<open>HandleGlobalToLocalRequest\<close>, \<^verbatim>\<open>HandleEoms\<close>, \<^verbatim>\<open>UpdateRequestStatuses\<close>, \<^verbatim>\<open>Finished\<close>,
  both overloads of \<^verbatim>\<open>Attach\<close> and the constructors; \<^verbatim>\<open>ReadyForSend\<close> is given three
  vectors and nothing else. \<^verbatim>\<open>Detach\<close> and the destructor change the store only through
  the calls of \<^verbatim>\<open>HandleLocalToGlobalData\<close> in the loop of \<^verbatim>\<open>Detach\<close>. So
  \<^verbatim>\<open>HandleLocalToGlobalData\<close> is the one function that writes the attached matrix.
\<close>

theorem attached_matrix_written_by_put_servicing_only:
  "heap (snd (AxpyLocalToGlobal E Test alpha X i j w)) = heap w
   \<and> heap (snd (snd (Axpy E Test evs alpha X i j w))) = heap w
   \<and> heap (snd (Axpy_const E Test alpha X i j w)) = heap w
   \<and> heap (snd (snd (AxpyGlobalToLocal E Test evs alpha X i j w))) = heap w
   \<and> heap (snd (HandleGlobalToLocalRequest E Test request w)) = heap w
   \<and> heap (snd (HandleEoms Test eom w)) = heap w
   \<and> heap (snd (UpdateRequestStatuses Test w)) = heap w
   \<and> snd (Finished E w) = w
   \<and> heap (snd (Attach axpyType Z w)) = heap w
   \<and> heap (snd (Attach_const axpyType Z w)) = heap w
   \<and> heap (snd (AxpyInterface_ctor axpyType Z w)) = heap w
   \<and> heap (snd (AxpyInterface_ctor_const axpyType Z w)) = heap w
   \<and> put_serviced E (heap w) (heap (snd (Detach E evs w)))
   \<and> put_serviced E (heap w) (heap (snd (AxpyInterface_dtor E uncaught evs w)))"
  by (intro conjI AxpyLocalToGlobal_heap Axpy_heap Axpy_const_heap AxpyGlobalToLocal_heap
      HandleGlobalToLocalRequest_heap HandleEoms_heap UpdateRequestStatuses_heap Finished_world
      Attach_heap Attach_const_heap AxpyInterface_ctor_heap AxpyInterface_ctor_const_heap
      Detach_serviced AxpyInterface_dtor_serviced)

theorem attached_matrix_written_by_put_servicing_only_witness:
  "heap (snd (AxpyLocalToGlobal debug_env (\<lambda>request. False) 1 ones22 0 0 put_world)) = heap put_world
   \<and> trace (snd (AxpyLocalToGlobal debug_env (\<lambda>request. False) 1 ones22 0 0 put_world))
       \<noteq> trace put_world
   \<and> heap (snd (HandleEoms first_done None busy_world)) = heap busy_world
   \<and> put_serviced debug_env (heap busy_world)
        (heap (snd (Detach debug_env [quiet_event\<lparr>ev_data := Some (0, 32, tall_header, [5, 7])\<rparr>]
                      busy_world)))
   \<and> map_option LocalMemory
        (heap (snd (HandleLocalToGlobalData release_env (Some (0, 40, tall_header, [5, 7]))
                      padded_put_world)) 0)
       = Some [5, 7]"
proof -
  have a: "trace (snd (AxpyLocalToGlobal debug_env (\<lambda>request. False) 1 ones22 0 0 put_world))
       \<noteq> trace put_world"
    by code_simp
  have b: "map_option LocalMemory
        (heap (snd (HandleLocalToGlobalData release_env (Some (0, 40, tall_header, [5, 7]))
                      padded_put_world)) 0)
       = Some [5, 7]"
    by code_simp
  from attached_matrix_written_by_put_servicing_only
    [of debug_env "\<lambda>request. False" 1 ones22 0 0 put_world]
  have c: "heap (snd (AxpyLocalToGlobal debug_env (\<lambda>request. False) 1 ones22 0 0 put_world))
             = heap put_world"
    by blast
  from attached_matrix_written_by_put_servicing_only
    [of debug_env first_done 1 ones22 0 0 busy_world
        "[quiet_event\<lparr>ev_data := Some (0, 32, tall_header, [5, 7])\<rparr>]" None None]
  have d: "heap (snd (HandleEoms first_done None busy_world)) = heap busy_world"
    and e: "put_serviced debug_env (heap busy_world)
        (heap (snd (Detach debug_env [quiet_event\<lparr>ev_data := Some (0, 32, tall_header, [5, 7])\<rparr>]
                      busy_world)))"
    by blast+
  from a b c d e show ?thesis by simp
qed

end
